(* ===== verification/Prelude.thy ===== *)
theory Prelude
  imports Main
begin

text \<open>
  Shared vocabulary of the development: the named collections of unfolding
  rules that the component theories fill, the object-identifier type, and
  generic facts on lists and options that several components use (positional
  removal, first match, optional override).
\<close>

named_theorems js_simps "unfolding rules of the JavaScript exception-state monad"
named_theorems store_simps "characteristic equations of the document-store operations"
named_theorems handler_defs "definitions of the route handlers"

text \<open>MongoDB object identifiers are handled by the code as their hexadecimal strings
  (\<open>item.id\<close>, \<open>req.params.*\<close>, \<open>req.user.id\<close>).\<close>

type_synonym oid = string

subsection \<open>Removing one position of a list\<close>

definition remove_at :: "nat \<Rightarrow> 'a list \<Rightarrow> 'a list" where
  "remove_at k xs = take k xs @ drop (Suc k) xs"

subsection \<open>Optional override\<close>

text \<open>An update object that carries a key overrides the stored value; one that does
  not leaves it alone (the meaning of a MongoDB \<open>$set\<close> for one path).\<close>

definition override :: "'a option \<Rightarrow> 'a \<Rightarrow> 'a" where
  "override n old = (case n of None \<Rightarrow> old | Some v \<Rightarrow> v)"

subsection \<open>Updating and deleting the first match\<close>

text \<open>A single-document write (\<open>findOneAndUpdate\<close>, \<open>findOneAndDelete\<close>,
  \<open>updateOne\<close>) touches the first document of the collection that matches.\<close>

fun update_first :: "('a \<Rightarrow> bool) \<Rightarrow> ('a \<Rightarrow> 'a) \<Rightarrow> 'a list \<Rightarrow> 'a list" where
  "update_first P f [] = []"
| "update_first P f (x # xs) = (if P x then f x # xs else x # update_first P f xs)"

fun delete_first :: "('a \<Rightarrow> bool) \<Rightarrow> 'a list \<Rightarrow> 'a list" where
  "delete_first P [] = []"
| "delete_first P (x # xs) = (if P x then xs else x # delete_first P xs)"

lemma length_remove_at [simp]:
  "k < length xs \<Longrightarrow> length (remove_at k xs) = length xs - 1"
  by (simp add: remove_at_def)

lemma remove_at_beyond [simp]: "length xs \<le> k \<Longrightarrow> remove_at k xs = xs"
  by (simp add: remove_at_def)

lemma remove_at_last: "xs \<noteq> [] \<Longrightarrow> remove_at (length xs - 1) xs = butlast xs"
  by (simp add: remove_at_def butlast_conv_take)

lemma remove_at_first_occurrence:
  assumes "k < length xs" "xs ! k = x" "x \<notin> set (take k xs)"
  shows "remove_at k xs = remove1 x xs"
proof -
  have xs: "xs = take k xs @ x # drop (Suc k) xs"
    using assms(1,2) id_take_nth_drop by metis
  have "remove1 x xs = remove1 x (take k xs @ x # drop (Suc k) xs)"
    by (subst xs) (rule refl)
  also have "\<dots> = take k xs @ drop (Suc k) xs"
    using assms(3) by (simp add: remove1_append)
  finally show ?thesis by (simp add: remove_at_def)
qed

lemma override_simps [simp]:
  "override None old = old"
  "override (Some v) old = v"
  by (simp_all add: override_def)

subsection \<open>First match of a list\<close>

lemma find_SomeD:
  "find P xs = Some x \<Longrightarrow> x \<in> set xs \<and> P x"
  by (auto simp: find_Some_iff)

lemma find_map_filter:
  "(\<forall>x\<in>set xs. P x \<longrightarrow> Q x) \<Longrightarrow> find P (filter Q xs) = find P xs"
  by (induction xs) auto

lemma length_update_first [simp]: "length (update_first P f xs) = length xs"
  by (induction xs) auto

lemma map_update_first:
  "(\<And>x. P x \<Longrightarrow> g (f x) = g x) \<Longrightarrow> map g (update_first P f xs) = map g xs"
  by (induction xs) auto

lemma update_first_no_match: "\<not> (\<exists>x\<in>set xs. P x) \<Longrightarrow> update_first P f xs = xs"
  by (induction xs) auto

lemma find_update_first:
  "(\<And>x. P x \<Longrightarrow> P (f x)) \<Longrightarrow>
   find P (update_first P f xs) = map_option f (find P xs)"
  by (induction xs) auto

lemma set_update_first_subset:
  "set (update_first P f xs) \<subseteq> set xs \<union> f ` {x \<in> set xs. P x}"
  by (induction xs) auto

lemma delete_first_no_match: "\<not> (\<exists>x\<in>set xs. P x) \<Longrightarrow> delete_first P xs = xs"
  by (induction xs) auto

lemma set_delete_first_subset: "set (delete_first P xs) \<subseteq> set xs"
  by (induction xs) auto

lemma delete_first_filter_distinct:
  "distinct (map g xs) \<Longrightarrow> delete_first (\<lambda>x. g x = k) xs = filter (\<lambda>x. g x \<noteq> k) xs"
proof (induction xs)
  case Nil then show ?case by simp
next
  case (Cons x xs)
  show ?case
  proof (cases "g x = k")
    case True
    with Cons.prems have "\<forall>y\<in>set xs. g y \<noteq> k" by (auto simp: image_iff)
    with True show ?thesis by simp
  next
    case False with Cons show ?thesis by simp
  qed
qed

lemma map_delete_first_distinct:
  "distinct (map g xs) \<Longrightarrow> distinct (map g (delete_first P xs))"
proof (induction xs)
  case Nil then show ?case by simp
next
  case (Cons x xs)
  have "set (delete_first P xs) \<subseteq> set xs" by (rule set_delete_first_subset)
  with Cons show ?case by auto
qed

lemma length_filter_distinct_map:
  "distinct (map g xs) \<Longrightarrow> length (filter (\<lambda>x. g x = k) xs) = (if k \<in> g ` set xs then 1 else 0)"
proof (induction xs)
  case Nil then show ?case by simp
next
  case (Cons x xs)
  then show ?case by (auto simp: filter_empty_conv image_iff)
qed

lemma length_filter_update_first:
  "(\<And>x. P x \<Longrightarrow> P (f x)) \<Longrightarrow> length (filter P (update_first P f xs)) = length (filter P xs)"
  by (induction xs) auto

lemma find_update_first_other:
  assumes "find P xs = Some x" "Q x" "P (f x)" "distinct (map g xs)" "\<And>y. Q y \<Longrightarrow> g y = g x"
  shows "find P (update_first Q f xs) = Some (f x)"
  using assms
proof (induction xs)
  case Nil then show ?case by simp
next
  case (Cons y ys)
  show ?case
  proof (cases "P y")
    case True
    with Cons.prems(1) have "y = x" by simp
    with Cons.prems(2,3) show ?thesis by simp
  next
    case False
    with Cons.prems(1) have fx: "find P ys = Some x" by simp
    then have "x \<in> set ys" by (auto dest: find_SomeD)
    with Cons.prems(4) have "g y \<noteq> g x" by (auto simp: image_iff)
    with Cons.prems(5) have "\<not> Q y" by blast
    with False Cons.IH[OF fx Cons.prems(2,3)] Cons.prems(4,5) show ?thesis by simp
  qed
qed

lemma find_update_first_disjoint:
  "(\<And>x. x \<in> set xs \<Longrightarrow> P x \<Longrightarrow> \<not> Q x \<and> \<not> Q (f x)) \<Longrightarrow>
   find Q (update_first P f xs) = find Q xs"
  by (induction xs) auto

lemma list_all_update_first:
  "list_all Q xs \<Longrightarrow> (\<And>x. x \<in> set xs \<Longrightarrow> P x \<Longrightarrow> Q (f x)) \<Longrightarrow>
   list_all Q (update_first P f xs)"
  by (induction xs) auto

lemma list_all_delete_first: "list_all Q xs \<Longrightarrow> list_all Q (delete_first P xs)"
  using set_delete_first_subset by (fastforce simp: list_all_iff)

lemma find_update_first_gone:
  assumes "\<And>x. Q x \<Longrightarrow> \<not> Q (f x)" "distinct (map g xs)" "\<And>x y. Q x \<Longrightarrow> Q y \<Longrightarrow> g x = g y"
  shows "find Q (update_first Q f xs) = None"
  using assms(2)
proof (induction xs)
  case Nil then show ?case by simp
next
  case (Cons x xs)
  show ?case
  proof (cases "Q x")
    case True
    have "\<not> Q y" if "y \<in> set xs" for y
    proof
      assume "Q y"
      with True assms(3) have "g y = g x" by blast
      with that Cons.prems show False by (auto simp: image_iff)
    qed
    with True assms(1) have "find Q (f x # xs) = None" by (simp add: find_None_iff)
    with True show ?thesis by simp
  next
    case False with Cons show ?thesis by simp
  qed
qed

lemma find_distinct_unique:
  "distinct (map g xs) \<Longrightarrow> x \<in> set xs \<Longrightarrow> P x \<Longrightarrow> (\<And>y. P y \<Longrightarrow> g y = g x) \<Longrightarrow>
   find P xs = Some x"
proof (induction xs)
  case Nil then show ?case by simp
next
  case (Cons y ys)
  show ?case
  proof (cases "P y")
    case True
    with Cons.prems(4) have "g y = g x" by blast
    with Cons.prems(1,2) have "y = x" by (auto simp: image_iff)
    with True show ?thesis by simp
  next
    case False
    with Cons.prems(2,3) have x: "x \<in> set ys" by auto
    from Cons.prems(1) have "distinct (map g ys)" by simp
    from Cons.IH[OF this x Cons.prems(3,4)] False show ?thesis by simp
  qed
qed

lemma length_delete_first:
  "length xs - 1 \<le> length (delete_first P xs) \<and> length (delete_first P xs) \<le> length xs"
  by (induction xs) auto

lemma find_append_None:
  "find P xs = None \<Longrightarrow> find P (xs @ ys) = find P ys"
  by (induction xs) auto

end
