(* ===== verification/JsCore.thy ===== *)
theory JsCore
  imports Prelude
begin

text \<open>
  The part of JavaScript the route handlers rely on: dynamically typed values and
  their truthiness (the \<open>if (company)\<close> tests of \<open>src/routes/api/profile.js\<close>),
  exceptions, and the string and array built-ins the handlers call
  (\<open>String.prototype.split\<close>, \<open>String.prototype.trim\<close>,
  \<open>Array.prototype.indexOf\<close>, \<open>Array.prototype.splice\<close>,
  \<open>Array.prototype.unshift\<close>). Exceptions and state are threaded by an
  exception-state monad: a computation maps a state to either an exception
  together with the state reached when it was thrown, or a result and the next
  state; side effects performed before a throw persist, as they do in the code.
\<close>

subsection \<open>Values and truthiness\<close>

text \<open>A request-body field is a parsed JSON value or \<open>undefined\<close>. JSON numbers
  are modelled by their integer values.\<close>

datatype jsval = JUndef | JNull | JBool bool | JNum int | JStr string

fun truthy :: "jsval \<Rightarrow> bool" where
  "truthy JUndef = False"
| "truthy JNull = False"
| "truthy (JBool b) = b"
| "truthy (JNum n) = (n \<noteq> 0)"
| "truthy (JStr s) = (s \<noteq> [])"

subsection \<open>Exceptions and the exception-state monad\<close>

datatype exn =
    TypeError string      \<comment> \<open>property access on \<open>null\<close>, call of a non-function\<close>
  | ReferenceError string \<comment> \<open>use of an undeclared identifier\<close>
  | CastError string      \<comment> \<open>Mongoose: a query value does not cast to an ObjectId\<close>
  | VersionError          \<comment> \<open>Mongoose: a versioned save matched no document\<close>
  | HeadersSent           \<comment> \<open>Express: a second response on one request\<close>
  | StoreError            \<comment> \<open>the database could not be reached\<close>
  | SyntaxError           \<comment> \<open>\<open>JSON.parse\<close> of a non-JSON text\<close>

type_synonym ('a, 's) js = "'s \<Rightarrow> (exn \<times> 's) + ('a \<times> 's)"

definition js_return :: "'a \<Rightarrow> ('a, 's) js" where
  [js_simps]: "js_return x s = Inr (x, s)"

definition js_throw :: "exn \<Rightarrow> ('a, 's) js" where
  [js_simps]: "js_throw e s = Inl (e, s)"

definition js_bind :: "('a, 's) js \<Rightarrow> ('a \<Rightarrow> ('b, 's) js) \<Rightarrow> ('b, 's) js" where
  [js_simps]: "js_bind m f s = (case m s of Inl es \<Rightarrow> Inl es | Inr (x, s') \<Rightarrow> f x s')"

definition js_then :: "('a, 's) js \<Rightarrow> ('b, 's) js \<Rightarrow> ('b, 's) js" where
  [js_simps]: "js_then m n = js_bind m (\<lambda>_. n)"

text \<open>\<open>try { m } catch (err) { h err }\<close>: the handler starts from the state in which
  the exception was thrown.\<close>

definition js_catch :: "('a, 's) js \<Rightarrow> (exn \<Rightarrow> ('a, 's) js) \<Rightarrow> ('a, 's) js" where
  [js_simps]: "js_catch m h s = (case m s of Inl (e, s') \<Rightarrow> h e s' | Inr r \<Rightarrow> Inr r)"

definition js_gets :: "('s \<Rightarrow> 'a) \<Rightarrow> ('a, 's) js" where
  [js_simps]: "js_gets f s = Inr (f s, s)"

definition js_modify :: "('s \<Rightarrow> 's) \<Rightarrow> (unit, 's) js" where
  [js_simps]: "js_modify f s = Inr ((), f s)"

subsection \<open>Strings\<close>

text \<open>Characters are read as the code points U+0000 to U+00FF. In that range the
  white space and line terminators that \<open>trim\<close> removes are TAB, LF, VT, FF, CR,
  SPACE and NO-BREAK SPACE.\<close>

definition js_whitespace :: "char \<Rightarrow> bool" where
  "js_whitespace c \<longleftrightarrow> of_char c \<in> {9, 10, 11, 12, 13, 32, 160 :: nat}"

definition js_trim :: "string \<Rightarrow> string" where
  "js_trim s = rev (dropWhile js_whitespace (rev (dropWhile js_whitespace s)))"

text \<open>\<open>s.split(c)\<close> for a one-character separator: the maximal pieces between
  separators, \<open>[''''] \<close> for the empty string.\<close>

fun js_split :: "char \<Rightarrow> string \<Rightarrow> string list" where
  "js_split c [] = [[]]"
| "js_split c (x # xs) =
     (if x = c then [] # js_split c xs
      else (let r = js_split c xs in (x # hd r) # tl r))"

text \<open>\<open>ps.join(c)\<close>, the inverse of \<open>split\<close>.\<close>

fun js_join :: "char \<Rightarrow> string list \<Rightarrow> string" where
  "js_join c [] = []"
| "js_join c [p] = p"
| "js_join c (p # q # ps) = p @ c # js_join c (q # ps)"

subsection \<open>Arrays\<close>

text \<open>\<open>xs.indexOf(x)\<close>: the first position holding \<open>x\<close> (strict equality), or
  \<open>-1\<close>.\<close>

fun js_index_of :: "'a \<Rightarrow> 'a list \<Rightarrow> int" where
  "js_index_of x [] = -1"
| "js_index_of x (y # ys) =
     (if x = y then 0 else (let i = js_index_of x ys in if i = -1 then -1 else i + 1))"

text \<open>\<open>xs.splice(start, 1)\<close> as ECMAScript specifies it: a negative start counts
  from the end (\<open>max(len + start, 0)\<close>), a start beyond the end removes nothing.\<close>

definition js_splice1 :: "int \<Rightarrow> 'a list \<Rightarrow> 'a list" where
  "js_splice1 start xs =
     (let len = int (length xs);
          k = (if start < 0 then max (len + start) 0 else min start len)
      in remove_at (nat k) xs)"

text \<open>\<open>xs.unshift(x)\<close>: insertion at the head.\<close>

definition js_unshift :: "'a \<Rightarrow> 'a list \<Rightarrow> 'a list" where
  "js_unshift x xs = x # xs"

lemma js_bind_return [simp]: "js_bind (js_return x) f = f x"
  by (simp add: js_simps fun_eq_iff)

lemma js_return_bind [simp]: "js_bind m js_return = m"
  by (simp add: js_simps fun_eq_iff split: sum.split)

lemma js_bind_assoc:
  "js_bind (js_bind m f) g = js_bind m (\<lambda>x. js_bind (f x) g)"
  by (simp add: js_simps fun_eq_iff split: sum.split)

lemma js_bind_throw [simp]: "js_bind (js_throw e) f = js_throw e"
  by (simp add: js_simps fun_eq_iff)

lemma js_catch_return [simp]: "js_catch (js_return x) h = js_return x"
  by (simp add: js_simps fun_eq_iff)

lemma js_catch_throw [simp]: "js_catch (js_throw e) h = h e"
  by (simp add: js_simps fun_eq_iff)

subsection \<open>Facts on the built-ins\<close>

text \<open>\<open>indexOf\<close> finds the first occurrence; \<open>splice\<close> at that index is the
  library's \<open>remove1\<close>; at \<open>-1\<close> it drops the last element.\<close>
lemma js_index_of_ge: "-1 \<le> js_index_of x xs"
  by (induction xs) (auto simp: Let_def)

lemma js_index_of_minus1_iff: "js_index_of x xs = -1 \<longleftrightarrow> x \<notin> set xs"
proof (induction xs)
  case Nil then show ?case by simp
next
  case (Cons y ys)
  have "-1 \<le> js_index_of x ys" by (rule js_index_of_ge)
  with Cons show ?case by (auto simp: Let_def)
qed

lemma js_index_of_found:
  assumes "x \<in> set xs"
  shows "0 \<le> js_index_of x xs \<and> nat (js_index_of x xs) < length xs \<and>
         xs ! nat (js_index_of x xs) = x \<and> x \<notin> set (take (nat (js_index_of x xs)) xs)"
  using assms
proof (induction xs)
  case Nil then show ?case by simp
next
  case (Cons y ys)
  show ?case
  proof (cases "x = y")
    case True then show ?thesis by simp
  next
    case False
    with Cons.prems have x: "x \<in> set ys" by simp
    then have ne: "js_index_of x ys \<noteq> -1" by (simp add: js_index_of_minus1_iff)
    from Cons.IH[OF x] False ne show ?thesis
      by (simp add: Let_def nat_add_distrib)
  qed
qed

lemma js_splice1_index_of:
  assumes "x \<in> set xs"
  shows "js_splice1 (js_index_of x xs) xs = remove1 x xs"
proof -
  let ?i = "js_index_of x xs"
  from js_index_of_found[OF assms]
  have i: "0 \<le> ?i" "nat ?i < length xs" "xs ! nat ?i = x" "x \<notin> set (take (nat ?i) xs)"
    by auto
  then have "js_splice1 ?i xs = remove_at (nat ?i) xs"
    by (simp add: js_splice1_def Let_def)
  also have "\<dots> = remove1 x xs"
    using i(2-4) by (rule remove_at_first_occurrence)
  finally show ?thesis .
qed

lemma js_splice1_minus1: "js_splice1 (-1) xs = butlast xs"
proof (cases "xs = []")
  case True then show ?thesis by (simp add: js_splice1_def remove_at_def)
next
  case False
  then have "nat (max (int (length xs) - 1) 0) = length xs - 1" by (cases xs) auto
  with False remove_at_last[OF False] show ?thesis by (simp add: js_splice1_def)
qed

lemma js_split_nonempty [simp]: "js_split c s \<noteq> []"
  by (induction s) (auto simp: Let_def)

lemma js_join_split: "js_join c (js_split c s) = s"
proof (induction s)
  case Nil then show ?case by simp
next
  case (Cons x xs)
  show ?case
  proof (cases "x = c")
    case True
    then show ?thesis using Cons.IH by (cases "js_split c xs") auto
  next
    case False
    obtain r rs where r: "js_split c xs = r # rs" by (cases "js_split c xs") auto
    with Cons.IH False show ?thesis by (cases rs) auto
  qed
qed

lemma js_split_no_sep: "p \<in> set (js_split c s) \<Longrightarrow> c \<notin> set p"
proof (induction s arbitrary: p)
  case Nil then show ?case by simp
next
  case (Cons x xs)
  obtain r rs where r: "js_split c xs = r # rs" by (cases "js_split c xs") auto
  with Cons show ?case by (auto simp: Let_def split: if_splits)
qed

lemma length_js_split: "length (js_split c s) = count_list s c + 1"
  by (induction s) (auto simp: Let_def)

lemma js_split_no_sep_single: "c \<notin> set s \<Longrightarrow> js_split c s = [s]"
  by (induction s) (auto simp: Let_def)

lemma js_split_append_sep: "js_split c (a @ c # b) = js_split c a @ js_split c b"
proof (induction a)
  case Nil then show ?case by simp
next
  case (Cons x xs)
  obtain r rs where r: "js_split c xs = r # rs" by (cases "js_split c xs") auto
  with Cons.IH show ?case by (simp add: Let_def)
qed

lemma js_split_join:
  "ps \<noteq> [] \<Longrightarrow> \<forall>p\<in>set ps. c \<notin> set p \<Longrightarrow> js_split c (js_join c ps) = ps"
proof (induction c ps rule: js_join.induct)
  case (1 c) then show ?case by simp
next
  case (2 c p)
  then show ?case
  proof (induction p)
    case Nil then show ?case by simp
  next
    case (Cons a p) then show ?case by (auto simp: Let_def)
  qed
next
  case (3 c p q ps)
  then have IH: "js_split c (js_join c (q # ps)) = q # ps" by simp
  from "3.prems" have "c \<notin> set p" by simp
  then show ?case
  proof (induction p)
    case Nil then show ?case by (simp add: IH)
  next
    case (Cons a p) then show ?case by (auto simp: Let_def)
  qed
qed

lemma js_trim_ends:
  assumes "js_trim s \<noteq> []"
  shows "\<not> js_whitespace (hd (js_trim s)) \<and> \<not> js_whitespace (last (js_trim s))"
proof -
  define t where "t = dropWhile js_whitespace s"
  define u where "u = dropWhile js_whitespace (rev t)"
  have trim: "js_trim s = rev u" by (simp add: js_trim_def t_def u_def)
  with assms have u: "u \<noteq> []" by simp
  then have hu: "\<not> js_whitespace (hd u)" unfolding u_def by (rule hd_dropWhile)
  from u have t: "t \<noteq> []" by (auto simp: u_def)
  then have ht: "\<not> js_whitespace (hd t)" unfolding t_def by (rule hd_dropWhile)
  have "u = drop (length (takeWhile js_whitespace (rev t))) (rev t)"
    by (simp add: u_def dropWhile_eq_drop)
  with u have "last u = last (rev t)" by (metis drop_all last_drop not_le_imp_less)
  with ht have "\<not> js_whitespace (last u)" by (simp add: last_rev)
  with hu trim show ?thesis by (simp add: hd_rev last_rev)
qed

lemma js_trim_id:
  assumes "s = [] \<or> \<not> js_whitespace (hd s) \<and> \<not> js_whitespace (last s)"
  shows "js_trim s = s"
proof (cases "s = []")
  case True then show ?thesis by (simp add: js_trim_def)
next
  case False
  with assms have "dropWhile js_whitespace s = s" by (simp add: dropWhile_eq_self_iff)
  moreover from False assms have "dropWhile js_whitespace (rev s) = rev s"
    by (simp add: dropWhile_eq_self_iff hd_rev)
  ultimately show ?thesis by (simp add: js_trim_def)
qed

lemma js_trim_idem: "js_trim (js_trim s) = js_trim s"
  using js_trim_ends[of s] by (intro js_trim_id) auto

lemma js_index_of_eq:
  "k < length xs \<Longrightarrow> xs ! k = x \<Longrightarrow> (\<forall>j<k. xs ! j \<noteq> x) \<Longrightarrow> js_index_of x xs = int k"
proof (induction xs arbitrary: k)
  case Nil then show ?case by simp
next
  case (Cons y ys)
  show ?case
  proof (cases k)
    case 0 with Cons.prems show ?thesis by simp
  next
    case (Suc k')
    with Cons.prems have "y \<noteq> x" by auto
    moreover from Suc Cons.prems have "js_index_of x ys = int k'"
      by (intro Cons.IH) auto
    ultimately show ?thesis using Suc by (simp add: Let_def)
  qed
qed

lemma js_splice1_index_of_map:
  assumes "find (\<lambda>y. g y = x) xs = Some y"
  shows "js_splice1 (js_index_of x (map g xs)) xs = remove1 y xs"
proof -
  from assms obtain k where k: "k < length xs" "g (xs ! k) = x" "y = xs ! k"
      and before: "\<forall>j<k. g (xs ! j) \<noteq> x"
    by (auto simp: find_Some_iff)
  have "js_index_of x (map g xs) = int k"
    using k before by (intro js_index_of_eq) auto
  then have "js_splice1 (js_index_of x (map g xs)) xs = remove_at k xs"
    using k by (simp add: js_splice1_def)
  also have "\<dots> = remove1 y xs"
  proof (rule remove_at_first_occurrence)
    show "y \<notin> set (take k xs)"
      using k before by (auto simp: in_set_conv_nth)
  qed (use k in auto)
  finally show ?thesis .
qed

lemma js_splice1_index_of_map_absent:
  "x \<notin> g ` set xs \<Longrightarrow> js_splice1 (js_index_of x (map g xs)) xs = butlast xs"
proof -
  assume "x \<notin> g ` set xs"
  then have "js_index_of x (map g xs) = -1" by (simp add: js_index_of_minus1_iff)
  then show ?thesis by (simp add: js_splice1_minus1)
qed

lemma set_js_trim: "set (js_trim s) \<subseteq> set s"
proof
  fix c assume "c \<in> set (js_trim s)"
  then have "c \<in> set (dropWhile js_whitespace (rev (dropWhile js_whitespace s)))"
    by (simp add: js_trim_def)
  then have "c \<in> set (dropWhile js_whitespace s)" by (auto dest: set_dropWhileD)
  then show "c \<in> set s" by (rule set_dropWhileD)
qed

end
