(* ===== verification/ObjectId.thy ===== *)
theory ObjectId
  imports Prelude
begin

text \<open>
  MongoDB object identifiers as the code sees them: 24-character lower-case
  hexadecimal strings (\<open>item.id\<close>, \<open>req.user.id\<close>), and the cast that Mongoose
  applies to a string used as an ObjectId query value (\<open>req.params.user_id\<close>):
  the bson library of Mongoose 5 accepts a 24-digit hexadecimal string (either
  case) or any 12-character string, whose character codes are the 12 bytes of the
  identifier, and throws a \<open>CastError\<close> otherwise. Fresh identifiers are drawn
  from a counter and printed as 24 hexadecimal digits.
\<close>

definition hex_digit :: "nat \<Rightarrow> char" where
  "hex_digit d = (if d < 10 then char_of (48 + d) else char_of (87 + d))"

text \<open>\<open>hex_pad w n\<close>: the hexadecimal digits of \<open>n\<close>, left-padded with zeros to
  at least \<open>w\<close> digits.\<close>

function hex_pad :: "nat \<Rightarrow> nat \<Rightarrow> string" where
  "hex_pad w n =
     (if w = 0 \<and> n = 0 then [] else hex_pad (w - 1) (n div 16) @ [hex_digit (n mod 16)])"
  by pat_completeness auto
termination
  by (relation "measure (\<lambda>(w, n). w + n)") auto

declare hex_pad.simps [simp del]

definition oid_of_nat :: "nat \<Rightarrow> oid" where
  "oid_of_nat n = hex_pad 24 n"

definition hex_val :: "char \<Rightarrow> nat option" where
  "hex_val c =
     (let k = of_char c in
      if 48 \<le> k \<and> k \<le> 57 then Some (k - 48)
      else if 97 \<le> k \<and> k \<le> 102 then Some (k - 87)
      else if 65 \<le> k \<and> k \<le> 70 then Some (k - 55)
      else None)"

fun hex_acc :: "nat \<Rightarrow> string \<Rightarrow> nat option" where
  "hex_acc acc [] = Some acc"
| "hex_acc acc (c # cs) = (case hex_val c of None \<Rightarrow> None | Some d \<Rightarrow> hex_acc (16 * acc + d) cs)"

definition is_hex :: "char \<Rightarrow> bool" where
  "is_hex c \<longleftrightarrow> hex_val c \<noteq> None"

definition hex_lower :: "char \<Rightarrow> char" where
  "hex_lower c = (let k = (of_char c :: nat) in if 65 \<le> k \<and> k \<le> 70 then char_of (k + 32) else c)"

definition cast_oid :: "string \<Rightarrow> oid option" where
  "cast_oid s =
     (if length s = 24 \<and> list_all is_hex s then Some (map hex_lower s)
      else if length s = 12 then Some (concat (map (\<lambda>c. hex_pad 2 (of_char c)) s))
      else None)"

lemma hex_pad_0 [simp]: "hex_pad 0 0 = []"
  by (simp add: hex_pad.simps)

lemma hex_pad_step:
  "\<not> (w = 0 \<and> n = 0) \<Longrightarrow> hex_pad w n = hex_pad (w - 1) (n div 16) @ [hex_digit (n mod 16)]"
  by (metis hex_pad.simps)

lemma hex_val_digit: "d < 16 \<Longrightarrow> hex_val (hex_digit d) = Some d"
  by (simp add: hex_val_def hex_digit_def Let_def)

lemma hex_acc_append:
  "hex_acc acc (xs @ ys) = (case hex_acc acc xs of None \<Rightarrow> None | Some a \<Rightarrow> hex_acc a ys)"
  by (induction acc xs rule: hex_acc.induct) (auto split: option.split)

lemma hex_acc_hex_pad:
  "hex_acc acc (hex_pad w n) = Some (acc * 16 ^ length (hex_pad w n) + n)"
proof (induction w n arbitrary: acc rule: hex_pad.induct)
  case (1 w n)
  show ?case
  proof (cases "w = 0 \<and> n = 0")
    case True then show ?thesis by simp
  next
    case False
    let ?L = "length (hex_pad (w - 1) (n div 16))"
    have "hex_acc acc (hex_pad w n) =
          hex_acc acc (hex_pad (w - 1) (n div 16) @ [hex_digit (n mod 16)])"
      using False by (rule hex_pad_step[THEN arg_cong])
    also have "\<dots> = Some (16 * (acc * 16 ^ ?L + n div 16) + n mod 16)"
      using "1.IH"[OF False] by (simp add: hex_acc_append hex_val_digit)
    also have "16 * (acc * 16 ^ ?L + n div 16) + n mod 16 = acc * 16 ^ Suc ?L + n"
      by (simp add: algebra_simps)
    also have "Suc ?L = length (hex_pad w n)"
      by (simp add: hex_pad_step[OF False])
    finally show ?thesis .
  qed
qed

lemma length_hex_pad: "n < 16 ^ w \<Longrightarrow> length (hex_pad w n) = w"
proof (induction w n rule: hex_pad.induct)
  case (1 w n)
  show ?case
  proof (cases "w = 0 \<and> n = 0")
    case True then show ?thesis by (simp add: hex_pad_0)
  next
    case False
    with "1.prems" have w: "0 < w" by (cases w) auto
    with "1.prems" have "n div 16 < 16 ^ (w - 1)"
      by (cases w) (auto simp: less_mult_imp_div_less)
    with "1.IH"[OF False] have "length (hex_pad (w - 1) (n div 16)) = w - 1" by simp
    with w show ?thesis by (simp add: hex_pad_step[OF False])
  qed
qed

lemma hex_pad_inj: "hex_pad w m = hex_pad w n \<Longrightarrow> m = n"
proof -
  assume eq: "hex_pad w m = hex_pad w n"
  have "Some m = hex_acc 0 (hex_pad w m)" using hex_acc_hex_pad[of 0 w m] by simp
  also have "\<dots> = hex_acc 0 (hex_pad w n)" by (simp only: eq)
  also have "\<dots> = Some n" using hex_acc_hex_pad[of 0 w n] by simp
  finally show "m = n" by simp
qed

lemma oid_of_nat_inj: "oid_of_nat m = oid_of_nat n \<longleftrightarrow> m = n"
  by (auto simp: oid_of_nat_def dest: hex_pad_inj)

lemma set_hex_pad: "c \<in> set (hex_pad w n) \<Longrightarrow> \<exists>d<16. c = hex_digit d"
proof (induction w n rule: hex_pad.induct)
  case (1 w n)
  show ?case
  proof (cases "w = 0 \<and> n = 0")
    case True with "1.prems" show ?thesis by (simp add: hex_pad_0)
  next
    case False
    from "1.prems" hex_pad_step[OF False]
    have "c \<in> set (hex_pad (w - 1) (n div 16)) \<or> c = hex_digit (n mod 16)"
      by auto
    moreover have "n mod 16 < 16" by simp
    ultimately show ?thesis using "1.IH"[OF False] by blast
  qed
qed

lemma hex_digit_is_hex: "d < 16 \<Longrightarrow> is_hex (hex_digit d)"
  by (simp add: is_hex_def hex_val_digit)

lemma hex_lower_digit: "d < 16 \<Longrightarrow> hex_lower (hex_digit d) = hex_digit d"
  by (simp add: hex_lower_def hex_digit_def Let_def)

lemma cast_oid_hex:
  assumes "length s = 24" "\<forall>c\<in>set s. \<exists>d<16. c = hex_digit d"
  shows "cast_oid s = Some s"
proof -
  from assms(2) have "list_all is_hex s" by (auto simp: list_all_iff hex_digit_is_hex)
  moreover from assms(2) have "map hex_lower s = s"
    by (induction s) (auto simp: hex_lower_digit)
  ultimately show ?thesis using assms(1) by (simp add: cast_oid_def)
qed

lemma cast_oid_of_nat: "n < 16 ^ 24 \<Longrightarrow> cast_oid (oid_of_nat n) = Some (oid_of_nat n)"
  unfolding oid_of_nat_def
  by (rule cast_oid_hex) (auto simp: length_hex_pad dest: set_hex_pad)

end
