(* ===== verification/Store.thy ===== *)
theory Store
  imports JsCore ObjectId
begin

text \<open>
  The document store as the profile routes use it through Mongoose: the three
  collections (User, Profile, Post) as lists in natural order, the ObjectId
  generator's counter, and an availability flag whose failure makes every
  operation throw (the only way a store call fails in this model). The
  Mongoose model files are not part of the sources; the document shapes follow
  the data model of the specification (section 3) and the fields the route
  handlers write. Every operation returns a sum: an exception, or its result
  and the next database.

  Two Mongoose behaviours matter to the handlers and are modelled as Mongoose 5
  implements them: \<open>findOne\<close>, \<open>findOneAndUpdate\<close> and \<open>findOneAndDelete\<close> act
  on the first matching document only; \<open>doc.save()\<close> after an array was changed
  in memory (\<open>unshift\<close>, \<open>splice\<close>) writes only that array, guarded by the
  document version \<open>__v\<close> read with the document, increments the version, and
  fails with a \<open>VersionError\<close> when no document with that id and version is left.
\<close>

subsection \<open>Documents\<close>

record user =
  u_id :: oid
  u_name :: string
  u_email :: string
  u_avatar :: string

record comment =
  c_id :: oid
  c_user :: oid
  c_text :: string
  c_name :: string
  c_avatar :: string

record post =
  post_id :: oid
  post_user :: oid
  post_text :: string
  post_likes :: "oid list"
  post_comments :: "comment list"

record social =
  youtube :: "jsval option"
  twitter :: "jsval option"
  instagram :: "jsval option"
  linkedin :: "jsval option"
  facebook :: "jsval option"

record experience =
  exp_id :: oid
  exp_title :: jsval
  exp_company :: jsval
  exp_location :: jsval
  exp_from :: jsval
  exp_to :: jsval
  exp_current :: jsval
  exp_description :: jsval

record education =
  edu_id :: oid
  edu_school :: jsval
  edu_degree :: jsval
  edu_fieldofstudy :: jsval
  edu_from :: jsval
  edu_to :: jsval
  edu_current :: jsval
  edu_description :: jsval

record profile =
  p_id :: oid
  p_v :: nat
  p_user :: oid
  p_company :: "jsval option"
  p_website :: "jsval option"
  p_location :: "jsval option"
  p_bio :: "jsval option"
  p_status :: "jsval option"
  p_githubusername :: "jsval option"
  p_skills :: "string list"
  p_social :: social
  p_experience :: "experience list"
  p_education :: "education list"

record db =
  users :: "user list"
  profiles :: "profile list"
  posts :: "post list"
  next_oid :: nat
  online :: bool

type_synonym 'a query = "db \<Rightarrow> exn + ('a \<times> db)"

definition fresh_oid :: "db \<Rightarrow> oid \<times> db" where
  "fresh_oid d = (oid_of_nat (next_oid d), d\<lparr>next_oid := Suc (next_oid d)\<rparr>)"

subsection \<open>The update object of a profile write\<close>

text \<open>The object \<open>profileFields\<close> that the create-or-update handler assembles: a
  key is present (\<open>Some\<close>) only when the handler set it.\<close>

record profile_fields =
  pf_user :: oid
  pf_company :: "jsval option"
  pf_website :: "jsval option"
  pf_location :: "jsval option"
  pf_bio :: "jsval option"
  pf_status :: "jsval option"
  pf_githubusername :: "jsval option"
  pf_skills :: "string list option"
  pf_social :: social

definition set_path :: "'a option \<Rightarrow> 'a option \<Rightarrow> 'a option" where
  "set_path n old = (case n of None \<Rightarrow> old | Some v \<Rightarrow> Some v)"

text \<open>\<open>{$set: profileFields}\<close>: every present key overwrites its path; the
  \<open>social\<close> key is always present, so the whole sub-object is replaced.\<close>

definition set_profile_fields :: "profile_fields \<Rightarrow> profile \<Rightarrow> profile" where
  "set_profile_fields f p =
     p\<lparr>p_user := pf_user f,
       p_company := set_path (pf_company f) (p_company p),
       p_website := set_path (pf_website f) (p_website p),
       p_location := set_path (pf_location f) (p_location p),
       p_bio := set_path (pf_bio f) (p_bio p),
       p_status := set_path (pf_status f) (p_status p),
       p_githubusername := set_path (pf_githubusername f) (p_githubusername p),
       p_skills := override (pf_skills f) (p_skills p),
       p_social := pf_social f\<rparr>"

text \<open>\<open>new Profile(profileFields)\<close>: a new document with a fresh id, version 0
  and empty arrays where the object has no key.\<close>

definition new_profile :: "oid \<Rightarrow> profile_fields \<Rightarrow> profile" where
  "new_profile i f =
     \<lparr>p_id = i, p_v = 0, p_user = pf_user f,
      p_company = pf_company f, p_website = pf_website f, p_location = pf_location f,
      p_bio = pf_bio f, p_status = pf_status f, p_githubusername = pf_githubusername f,
      p_skills = override (pf_skills f) [], p_social = pf_social f,
      p_experience = [], p_education = []\<rparr>"

subsection \<open>Queries and writes\<close>

definition guarded :: "'a query \<Rightarrow> 'a query" where
  "guarded q d = (if online d then q d else Inl StoreError)"

definition profile_find_one :: "oid \<Rightarrow> profile option query" where
  "profile_find_one u = guarded (\<lambda>d. Inr (find (\<lambda>p. p_user p = u) (profiles d), d))"

definition profile_find :: "profile list query" where
  "profile_find = guarded (\<lambda>d. Inr (profiles d, d))"

text \<open>\<open>.populate('user', ['name', 'avatar'])\<close>: the referenced user's id, name
  and avatar, or \<open>null\<close> when the user no longer exists.\<close>

type_synonym user_view = "oid \<times> string \<times> string"
type_synonym profile_view = "profile \<times> user_view option"

definition populate :: "db \<Rightarrow> profile \<Rightarrow> profile_view" where
  "populate d p =
     (p, map_option (\<lambda>x. (u_id x, u_name x, u_avatar x)) (find (\<lambda>x. u_id x = p_user p) (users d)))"

definition profile_find_one_populated :: "oid \<Rightarrow> profile_view option query" where
  "profile_find_one_populated u =
     guarded (\<lambda>d. Inr (map_option (populate d) (find (\<lambda>p. p_user p = u) (profiles d)), d))"

definition profile_find_populated :: "profile_view list query" where
  "profile_find_populated = guarded (\<lambda>d. Inr (map (populate d) (profiles d), d))"

text \<open>A query on \<open>user\<close> with a path parameter: Mongoose casts the string first
  and throws a \<open>CastError\<close> of kind \<open>ObjectId\<close> before contacting the server.\<close>

definition profile_find_one_by_param :: "string \<Rightarrow> profile_view option query" where
  "profile_find_one_by_param s d =
     (case cast_oid s of
        None \<Rightarrow> Inl (CastError ''ObjectId'')
      | Some u \<Rightarrow> profile_find_one_populated u d)"

text \<open>Mongoose gives a sub-document its \<open>_id\<close> in the process when it is added to
  an array; the store is not contacted.\<close>

definition gen_oid :: "oid query" where
  "gen_oid d = Inr (fresh_oid d)"

definition profile_find_one_and_update :: "oid \<Rightarrow> profile_fields \<Rightarrow> profile option query" where
  "profile_find_one_and_update u f = guarded (\<lambda>d.
     (let P = (\<lambda>p. p_user p = u)
      in Inr (map_option (set_profile_fields f) (find P (profiles d)),
              d\<lparr>profiles := update_first P (set_profile_fields f) (profiles d)\<rparr>)))"

definition profile_create :: "profile_fields \<Rightarrow> profile query" where
  "profile_create f = guarded (\<lambda>d.
     (let (i, d') = fresh_oid d; p = new_profile i f
      in Inr (p, d'\<lparr>profiles := profiles d' @ [p]\<rparr>)))"

datatype array_path = Experience | Education

fun write_path :: "array_path \<Rightarrow> profile \<Rightarrow> profile \<Rightarrow> profile" where
  "write_path Experience doc p = p\<lparr>p_experience := p_experience doc, p_v := Suc (p_v p)\<rparr>"
| "write_path Education doc p = p\<lparr>p_education := p_education doc, p_v := Suc (p_v p)\<rparr>"

text \<open>\<open>doc.save()\<close> after one array of \<open>doc\<close> was changed in memory: an update of
  that array guarded by \<open>{_id, __v}\<close>; the saved document carries the new version.\<close>

definition profile_save :: "array_path \<Rightarrow> profile \<Rightarrow> profile query" where
  "profile_save path doc = guarded (\<lambda>d.
     (let P = (\<lambda>p. p_id p = p_id doc \<and> p_v p = p_v doc)
      in case find P (profiles d) of
           None \<Rightarrow> Inl VersionError
         | Some _ \<Rightarrow> Inr (doc\<lparr>p_v := Suc (p_v doc)\<rparr>,
                         d\<lparr>profiles := update_first P (write_path path doc) (profiles d)\<rparr>)))"

definition post_delete_many :: "oid \<Rightarrow> unit query" where
  "post_delete_many u = guarded (\<lambda>d.
     Inr ((), d\<lparr>posts := filter (\<lambda>p. post_user p \<noteq> u) (posts d)\<rparr>))"

definition profile_find_one_and_delete :: "oid \<Rightarrow> unit query" where
  "profile_find_one_and_delete u = guarded (\<lambda>d.
     Inr ((), d\<lparr>profiles := delete_first (\<lambda>p. p_user p = u) (profiles d)\<rparr>))"

definition user_find_one_and_delete :: "oid \<Rightarrow> unit query" where
  "user_find_one_and_delete u = guarded (\<lambda>d.
     Inr ((), d\<lparr>users := delete_first (\<lambda>x. u_id x = u) (users d)\<rparr>))"

lemmas query_defs [store_simps] =
  guarded_def profile_find_one_def profile_find_def profile_find_one_and_update_def
  profile_create_def profile_save_def post_delete_many_def profile_find_one_and_delete_def
  user_find_one_and_delete_def fresh_oid_def profile_find_one_populated_def
  profile_find_populated_def profile_find_one_by_param_def gen_oid_def

end
