(* ===== verification/Validation.thy ===== *)
theory Validation
  imports JsCore
begin

text \<open>
  The express-validator chains of the routes, \<open>check(field, msg).not().isEmpty()\<close>,
  and \<open>validationResult(req).array()\<close>. A request body is the parsed JSON object
  as an association list; a missing key reads as \<open>undefined\<close>. The library
  converts a value to a string before \<open>isEmpty\<close>: \<open>undefined\<close> and \<open>null\<close>
  become the empty string, numbers and booleans their (non-empty) decimal or
  \<open>true\<close>/\<open>false\<close> text. Only the body location is modelled: the routes'
  fields are body fields.
\<close>

type_synonym req_body = "(string \<times> jsval) list"

definition body_get :: "req_body \<Rightarrow> string \<Rightarrow> jsval" where
  "body_get b k = (case map_of b k of None \<Rightarrow> JUndef | Some v \<Rightarrow> v)"

fun is_empty_value :: "jsval \<Rightarrow> bool" where
  "is_empty_value JUndef = True"
| "is_empty_value JNull = True"
| "is_empty_value (JBool _) = False"
| "is_empty_value (JNum _) = False"
| "is_empty_value (JStr s) = (s = [])"

record verr =
  ve_value :: jsval
  ve_msg :: string
  ve_param :: string
  ve_location :: string

text \<open>One \<open>check(field, msg).not().isEmpty()\<close>: an error for the field when its
  value is empty.\<close>

definition run_check :: "req_body \<Rightarrow> string \<times> string \<Rightarrow> verr list" where
  "run_check b c =
     (let (field, msg) = c; v = body_get b field
      in if is_empty_value v
         then [\<lparr>ve_value = v, ve_msg = msg, ve_param = field, ve_location = ''body''\<rparr>]
         else [])"

text \<open>The errors of a chain of checks, in the order the checks run.\<close>

definition validation_result :: "(string \<times> string) list \<Rightarrow> req_body \<Rightarrow> verr list" where
  "validation_result cs b = concat (map (run_check b) cs)"

lemma validation_result_Nil_iff:
  "validation_result cs b = [] \<longleftrightarrow> list_all (\<lambda>c. \<not> is_empty_value (body_get b (fst c))) cs"
  by (induction cs) (auto simp: validation_result_def run_check_def split: prod.splits)

lemma validation_result_params:
  "map ve_param (validation_result cs b) = [fst c. c \<leftarrow> cs, is_empty_value (body_get b (fst c))]"
  by (induction cs) (auto simp: validation_result_def run_check_def split: prod.splits)

lemma truthy_not_empty: "truthy v \<Longrightarrow> \<not> is_empty_value v"
  by (cases v) auto

lemma not_empty_string: "\<not> is_empty_value (JStr s) \<longleftrightarrow> truthy (JStr s)"
  by simp

end
