(* ===== verification/Http.thy ===== *)
theory Http
  imports Store Validation
begin

text \<open>
  Express's response object as the handlers use it, and the state a handler runs
  in: the database and the response of the request. \<open>res.status(n)\<close> sets the
  status of the response under construction; \<open>res.json(x)\<close> sends it, and a
  second \<open>res.json\<close> on a response already sent throws
  \<open>ERR_HTTP_HEADERS_SENT\<close>. The JSON payloads the handlers send are kept typed.
\<close>

datatype json = JSONNull | JSONBool bool | JSONNum int | JSONStr string
  | JSONArr "json list" | JSONObj "(string \<times> json) list"

datatype body =
    BMsg string                   \<comment> \<open>\<open>{ msg: ... }\<close>\<close>
  | BText string                  \<comment> \<open>a bare JSON string\<close>
  | BErrors "verr list"           \<comment> \<open>\<open>{ errors: [...] }\<close>\<close>
  | BNull                         \<comment> \<open>\<open>null\<close>\<close>
  | BProfile profile              \<comment> \<open>a profile document\<close>
  | BPopulated profile_view       \<comment> \<open>a profile with its user expanded\<close>
  | BPopulatedList "profile_view list"
  | BJson json                    \<comment> \<open>a parsed upstream payload\<close>
  | BUnauthorized                 \<comment> \<open>the authentication middleware's refusal\<close>

record response =
  rs_status :: nat
  rs_sent :: "(nat \<times> body) option"

definition fresh_response :: response where
  "fresh_response = \<lparr>rs_status = 200, rs_sent = None\<rparr>"

record server =
  srv_db :: db
  srv_res :: response

type_synonym 'a handler = "('a, server) js"

definition res_status :: "nat \<Rightarrow> unit handler" where
  "res_status n = js_modify (\<lambda>s. s\<lparr>srv_res := (srv_res s)\<lparr>rs_status := n\<rparr>\<rparr>)"

definition res_json :: "body \<Rightarrow> unit handler" where
  "res_json b s =
     (case rs_sent (srv_res s) of
        Some _ \<Rightarrow> Inl (HeadersSent, s)
      | None \<Rightarrow> Inr ((), s\<lparr>srv_res := (srv_res s)\<lparr>rs_sent := Some (rs_status (srv_res s), b)\<rparr>\<rparr>))"

text \<open>\<open>res.status(n).json(b)\<close>.\<close>

definition send :: "nat \<Rightarrow> body \<Rightarrow> unit handler" where
  "send n b = js_then (res_status n) (res_json b)"

definition run_query :: "'a query \<Rightarrow> 'a handler" where
  "run_query q s =
     (case q (srv_db s) of Inl e \<Rightarrow> Inl (e, s) | Inr (x, d) \<Rightarrow> Inr (x, s\<lparr>srv_db := d\<rparr>))"

text \<open>A request is served from a fresh response; what it leaves behind is the
  database, the response sent (if any), and the exception that escaped the
  handler (if any): an escaped exception of an \<open>async\<close> handler is an unhandled
  promise rejection, and no response is sent for it.\<close>

definition serve :: "unit handler \<Rightarrow> db \<Rightarrow> db \<times> (nat \<times> body) option \<times> exn option" where
  "serve h d =
     (case h \<lparr>srv_db = d, srv_res = fresh_response\<rparr> of
        Inl (e, s) \<Rightarrow> (srv_db s, rs_sent (srv_res s), Some e)
      | Inr (_, s) \<Rightarrow> (srv_db s, rs_sent (srv_res s), None))"

lemmas http_defs [js_simps] = res_status_def res_json_def send_def run_query_def

lemma send_fresh [simp]:
  "send n b \<lparr>srv_db = d, srv_res = fresh_response\<rparr> =
   Inr ((), \<lparr>srv_db = d, srv_res = \<lparr>rs_status = n, rs_sent = Some (n, b)\<rparr>\<rparr>)"
  by (simp add: js_simps fresh_response_def)

lemma serve_send [simp]: "serve (send n b) d = (d, Some (n, b), None)"
  by (simp add: serve_def)

end
