(* ===== verification/ProfileApi.thy ===== *)
theory ProfileApi
  imports Http
begin

text \<open>
  The handlers of \<open>src/routes/api/profile.js\<close>, one definition per route, each
  the whole \<open>async\<close> body: validation and its early return, the statements
  outside and inside the \<open>try\<close>, the store calls in order, the responses, and
  the \<open>catch\<close> block. A handler is a computation of the exception-state monad
  over the server state; an exception that escapes it is an unhandled rejection.
  The authenticated user id \<open>req.user.id\<close> is the parameter \<open>uid\<close>.
\<close>

subsection \<open>GET /me\<close>

definition get_me :: "oid \<Rightarrow> unit handler" where
  [handler_defs]: "get_me uid =
     js_catch
       (js_bind (run_query (profile_find_one_populated uid)) (\<lambda>profile.
          case profile of
            None \<Rightarrow> send 400 (BMsg ''There is no profile for this user'')
          | Some pv \<Rightarrow> res_json (BPopulated pv)))
       (\<lambda>err. send 500 (BText ''Server Error''))"

subsection \<open>POST / (create or update)\<close>

definition profile_checks :: "(string \<times> string) list" where
  "profile_checks = [(''status'', ''Status is required''), (''skills'', ''Skills is required'')]"

text \<open>\<open>if (x) profileFields.x = x\<close>: the key is set only for a truthy value.\<close>

definition opt_field :: "req_body \<Rightarrow> string \<Rightarrow> jsval option" where
  "opt_field b k = (let v = body_get b k in if truthy v then Some v else None)"

text \<open>\<open>skills.split(',').map((skill) => skill.trim())\<close> on a string.\<close>

definition normalize_skills :: "string \<Rightarrow> string list" where
  "normalize_skills s = map js_trim (js_split (CHR '','') s)"

text \<open>\<open>split\<close> exists only on strings, so a truthy number or boolean throws.\<close>

fun split_skills :: "jsval \<Rightarrow> (string list, 's) js" where
  "split_skills (JStr s) = js_return (normalize_skills s)"
| "split_skills v = js_throw (TypeError ''skills.split is not a function'')"

definition build_social :: "req_body \<Rightarrow> social" where
  "build_social b =
     \<lparr>youtube = opt_field b ''youtube'', twitter = opt_field b ''twitter'',
      instagram = opt_field b ''instagram'', linkedin = opt_field b ''linkedin'',
      facebook = opt_field b ''facebook''\<rparr>"

text \<open>The object \<open>profileFields\<close> once the skills are known.\<close>

definition fields_of :: "oid \<Rightarrow> req_body \<Rightarrow> string list option \<Rightarrow> profile_fields" where
  "fields_of uid b sk =
     \<lparr>pf_user = uid, pf_company = opt_field b ''company'',
      pf_website = opt_field b ''website'', pf_location = opt_field b ''location'',
      pf_bio = opt_field b ''bio'', pf_status = opt_field b ''status'',
      pf_githubusername = opt_field b ''githubusername'', pf_skills = sk,
      pf_social = build_social b\<rparr>"

definition build_profile_fields :: "oid \<Rightarrow> req_body \<Rightarrow> (profile_fields, 's) js" where
  "build_profile_fields uid b =
     (let skills = body_get b ''skills'' in
      js_bind (if truthy skills then js_bind (split_skills skills) (\<lambda>l. js_return (Some l))
               else js_return None)
        (\<lambda>sk. js_return (fields_of uid b sk)))"

definition json_profile :: "profile option \<Rightarrow> body" where
  "json_profile p = (case p of None \<Rightarrow> BNull | Some q \<Rightarrow> BProfile q)"

text \<open>The \<open>catch\<close> block reads \<open>res.status(500), json('Server Error')\<close>: a comma
  expression whose second operand calls an undeclared \<open>json\<close>, which throws a
  \<open>ReferenceError\<close> out of the handler after setting the status.\<close>

text \<open>The code of the \<open>try\<close> block after \<open>await Profile.findOne\<close> resolved.\<close>

definition post_profile_cont :: "oid \<Rightarrow> profile_fields \<Rightarrow> profile option \<Rightarrow> unit handler" where
  [handler_defs]: "post_profile_cont uid pfields profile =
     (case profile of
        Some _ \<Rightarrow>
          js_bind (run_query (profile_find_one_and_update uid pfields)) (\<lambda>p. res_json (json_profile p))
      | None \<Rightarrow>
          js_bind (run_query (profile_create pfields)) (\<lambda>p. res_json (BProfile p)))"

definition post_profile_catch :: "exn \<Rightarrow> unit handler" where
  [handler_defs]: "post_profile_catch err =
     js_then (res_status 500) (js_throw (ReferenceError ''json is not defined''))"

definition post_profile :: "oid \<Rightarrow> req_body \<Rightarrow> unit handler" where
  [handler_defs]: "post_profile uid b =
     (let errors = validation_result profile_checks b in
      if errors = [] then
        js_bind (build_profile_fields uid b) (\<lambda>pfields.
          js_catch
            (js_bind (run_query (profile_find_one uid)) (post_profile_cont uid pfields))
            post_profile_catch)
      else send 400 (BErrors errors))"

subsection \<open>GET / (all profiles)\<close>

definition get_profiles :: "unit handler" where
  [handler_defs]: "get_profiles =
     js_catch
       (js_bind (run_query profile_find_populated) (\<lambda>profiles. res_json (BPopulatedList profiles)))
       (\<lambda>err. send 500 (BText ''Server Error''))"

subsection \<open>GET /user/:user\_id\<close>

definition is_objectid_cast :: "exn \<Rightarrow> bool" where
  "is_objectid_cast e = (case e of CastError k \<Rightarrow> k = ''ObjectId'' | _ \<Rightarrow> False)"

definition get_profile_by_user :: "string \<Rightarrow> unit handler" where
  [handler_defs]: "get_profile_by_user user_id =
     js_catch
       (js_bind (run_query (profile_find_one_by_param user_id)) (\<lambda>profile.
          case profile of
            None \<Rightarrow> send 400 (BText ''Profile not found'')
          | Some pv \<Rightarrow> res_json (BPopulated pv)))
       (\<lambda>err. if is_objectid_cast err then send 400 (BText ''Profile not found'')
              else send 500 (BText ''Server Error''))"

subsection \<open>DELETE / (profile, user and posts)\<close>

definition delete_profile :: "oid \<Rightarrow> unit handler" where
  [handler_defs]: "delete_profile uid =
     js_catch
       (js_then (run_query (post_delete_many uid))
         (js_then (run_query (profile_find_one_and_delete uid))
           (js_then (run_query (user_find_one_and_delete uid))
             (res_json (BMsg ''User deleted'')))))
       (\<lambda>err. send 500 (BText ''Server Error''))"

subsection \<open>PUT /experience and DELETE /experience/:exp\_id\<close>

definition experience_checks :: "(string \<times> string) list" where
  "experience_checks =
     [(''title'', ''Title is required''), (''company'', ''Company is required''),
      (''from'', ''From is required'')]"

text \<open>\<open>newExp\<close> with the identifier Mongoose gives it on \<open>unshift\<close>.\<close>

definition new_exp :: "oid \<Rightarrow> req_body \<Rightarrow> experience" where
  "new_exp i b =
     \<lparr>exp_id = i, exp_title = body_get b ''title'', exp_company = body_get b ''company'',
      exp_location = body_get b ''location'', exp_from = body_get b ''from'',
      exp_to = body_get b ''to'', exp_current = body_get b ''current'',
      exp_description = body_get b ''description''\<rparr>"

text \<open>\<open>profile.experience\<close> on the \<open>null\<close> that \<open>findOne\<close> returns when the
  user has no profile.\<close>

definition null_profile :: exn where
  "null_profile = TypeError ''Cannot read property of null''"

definition server_error :: "exn \<Rightarrow> unit handler" where
  [handler_defs]: "server_error err = send 500 (BText ''Server Error'')"

text \<open>The code after \<open>await Profile.findOne\<close>: \<open>profile.experience.unshift(newExp)\<close>,
  \<open>await profile.save()\<close>, \<open>res.json(profile)\<close>.\<close>

definition put_experience_cont :: "req_body \<Rightarrow> profile option \<Rightarrow> unit handler" where
  [handler_defs]: "put_experience_cont b profile =
     (case profile of
        None \<Rightarrow> js_throw null_profile
      | Some p \<Rightarrow>
          js_bind (run_query gen_oid) (\<lambda>i.
            js_bind (run_query (profile_save Experience
                       (p\<lparr>p_experience := js_unshift (new_exp i b) (p_experience p)\<rparr>)))
              (\<lambda>saved. res_json (BProfile saved))))"

definition put_experience :: "oid \<Rightarrow> req_body \<Rightarrow> unit handler" where
  [handler_defs]: "put_experience uid b =
     (let errors = validation_result experience_checks b in
      if errors = [] then
        js_catch (js_bind (run_query (profile_find_one uid)) (put_experience_cont b)) server_error
      else send 400 (BErrors errors))"

text \<open>\<open>removeIndex = profile.experience.map(item => item.id).indexOf(exp_id)\<close>,
  then \<open>profile.experience.splice(removeIndex, 1)\<close> and \<open>save\<close>.\<close>

definition delete_experience_cont :: "string \<Rightarrow> profile option \<Rightarrow> unit handler" where
  [handler_defs]: "delete_experience_cont expId profile =
     (case profile of
        None \<Rightarrow> js_throw null_profile
      | Some p \<Rightarrow>
          (let removeIndex = js_index_of expId (map exp_id (p_experience p))
           in js_bind (run_query (profile_save Experience
                         (p\<lparr>p_experience := js_splice1 removeIndex (p_experience p)\<rparr>)))
                (\<lambda>saved. res_json (BProfile saved))))"

definition delete_experience :: "oid \<Rightarrow> string \<Rightarrow> unit handler" where
  [handler_defs]: "delete_experience uid expId =
     js_catch (js_bind (run_query (profile_find_one uid)) (delete_experience_cont expId)) server_error"

subsection \<open>PUT /education and DELETE /education/:edu\_id\<close>

definition education_checks :: "(string \<times> string) list" where
  "education_checks =
     [(''school'', ''School is required''), (''degree'', ''Degree is required''),
      (''fieldofstudy'', ''Field of study is required'')]"

definition new_edu :: "oid \<Rightarrow> req_body \<Rightarrow> education" where
  "new_edu i b =
     \<lparr>edu_id = i, edu_school = body_get b ''school'', edu_degree = body_get b ''degree'',
      edu_fieldofstudy = body_get b ''fieldofstudy'', edu_from = body_get b ''from'',
      edu_to = body_get b ''to'', edu_current = body_get b ''current'',
      edu_description = body_get b ''description''\<rparr>"

definition put_education_cont :: "req_body \<Rightarrow> profile option \<Rightarrow> unit handler" where
  [handler_defs]: "put_education_cont b profile =
     (case profile of
        None \<Rightarrow> js_throw null_profile
      | Some p \<Rightarrow>
          js_bind (run_query gen_oid) (\<lambda>i.
            js_bind (run_query (profile_save Education
                       (p\<lparr>p_education := js_unshift (new_edu i b) (p_education p)\<rparr>)))
              (\<lambda>saved. res_json (BProfile saved))))"

definition put_education :: "oid \<Rightarrow> req_body \<Rightarrow> unit handler" where
  [handler_defs]: "put_education uid b =
     (let errors = validation_result education_checks b in
      if errors = [] then
        js_catch (js_bind (run_query (profile_find_one uid)) (put_education_cont b)) server_error
      else send 400 (BErrors errors))"

definition delete_education_cont :: "string \<Rightarrow> profile option \<Rightarrow> unit handler" where
  [handler_defs]: "delete_education_cont eduId profile =
     (case profile of
        None \<Rightarrow> js_throw null_profile
      | Some p \<Rightarrow>
          (let removeIndex = js_index_of eduId (map edu_id (p_education p))
           in js_bind (run_query (profile_save Education
                         (p\<lparr>p_education := js_splice1 removeIndex (p_education p)\<rparr>)))
                (\<lambda>saved. res_json (BProfile saved))))"

definition delete_education :: "oid \<Rightarrow> string \<Rightarrow> unit handler" where
  [handler_defs]: "delete_education uid eduId =
     js_catch (js_bind (run_query (profile_find_one uid)) (delete_education_cont eduId)) server_error"

subsection \<open>Example data\<close>

text \<open>A small database (two users with a profile each, two posts, one comment of
  the first user on the second user's post) and a request body, on which the
  witnesses below instantiate the properties.\<close>

definition ex_social :: social where
  "ex_social = \<lparr>youtube = Some (JStr ''yt''), twitter = None, instagram = None,
                linkedin = None, facebook = None\<rparr>"

definition ex_exp :: "oid \<Rightarrow> experience" where
  "ex_exp i = \<lparr>exp_id = i, exp_title = JStr ''dev'', exp_company = JStr ''Acme'',
               exp_location = JUndef, exp_from = JStr ''2019'', exp_to = JUndef,
               exp_current = JBool True, exp_description = JUndef\<rparr>"

definition ex_profile :: "oid \<Rightarrow> oid \<Rightarrow> profile" where
  "ex_profile i u =
     \<lparr>p_id = i, p_v = 0, p_user = u, p_company = Some (JStr ''Acme''), p_website = None,
      p_location = None, p_bio = Some (JStr ''hi''), p_status = Some (JStr ''dev''),
      p_githubusername = None, p_skills = [''js''], p_social = ex_social,
      p_experience = [ex_exp ''e1'', ex_exp ''e2''], p_education = []\<rparr>"

definition ex_comment :: comment where
  "ex_comment = \<lparr>c_id = ''c1'', c_user = ''u1'', c_text = ''nice'', c_name = ''Ann'', c_avatar = ''a''\<rparr>"

definition ex_db :: db where
  "ex_db =
     \<lparr>users = [\<lparr>u_id = ''u1'', u_name = ''Ann'', u_email = ''ann@x'', u_avatar = ''a''\<rparr>,
               \<lparr>u_id = ''u2'', u_name = ''Bob'', u_email = ''bob@x'', u_avatar = ''b''\<rparr>],
      profiles = [ex_profile ''p1'' ''u1'', ex_profile ''p2'' ''u2''],
      posts = [\<lparr>post_id = ''q1'', post_user = ''u1'', post_text = ''hello'', post_likes = [],
                 post_comments = []\<rparr>,
               \<lparr>post_id = ''q2'', post_user = ''u2'', post_text = ''hey'', post_likes = [''u1''],
                 post_comments = [ex_comment]\<rparr>],
      next_oid = 7, online = True\<rparr>"

definition ex_body :: req_body where
  "ex_body = [(''status'', JStr ''lead''), (''skills'', JStr '' js ,isabelle''),
              (''twitter'', JStr ''@ann'')]"

definition ex_exp_body :: req_body where
  "ex_exp_body = [(''title'', JStr ''CTO''), (''company'', JStr ''Beta''), (''from'', JStr ''2021'')]"

subsection \<open>Behaviour of each handler on each branch\<close>

text \<open>What one request leaves behind, for every path through its handler: the
  database, the response sent, and the escaped exception. These lemmas carry
  the properties below and those of the whole API.\<close>

lemmas serve_simps = handler_defs js_simps store_simps serve_def fresh_response_def

lemma build_profile_fields_string:
  "body_get b ''skills'' = JStr str \<Longrightarrow>
   build_profile_fields uid b =
     js_return (fields_of uid b (if str = [] then None else Some (normalize_skills str)))"
  by (simp add: build_profile_fields_def fun_eq_iff js_simps)

lemma build_profile_fields_nonstring:
  "truthy v \<Longrightarrow> (\<forall>str. v \<noteq> JStr str) \<Longrightarrow> body_get b ''skills'' = v \<Longrightarrow>
   build_profile_fields uid b = js_throw (TypeError ''skills.split is not a function'')"
  by (cases v) (simp_all add: build_profile_fields_def fun_eq_iff js_simps)

subsubsection \<open>GET /me\<close>

lemma serve_get_me_found:
  "online d \<Longrightarrow> find (\<lambda>p. p_user p = uid) (profiles d) = Some p \<Longrightarrow>
   serve (get_me uid) d = (d, Some (200, BPopulated (populate d p)), None)"
  by (simp add: serve_simps)

lemma serve_get_me_missing:
  "online d \<Longrightarrow> find (\<lambda>p. p_user p = uid) (profiles d) = None \<Longrightarrow>
   serve (get_me uid) d = (d, Some (400, BMsg ''There is no profile for this user''), None)"
  by (simp add: serve_simps)

lemma serve_get_me_offline:
  "\<not> online d \<Longrightarrow> serve (get_me uid) d = (d, Some (500, BText ''Server Error''), None)"
  by (simp add: serve_simps)

subsubsection \<open>POST /\<close>

lemma serve_post_profile_invalid:
  "validation_result profile_checks b = e # es \<Longrightarrow>
   serve (post_profile uid b) d = (d, Some (400, BErrors (e # es)), None)"
  by (simp add: serve_simps)

lemma serve_post_profile_split_error:
  "validation_result profile_checks b = [] \<Longrightarrow>
   body_get b ''skills'' = v \<Longrightarrow> truthy v \<Longrightarrow> (\<forall>str. v \<noteq> JStr str) \<Longrightarrow>
   serve (post_profile uid b) d = (d, None, Some (TypeError ''skills.split is not a function''))"
  by (simp add: serve_simps build_profile_fields_nonstring)

lemma serve_post_profile_offline:
  "validation_result profile_checks b = [] \<Longrightarrow>
   build_profile_fields uid b = (js_return f :: (profile_fields, server) js) \<Longrightarrow> \<not> online d \<Longrightarrow>
   serve (post_profile uid b) d = (d, None, Some (ReferenceError ''json is not defined''))"
  by (simp only: post_profile_def) (simp add: serve_simps)

lemma serve_post_profile_update:
  "validation_result profile_checks b = [] \<Longrightarrow>
   build_profile_fields uid b = (js_return f :: (profile_fields, server) js) \<Longrightarrow> pf_user f = uid \<Longrightarrow> online d \<Longrightarrow>
   find (\<lambda>p. p_user p = uid) (profiles d) = Some p \<Longrightarrow>
   serve (post_profile uid b) d =
     (d\<lparr>profiles := update_first (\<lambda>p. p_user p = uid) (set_profile_fields f) (profiles d)\<rparr>,
      Some (200, BProfile (set_profile_fields f p)), None)"
  by (simp only: post_profile_def) (simp add: serve_simps json_profile_def)

lemma serve_post_profile_create:
  "validation_result profile_checks b = [] \<Longrightarrow>
   build_profile_fields uid b = (js_return f :: (profile_fields, server) js) \<Longrightarrow> online d \<Longrightarrow>
   find (\<lambda>p. p_user p = uid) (profiles d) = None \<Longrightarrow>
   serve (post_profile uid b) d =
     (let p = new_profile (oid_of_nat (next_oid d)) f
      in (d\<lparr>next_oid := Suc (next_oid d), profiles := profiles d @ [p]\<rparr>,
          Some (200, BProfile p), None))"
  by (simp only: post_profile_def) (simp add: serve_simps Let_def)

subsubsection \<open>GET /\<close>

lemma serve_get_profiles_online:
  "online d \<Longrightarrow>
   serve get_profiles d = (d, Some (200, BPopulatedList (map (populate d) (profiles d))), None)"
  by (simp add: serve_simps)

lemma serve_get_profiles_offline:
  "\<not> online d \<Longrightarrow> serve get_profiles d = (d, Some (500, BText ''Server Error''), None)"
  by (simp add: serve_simps)

subsubsection \<open>GET /user/:user\_id\<close>

lemma serve_get_profile_by_user_malformed:
  "cast_oid s = None \<Longrightarrow>
   serve (get_profile_by_user s) d = (d, Some (400, BText ''Profile not found''), None)"
  by (simp add: serve_simps is_objectid_cast_def)

lemma serve_get_profile_by_user_found:
  "cast_oid s = Some u \<Longrightarrow> online d \<Longrightarrow> find (\<lambda>p. p_user p = u) (profiles d) = Some p \<Longrightarrow>
   serve (get_profile_by_user s) d = (d, Some (200, BPopulated (populate d p)), None)"
  by (simp add: serve_simps)

lemma serve_get_profile_by_user_missing:
  "cast_oid s = Some u \<Longrightarrow> online d \<Longrightarrow> find (\<lambda>p. p_user p = u) (profiles d) = None \<Longrightarrow>
   serve (get_profile_by_user s) d = (d, Some (400, BText ''Profile not found''), None)"
  by (simp add: serve_simps)

lemma serve_get_profile_by_user_offline:
  "cast_oid s = Some u \<Longrightarrow> \<not> online d \<Longrightarrow>
   serve (get_profile_by_user s) d = (d, Some (500, BText ''Server Error''), None)"
  by (simp add: serve_simps is_objectid_cast_def)

subsubsection \<open>PUT and DELETE on the arrays\<close>

lemma find_loaded_version:
  "find (\<lambda>p. p_user p = uid) xs = Some p \<Longrightarrow>
   find (\<lambda>q. p_id q = p_id p \<and> p_v q = p_v p) xs \<noteq> None"
  by (auto simp: find_None_iff dest: find_SomeD)

lemma serve_put_experience_invalid:
  "validation_result experience_checks b = e # es \<Longrightarrow>
   serve (put_experience uid b) d = (d, Some (400, BErrors (e # es)), None)"
  by (simp add: serve_simps)

lemma serve_put_experience_offline:
  "validation_result experience_checks b = [] \<Longrightarrow> \<not> online d \<Longrightarrow>
   serve (put_experience uid b) d = (d, Some (500, BText ''Server Error''), None)"
  by (simp add: serve_simps)

lemma serve_put_experience_missing:
  "validation_result experience_checks b = [] \<Longrightarrow> online d \<Longrightarrow>
   find (\<lambda>p. p_user p = uid) (profiles d) = None \<Longrightarrow>
   serve (put_experience uid b) d = (d, Some (500, BText ''Server Error''), None)"
  by (simp add: serve_simps)

lemma serve_put_experience_found:
  assumes "validation_result experience_checks b = []" "online d"
    "find (\<lambda>p. p_user p = uid) (profiles d) = Some p"
  shows "serve (put_experience uid b) d =
    (let p' = p\<lparr>p_experience := new_exp (oid_of_nat (next_oid d)) b # p_experience p\<rparr>
     in (d\<lparr>next_oid := Suc (next_oid d),
           profiles := update_first (\<lambda>q. p_id q = p_id p \<and> p_v q = p_v p)
                         (write_path Experience p') (profiles d)\<rparr>,
         Some (200, BProfile (p'\<lparr>p_v := Suc (p_v p)\<rparr>)), None))"
  using assms find_loaded_version[OF assms(3)]
  by (auto simp: serve_simps js_unshift_def Let_def split: option.splits)

lemma serve_delete_experience_offline:
  "\<not> online d \<Longrightarrow> serve (delete_experience uid x) d = (d, Some (500, BText ''Server Error''), None)"
  by (simp add: serve_simps)

lemma serve_delete_experience_missing:
  "online d \<Longrightarrow> find (\<lambda>p. p_user p = uid) (profiles d) = None \<Longrightarrow>
   serve (delete_experience uid x) d = (d, Some (500, BText ''Server Error''), None)"
  by (simp add: serve_simps)

lemma serve_delete_experience_found:
  assumes "online d" "find (\<lambda>p. p_user p = uid) (profiles d) = Some p"
  shows "serve (delete_experience uid x) d =
    (let p' = p\<lparr>p_experience :=
                js_splice1 (js_index_of x (map exp_id (p_experience p))) (p_experience p)\<rparr>
     in (d\<lparr>profiles := update_first (\<lambda>q. p_id q = p_id p \<and> p_v q = p_v p)
                         (write_path Experience p') (profiles d)\<rparr>,
         Some (200, BProfile (p'\<lparr>p_v := Suc (p_v p)\<rparr>)), None))"
  using assms find_loaded_version[OF assms(2)]
  by (auto simp: serve_simps Let_def split: option.splits)

lemma serve_put_education_invalid:
  "validation_result education_checks b = e # es \<Longrightarrow>
   serve (put_education uid b) d = (d, Some (400, BErrors (e # es)), None)"
  by (simp add: serve_simps)

lemma serve_put_education_offline:
  "validation_result education_checks b = [] \<Longrightarrow> \<not> online d \<Longrightarrow>
   serve (put_education uid b) d = (d, Some (500, BText ''Server Error''), None)"
  by (simp add: serve_simps)

lemma serve_put_education_missing:
  "validation_result education_checks b = [] \<Longrightarrow> online d \<Longrightarrow>
   find (\<lambda>p. p_user p = uid) (profiles d) = None \<Longrightarrow>
   serve (put_education uid b) d = (d, Some (500, BText ''Server Error''), None)"
  by (simp add: serve_simps)

lemma serve_put_education_found:
  assumes "validation_result education_checks b = []" "online d"
    "find (\<lambda>p. p_user p = uid) (profiles d) = Some p"
  shows "serve (put_education uid b) d =
    (let p' = p\<lparr>p_education := new_edu (oid_of_nat (next_oid d)) b # p_education p\<rparr>
     in (d\<lparr>next_oid := Suc (next_oid d),
           profiles := update_first (\<lambda>q. p_id q = p_id p \<and> p_v q = p_v p)
                         (write_path Education p') (profiles d)\<rparr>,
         Some (200, BProfile (p'\<lparr>p_v := Suc (p_v p)\<rparr>)), None))"
  using assms find_loaded_version[OF assms(3)]
  by (auto simp: serve_simps js_unshift_def Let_def split: option.splits)

lemma serve_delete_education_offline:
  "\<not> online d \<Longrightarrow> serve (delete_education uid x) d = (d, Some (500, BText ''Server Error''), None)"
  by (simp add: serve_simps)

lemma serve_delete_education_missing:
  "online d \<Longrightarrow> find (\<lambda>p. p_user p = uid) (profiles d) = None \<Longrightarrow>
   serve (delete_education uid x) d = (d, Some (500, BText ''Server Error''), None)"
  by (simp add: serve_simps)

lemma serve_delete_education_found:
  assumes "online d" "find (\<lambda>p. p_user p = uid) (profiles d) = Some p"
  shows "serve (delete_education uid x) d =
    (let p' = p\<lparr>p_education :=
                js_splice1 (js_index_of x (map edu_id (p_education p))) (p_education p)\<rparr>
     in (d\<lparr>profiles := update_first (\<lambda>q. p_id q = p_id p \<and> p_v q = p_v p)
                         (write_path Education p') (profiles d)\<rparr>,
         Some (200, BProfile (p'\<lparr>p_v := Suc (p_v p)\<rparr>)), None))"
  using assms find_loaded_version[OF assms(2)]
  by (auto simp: serve_simps Let_def split: option.splits)

lemma serve_delete_profile_online:
  "online d \<Longrightarrow> serve (delete_profile uid) d =
     (d\<lparr>posts := filter (\<lambda>p. post_user p \<noteq> uid) (posts d),
        profiles := delete_first (\<lambda>p. p_user p = uid) (profiles d),
        users := delete_first (\<lambda>x. u_id x = uid) (users d)\<rparr>,
      Some (200, BMsg ''User deleted''), None)"
  by (simp add: serve_simps)

lemma serve_delete_profile_offline:
  "\<not> online d \<Longrightarrow> serve (delete_profile uid) d = (d, Some (500, BText ''Server Error''), None)"
  by (simp add: serve_simps)

subsection \<open>Properties of the handlers\<close>

lemma serve_get_me_db: "fst (serve (get_me uid) d) = d"
  by (cases "online d"; cases "find (\<lambda>p. p_user p = uid) (profiles d)")
     (simp_all add: serve_get_me_found serve_get_me_missing serve_get_me_offline)

lemma serve_get_profiles_db: "fst (serve get_profiles d) = d"
  by (cases "online d") (simp_all add: serve_get_profiles_online serve_get_profiles_offline)

lemma serve_get_profile_by_user_db: "fst (serve (get_profile_by_user s) d) = d"
proof (cases "cast_oid s")
  case None then show ?thesis by (simp add: serve_get_profile_by_user_malformed)
next
  case (Some u)
  then show ?thesis
    by (cases "online d"; cases "find (\<lambda>p. p_user p = u) (profiles d)")
       (simp_all add: serve_get_profile_by_user_found serve_get_profile_by_user_missing
                      serve_get_profile_by_user_offline)
qed

lemma build_profile_fields_result:
  "build_profile_fields uid b = (js_throw (TypeError ''skills.split is not a function'') :: (profile_fields, 's) js) \<or>
   (\<exists>sk. build_profile_fields uid b = (js_return (fields_of uid b sk) :: (profile_fields, 's) js))"
proof (cases "truthy (body_get b ''skills'')")
  case True
  then show ?thesis
    by (cases "body_get b ''skills''") (auto simp: build_profile_fields_def fun_eq_iff js_simps)
next
  case False
  then show ?thesis by (auto simp: build_profile_fields_def fun_eq_iff js_simps)
qed

lemma serve_post_profile_throw:
  "validation_result profile_checks b = [] \<Longrightarrow>
   build_profile_fields uid b = (js_throw e :: (profile_fields, server) js) \<Longrightarrow>
   serve (post_profile uid b) d = (d, None, Some e)"
  by (simp only: post_profile_def) (simp add: serve_simps)

lemma profile_checks_skills:
  "validation_result profile_checks b = [] \<Longrightarrow> body_get b ''skills'' = JStr s \<Longrightarrow> s \<noteq> []"
  by (auto simp: validation_result_Nil_iff profile_checks_def)

lemma post_profile_fields:
  "validation_result profile_checks b = [] \<Longrightarrow> body_get b ''skills'' = JStr s \<Longrightarrow>
   build_profile_fields uid b =
     (js_return (fields_of uid b (Some (normalize_skills s))) :: (profile_fields, server) js)"
  by (simp add: build_profile_fields_string profile_checks_skills)

lemma post_profile_stored_update:
  assumes "validation_result profile_checks b = []" "body_get b ''skills'' = JStr s" "online d"
    "find (\<lambda>q. p_user q = uid) (profiles d) = Some p"
  shows "find (\<lambda>q. p_user q = uid) (profiles (fst (serve (post_profile uid b) d))) =
         Some (set_profile_fields (fields_of uid b (Some (normalize_skills s))) p)"
proof -
  let ?f = "fields_of uid b (Some (normalize_skills s))"
  have "pf_user ?f = uid" by (simp add: fields_of_def)
  then have "find (\<lambda>q. p_user q = uid) (update_first (\<lambda>q. p_user q = uid) (set_profile_fields ?f) (profiles d))
             = map_option (set_profile_fields ?f) (find (\<lambda>q. p_user q = uid) (profiles d))"
    by (intro find_update_first) (simp add: set_profile_fields_def)
  with assms show ?thesis
    by (simp add: serve_post_profile_update[OF assms(1) post_profile_fields[OF assms(1,2)]] fields_of_def)
qed

lemma stored_after_array_save:
  assumes "distinct (map p_id (profiles d))" "find (\<lambda>q. p_user q = uid) (profiles d) = Some p"
    "p_user p' = p_user p"
  shows "find (\<lambda>q. p_user q = uid)
           (update_first (\<lambda>q. p_id q = p_id p \<and> p_v q = p_v p) (write_path path p') (profiles d)) =
         Some (write_path path p' p)"
proof (rule find_update_first_other[OF assms(2) _ _ assms(1)])
  show "p_user (write_path path p' p) = uid"
    using assms(2,3) by (cases path) (auto dest: find_SomeD)
qed auto

end
