(* ===== verification/ProfileApiProps.thy ===== *)
theory ProfileApiProps
  imports ProfileApi
begin

text \<open>
  The properties of the handlers of \<open>src/routes/api/profile.js\<close> (C1 to C16, C37), each
  a few steps over the branch lemmas \<open>serve_*\<close> of \<open>ProfileApi\<close>.
\<close>

text \<open>C1. Creating or updating a profile leaves exactly one profile for the user.\<close>

theorem post_profile_single_profile:
  assumes "distinct (map p_user (profiles d))" "validation_result profile_checks b = []"
    "body_get b ''skills'' = JStr s" "online d"
  shows "length (filter (\<lambda>p. p_user p = uid) (profiles (fst (serve (post_profile uid b) d)))) = 1"
proof (cases "find (\<lambda>q. p_user q = uid) (profiles d)")
  case None
  let ?f = "fields_of uid b (Some (normalize_skills s))"
  from None have "filter (\<lambda>p. p_user p = uid) (profiles d) = []"
    by (auto simp: find_None_iff filter_empty_conv)
  with None assms(2,4) show ?thesis
    by (simp add: serve_post_profile_create[OF assms(2) post_profile_fields[OF assms(2,3)]]
                  Let_def new_profile_def fields_of_def)
next
  case (Some p)
  let ?f = "fields_of uid b (Some (normalize_skills s))"
  from Some have "uid \<in> p_user ` set (profiles d)" by (auto dest!: find_SomeD)
  with assms(1) have one: "length (filter (\<lambda>p. p_user p = uid) (profiles d)) = 1"
    by (simp add: length_filter_distinct_map)
  have "length (filter (\<lambda>p. p_user p = uid) (update_first (\<lambda>p. p_user p = uid) (set_profile_fields ?f) (profiles d)))
        = length (filter (\<lambda>p. p_user p = uid) (profiles d))"
    by (rule length_filter_update_first) (simp add: set_profile_fields_def fields_of_def)
  with one Some assms(4) show ?thesis
    by (simp add: serve_post_profile_update[OF assms(2) post_profile_fields[OF assms(2,3)]] fields_of_def)
qed

theorem post_profile_single_profile_witness:
  "length (filter (\<lambda>p. p_user p = ''u1'') (profiles (fst (serve (post_profile ''u1'' ex_body) ex_db)))) = 1"
  by (rule post_profile_single_profile[where s = "'' js ,isabelle''"])
     (simp_all add: ex_db_def ex_body_def ex_profile_def validation_result_def run_check_def
                    profile_checks_def body_get_def)

text \<open>C2. An update keeps the top-level fields the request leaves out and overwrites the
  ones it carries with a truthy value; skills are replaced, the arrays kept.\<close>

theorem post_profile_update_fields:
  assumes "validation_result profile_checks b = []" "body_get b ''skills'' = JStr s" "online d"
    "find (\<lambda>q. p_user q = uid) (profiles d) = Some p"
  shows "\<exists>p'. find (\<lambda>q. p_user q = uid) (profiles (fst (serve (post_profile uid b) d))) = Some p' \<and>
    p_company p' = (if truthy (body_get b ''company'') then Some (body_get b ''company'') else p_company p) \<and>
    p_website p' = (if truthy (body_get b ''website'') then Some (body_get b ''website'') else p_website p) \<and>
    p_location p' = (if truthy (body_get b ''location'') then Some (body_get b ''location'') else p_location p) \<and>
    p_bio p' = (if truthy (body_get b ''bio'') then Some (body_get b ''bio'') else p_bio p) \<and>
    p_status p' = (if truthy (body_get b ''status'') then Some (body_get b ''status'') else p_status p) \<and>
    p_githubusername p' = (if truthy (body_get b ''githubusername'')
                           then Some (body_get b ''githubusername'') else p_githubusername p) \<and>
    p_skills p' = normalize_skills s \<and>
    p_experience p' = p_experience p \<and> p_education p' = p_education p \<and> p_id p' = p_id p"
  using post_profile_stored_update[OF assms]
  by (simp add: set_profile_fields_def fields_of_def opt_field_def set_path_def Let_def)


theorem post_profile_update_fields_witness:
  "\<exists>p'. find (\<lambda>q. p_user q = ''u1'') (profiles (fst (serve (post_profile ''u1'' ex_body) ex_db))) = Some p' \<and>
    p_company p' = Some (JStr ''Acme'') \<and> p_website p' = None \<and> p_location p' = None \<and>
    p_bio p' = Some (JStr ''hi'') \<and> p_status p' = Some (JStr ''lead'') \<and> p_githubusername p' = None \<and>
    p_skills p' = [''js'', ''isabelle''] \<and>
    p_experience p' = [ex_exp ''e1'', ex_exp ''e2''] \<and> p_education p' = [] \<and> p_id p' = ''p1''"
  using post_profile_update_fields[of ex_body "'' js ,isabelle''" ex_db "''u1''" "ex_profile ''p1'' ''u1''"]
  by (simp add: ex_db_def ex_body_def ex_profile_def validation_result_def run_check_def
                profile_checks_def body_get_def normalize_skills_def js_trim_def js_whitespace_def)

text \<open>C3. The social sub-object after an update holds exactly the social fields of this
  request: values set by earlier requests and absent now are dropped.\<close>

theorem post_profile_social_replaced:
  assumes "validation_result profile_checks b = []" "body_get b ''skills'' = JStr s" "online d"
    "find (\<lambda>q. p_user q = uid) (profiles d) = Some p"
  shows "\<exists>p'. find (\<lambda>q. p_user q = uid) (profiles (fst (serve (post_profile uid b) d))) = Some p' \<and>
    youtube (p_social p') = (if truthy (body_get b ''youtube'') then Some (body_get b ''youtube'') else None) \<and>
    twitter (p_social p') = (if truthy (body_get b ''twitter'') then Some (body_get b ''twitter'') else None) \<and>
    instagram (p_social p') =
      (if truthy (body_get b ''instagram'') then Some (body_get b ''instagram'') else None) \<and>
    linkedin (p_social p') = (if truthy (body_get b ''linkedin'') then Some (body_get b ''linkedin'') else None) \<and>
    facebook (p_social p') = (if truthy (body_get b ''facebook'') then Some (body_get b ''facebook'') else None)"
  using post_profile_stored_update[OF assms]
  by (simp add: set_profile_fields_def fields_of_def build_social_def opt_field_def Let_def)

theorem post_profile_social_replaced_witness:
  "\<exists>p'. find (\<lambda>q. p_user q = ''u1'') (profiles (fst (serve (post_profile ''u1'' ex_body) ex_db))) = Some p' \<and>
    youtube (p_social p') = None \<and> twitter (p_social p') = Some (JStr ''@ann'') \<and>
    instagram (p_social p') = None \<and> linkedin (p_social p') = None \<and> facebook (p_social p') = None"
  using post_profile_social_replaced[of ex_body "'' js ,isabelle''" ex_db "''u1''" "ex_profile ''p1'' ''u1''"]
  by (simp add: ex_db_def ex_body_def ex_profile_def validation_result_def run_check_def
                profile_checks_def body_get_def)

text \<open>C4. A create-or-update request whose status is missing or empty is answered 400 with
  a field error for status, and the database is left as it was.\<close>

theorem post_profile_rejects_empty_status:
  assumes "is_empty_value (body_get b ''status'')"
  shows "\<exists>errs. serve (post_profile uid b) d = (d, Some (400, BErrors errs), None) \<and>
                ''status'' \<in> ve_param ` set errs"
proof -
  have "''status'' \<in> set (map ve_param (validation_result profile_checks b))"
    using assms by (simp add: validation_result_params profile_checks_def)
  then obtain e es where e: "validation_result profile_checks b = e # es"
    by (cases "validation_result profile_checks b") auto
  show ?thesis
    using serve_post_profile_invalid[OF e] \<open>''status'' \<in> set (map ve_param _)\<close> e by auto
qed

theorem post_profile_rejects_empty_status_witness:
  "\<exists>errs. serve (post_profile ''u1'' [(''skills'', JStr ''js'')]) ex_db = (ex_db, Some (400, BErrors errs), None) \<and>
          ''status'' \<in> ve_param ` set errs"
  by (rule post_profile_rejects_empty_status) (simp add: body_get_def)

text \<open>C5. Skill normalisation inverts joining: a non-empty list of trimmed skills without
  commas, joined with commas, is normalised back to itself.\<close>

theorem normalize_skills_join:
  assumes "ks \<noteq> []" "\<forall>k\<in>set ks. CHR '','' \<notin> set k \<and> js_trim k = k"
  shows "normalize_skills (js_join (CHR '','') ks) = ks"
proof -
  have "js_split (CHR '','') (js_join (CHR '','') ks) = ks"
    using assms by (intro js_split_join) auto
  moreover have "map js_trim ks = ks"
    using assms(2) by (induction ks) auto
  ultimately show ?thesis by (simp add: normalize_skills_def)
qed

theorem normalize_skills_join_witness:
  "normalize_skills (js_join (CHR '','') [''js'', ''node'']) = [''js'', ''node'']"
  by (rule normalize_skills_join) (simp_all add: js_trim_def js_whitespace_def)

text \<open>C6. Skill normalisation splits at every comma and keeps the pieces in order: the
  input with N commas gives N+1 skills, none containing a comma or starting or ending
  with white space; a comma-free input gives its trimmed self; and the skills of
  \<open>a,b\<close> are those of \<open>a\<close> followed by those of \<open>b\<close>.\<close>

theorem normalize_skills_shape:
  "length (normalize_skills s) = count_list s (CHR '','') + 1 \<and>
   (\<forall>k\<in>set (normalize_skills s). CHR '','' \<notin> set k \<and> js_trim k = k) \<and>
   (CHR '','' \<notin> set s \<longrightarrow> normalize_skills s = [js_trim s]) \<and>
   normalize_skills (a @ CHR '','' # b) = normalize_skills a @ normalize_skills b"
proof -
  have "CHR '','' \<notin> set k" if k: "k \<in> set (normalize_skills s)" for k
  proof -
    from k obtain q where q: "q \<in> set (js_split (CHR '','') s)" and kq: "k = js_trim q"
      by (auto simp: normalize_skills_def)
    from q have "CHR '','' \<notin> set q" by (rule js_split_no_sep)
    with kq set_js_trim[of q] show ?thesis by blast
  qed
  moreover have "\<forall>k\<in>set (normalize_skills s). js_trim k = k"
    by (auto simp: normalize_skills_def js_trim_idem)
  moreover have "length (normalize_skills s) = count_list s (CHR '','') + 1"
    by (simp add: normalize_skills_def length_js_split)
  moreover have "CHR '','' \<notin> set s \<longrightarrow> normalize_skills s = [js_trim s]"
    by (simp add: normalize_skills_def js_split_no_sep_single)
  moreover have "normalize_skills (a @ CHR '','' # b) = normalize_skills a @ normalize_skills b"
    by (simp add: normalize_skills_def js_split_append_sep)
  ultimately show ?thesis by blast
qed

theorem normalize_skills_shape_witness:
  "normalize_skills '' a, b '' = [''a'', ''b'']"
proof -
  have a: "normalize_skills '' a'' = [''a'']"
    using normalize_skills_shape[of "'' a''" "''''" "''''"]
    by (simp add: js_trim_def js_whitespace_def)
  have b: "normalize_skills '' b '' = [''b'']"
    using normalize_skills_shape[of "'' b ''" "''''" "''''"]
    by (simp add: js_trim_def js_whitespace_def)
  have "normalize_skills ('' a'' @ CHR '','' # '' b '') =
        normalize_skills '' a'' @ normalize_skills '' b ''"
    using normalize_skills_shape[of "''''" "'' a''" "'' b ''"] by blast
  with a b show ?thesis by simp
qed

text \<open>C7. Adding an experience entry to a profile with N entries gives N+1 entries with
  the new one (with a fresh id) first and the others after it in order; the education
  is untouched and the answer carries the stored profile.\<close>

theorem put_experience_prepends:
  assumes "distinct (map p_id (profiles d))" "validation_result experience_checks b = []"
    "online d" "find (\<lambda>q. p_user q = uid) (profiles d) = Some p"
  shows "\<exists>p'. find (\<lambda>q. p_user q = uid) (profiles (fst (serve (put_experience uid b) d))) = Some p' \<and>
    p_experience p' = new_exp (oid_of_nat (next_oid d)) b # p_experience p \<and>
    p_education p' = p_education p \<and>
    fst (snd (serve (put_experience uid b) d)) = Some (200, BProfile p')"
proof -
  let ?p' = "p\<lparr>p_experience := new_exp (oid_of_nat (next_oid d)) b # p_experience p\<rparr>"
  have "find (\<lambda>q. p_user q = uid)
          (update_first (\<lambda>q. p_id q = p_id p \<and> p_v q = p_v p) (write_path Experience ?p') (profiles d)) =
        Some (write_path Experience ?p' p)"
    using assms(1,4) by (rule stored_after_array_save) simp
  then show ?thesis
    by (simp add: serve_put_experience_found[OF assms(2-4)] Let_def)
qed

theorem put_experience_prepends_witness:
  "\<exists>p'. find (\<lambda>q. p_user q = ''u1'') (profiles (fst (serve (put_experience ''u1'' ex_exp_body) ex_db))) = Some p' \<and>
    p_experience p' = new_exp (oid_of_nat 7) ex_exp_body # [ex_exp ''e1'', ex_exp ''e2''] \<and>
    p_education p' = [] \<and>
    fst (snd (serve (put_experience ''u1'' ex_exp_body) ex_db)) = Some (200, BProfile p')"
  using put_experience_prepends[of ex_db ex_exp_body "''u1''" "ex_profile ''p1'' ''u1''"]
  by (simp add: ex_db_def ex_exp_body_def ex_profile_def validation_result_def run_check_def
                experience_checks_def body_get_def)

text \<open>C8. Deleting an experience entry by the id of an entry removes that entry (the first
  with the id) and keeps the others in order.\<close>

theorem delete_experience_removes_entry:
  assumes "distinct (map p_id (profiles d))" "online d"
    "find (\<lambda>q. p_user q = uid) (profiles d) = Some p"
    "find (\<lambda>e. exp_id e = x) (p_experience p) = Some e"
  shows "\<exists>p'. find (\<lambda>q. p_user q = uid) (profiles (fst (serve (delete_experience uid x) d))) = Some p' \<and>
    p_experience p' = remove1 e (p_experience p) \<and>
    length (p_experience p') = length (p_experience p) - 1 \<and>
    p_education p' = p_education p"
proof -
  let ?p' = "p\<lparr>p_experience := js_splice1 (js_index_of x (map exp_id (p_experience p))) (p_experience p)\<rparr>"
  have rm: "js_splice1 (js_index_of x (map exp_id (p_experience p))) (p_experience p) = remove1 e (p_experience p)"
    using assms(4) by (rule js_splice1_index_of_map)
  have "e \<in> set (p_experience p)" using assms(4) by (auto dest: find_SomeD)
  then have len: "length (remove1 e (p_experience p)) = length (p_experience p) - 1"
    by (simp add: length_remove1)
  have "find (\<lambda>q. p_user q = uid)
          (update_first (\<lambda>q. p_id q = p_id p \<and> p_v q = p_v p) (write_path Experience ?p') (profiles d)) =
        Some (write_path Experience ?p' p)"
    using assms(1,3) by (rule stored_after_array_save) simp
  then show ?thesis
    by (simp add: serve_delete_experience_found[OF assms(2,3)] Let_def rm len)
qed

theorem delete_experience_removes_entry_witness:
  "\<exists>p'. find (\<lambda>q. p_user q = ''u1'') (profiles (fst (serve (delete_experience ''u1'' ''e1'') ex_db))) = Some p' \<and>
    p_experience p' = [ex_exp ''e2''] \<and> length (p_experience p') = 1 \<and> p_education p' = []"
  using delete_experience_removes_entry[of ex_db "''u1''" "ex_profile ''p1'' ''u1''" "''e1''" "ex_exp ''e1''"]
  by (simp add: ex_db_def ex_profile_def ex_exp_def)

text \<open>C9. Deleting an experience entry by an id that matches no entry does not leave the
  list alone: \<open>indexOf\<close> gives -1, \<open>splice(-1, 1)\<close> removes the last entry, and the
  request succeeds with 200.\<close>

theorem delete_experience_unknown_id_drops_last:
  assumes "distinct (map p_id (profiles d))" "online d"
    "find (\<lambda>q. p_user q = uid) (profiles d) = Some p"
    "x \<notin> exp_id ` set (p_experience p)"
  shows "\<exists>p'. find (\<lambda>q. p_user q = uid) (profiles (fst (serve (delete_experience uid x) d))) = Some p' \<and>
    p_experience p' = butlast (p_experience p) \<and>
    fst (snd (serve (delete_experience uid x) d)) = Some (200, BProfile p')"
proof -
  let ?p' = "p\<lparr>p_experience := js_splice1 (js_index_of x (map exp_id (p_experience p))) (p_experience p)\<rparr>"
  have rm: "js_splice1 (js_index_of x (map exp_id (p_experience p))) (p_experience p) = butlast (p_experience p)"
    using assms(4) by (rule js_splice1_index_of_map_absent)
  have "find (\<lambda>q. p_user q = uid)
          (update_first (\<lambda>q. p_id q = p_id p \<and> p_v q = p_v p) (write_path Experience ?p') (profiles d)) =
        Some (write_path Experience ?p' p)"
    using assms(1,3) by (rule stored_after_array_save) simp
  then show ?thesis
    by (simp add: serve_delete_experience_found[OF assms(2,3)] Let_def rm)
qed

theorem delete_experience_unknown_id_drops_last_witness:
  "\<exists>p'. find (\<lambda>q. p_user q = ''u1'') (profiles (fst (serve (delete_experience ''u1'' ''nope'') ex_db))) = Some p' \<and>
    p_experience p' = [ex_exp ''e1''] \<and>
    fst (snd (serve (delete_experience ''u1'' ''nope'') ex_db)) = Some (200, BProfile p')"
  using delete_experience_unknown_id_drops_last[of ex_db "''u1''" "ex_profile ''p1'' ''u1''" "''nope''"]
  by (simp add: ex_db_def ex_profile_def ex_exp_def)

text \<open>C10. Deleting the account removes exactly the user's posts, the user's profile and the
  user record, and keeps every other post, profile and user in order.\<close>

theorem delete_profile_cascade:
  assumes "distinct (map p_user (profiles d))" "distinct (map u_id (users d))" "online d"
  shows "profiles (fst (serve (delete_profile uid) d)) = filter (\<lambda>p. p_user p \<noteq> uid) (profiles d) \<and>
         posts (fst (serve (delete_profile uid) d)) = filter (\<lambda>p. post_user p \<noteq> uid) (posts d) \<and>
         users (fst (serve (delete_profile uid) d)) = filter (\<lambda>x. u_id x \<noteq> uid) (users d) \<and>
         fst (snd (serve (delete_profile uid) d)) = Some (200, BMsg ''User deleted'')"
  using assms by (simp add: serve_delete_profile_online delete_first_filter_distinct)

theorem delete_profile_cascade_witness:
  "profiles (fst (serve (delete_profile ''u1'') ex_db)) = [ex_profile ''p2'' ''u2''] \<and>
   posts (fst (serve (delete_profile ''u1'') ex_db)) = [last (posts ex_db)] \<and>
   users (fst (serve (delete_profile ''u1'') ex_db)) = [last (users ex_db)] \<and>
   fst (snd (serve (delete_profile ''u1'') ex_db)) = Some (200, BMsg ''User deleted'')"
  using delete_profile_cascade[of ex_db "''u1''"]
  by (simp add: ex_db_def ex_profile_def)

text \<open>C11. A user without a profile who adds or deletes an experience or education entry
  gets 500 Server Error (the null profile is dereferenced), not a not-found answer, and
  the database is unchanged.\<close>

theorem array_routes_without_profile:
  assumes "online d" "find (\<lambda>p. p_user p = uid) (profiles d) = None"
    "validation_result experience_checks b = []" "validation_result education_checks b' = []"
  shows "serve (put_experience uid b) d = (d, Some (500, BText ''Server Error''), None) \<and>
         serve (delete_experience uid x) d = (d, Some (500, BText ''Server Error''), None) \<and>
         serve (put_education uid b') d = (d, Some (500, BText ''Server Error''), None) \<and>
         serve (delete_education uid x) d = (d, Some (500, BText ''Server Error''), None)"
  using assms
  by (simp add: serve_put_experience_missing serve_delete_experience_missing
                serve_put_education_missing serve_delete_education_missing)

theorem array_routes_without_profile_witness:
  "serve (put_experience ''u9'' ex_exp_body) ex_db = (ex_db, Some (500, BText ''Server Error''), None) \<and>
   serve (delete_experience ''u9'' ''e1'') ex_db = (ex_db, Some (500, BText ''Server Error''), None) \<and>
   serve (put_education ''u9'' [(''school'', JStr ''S''), (''degree'', JStr ''D''), (''fieldofstudy'', JStr ''F'')]) ex_db
     = (ex_db, Some (500, BText ''Server Error''), None) \<and>
   serve (delete_education ''u9'' ''e1'') ex_db = (ex_db, Some (500, BText ''Server Error''), None)"
  using array_routes_without_profile[of ex_db "''u9''" ex_exp_body
          "[(''school'', JStr ''S''), (''degree'', JStr ''D''), (''fieldofstudy'', JStr ''F'')]" "''e1''"]
  by (simp add: ex_db_def ex_exp_body_def ex_profile_def validation_result_def run_check_def
                experience_checks_def education_checks_def body_get_def)

text \<open>C12. GET /user/:user\_id answers a malformed id and a well-formed id without a
  profile identically: 400 with the text Profile not found.\<close>

theorem get_profile_by_user_not_found_collapsed:
  assumes "online d"
    "cast_oid s = None \<or> (\<exists>u. cast_oid s = Some u \<and> find (\<lambda>p. p_user p = u) (profiles d) = None)"
  shows "serve (get_profile_by_user s) d = (d, Some (400, BText ''Profile not found''), None)"
  using assms(2)
proof
  assume "cast_oid s = None"
  then show ?thesis by (rule serve_get_profile_by_user_malformed)
next
  assume "\<exists>u. cast_oid s = Some u \<and> find (\<lambda>p. p_user p = u) (profiles d) = None"
  then obtain u where "cast_oid s = Some u" "find (\<lambda>p. p_user p = u) (profiles d) = None" by blast
  with assms(1) show ?thesis by (intro serve_get_profile_by_user_missing)
qed

theorem get_profile_by_user_not_found_collapsed_witness:
  "serve (get_profile_by_user ''bad'') ex_db = (ex_db, Some (400, BText ''Profile not found''), None)"
  by (rule get_profile_by_user_not_found_collapsed) (simp_all add: ex_db_def cast_oid_def)

text \<open>C13. When the store fails during a valid create-or-update request, the request is never
  answered: the catch block's \<open>json('Server Error')\<close> throws a ReferenceError that escapes
  the handler.\<close>

theorem post_profile_store_failure_unanswered:
  assumes "validation_result profile_checks b = []" "body_get b ''skills'' = JStr s" "\<not> online d"
  shows "serve (post_profile uid b) d = (d, None, Some (ReferenceError ''json is not defined''))"
  using assms(3) by (rule serve_post_profile_offline[OF assms(1) post_profile_fields[OF assms(1,2)]])

theorem post_profile_store_failure_unanswered_witness:
  "serve (post_profile ''u1'' ex_body) (ex_db\<lparr>online := False\<rparr>) =
   (ex_db\<lparr>online := False\<rparr>, None, Some (ReferenceError ''json is not defined''))"
  by (rule post_profile_store_failure_unanswered[where s = "'' js ,isabelle''"])
     (simp_all add: ex_body_def validation_result_def run_check_def profile_checks_def body_get_def)

text \<open>C14. A status of \<open>false\<close> passes validation (its string form is not empty) but is
  dropped by the truthiness test: the profile created for it has no status.\<close>

theorem post_profile_false_status_dropped:
  assumes "body_get b ''status'' = JBool False" "body_get b ''skills'' = JStr s" "s \<noteq> []"
    "online d" "find (\<lambda>p. p_user p = uid) (profiles d) = None"
  shows "validation_result profile_checks b = [] \<and>
    (\<exists>p. find (\<lambda>q. p_user q = uid) (profiles (fst (serve (post_profile uid b) d))) = Some p \<and>
         p_status p = None)"
proof -
  have valid: "validation_result profile_checks b = []"
    using assms(1-3) by (simp add: validation_result_Nil_iff profile_checks_def)
  let ?f = "fields_of uid b (Some (normalize_skills s))"
  have "find (\<lambda>q. p_user q = uid) (profiles d @ [new_profile (oid_of_nat (next_oid d)) ?f]) =
        Some (new_profile (oid_of_nat (next_oid d)) ?f)"
    using assms(5) by (simp add: find_append_None new_profile_def fields_of_def)
  then show ?thesis
    using valid assms(1,4,5)
    by (simp add: serve_post_profile_create[OF valid post_profile_fields[OF valid assms(2)]] Let_def
                  new_profile_def fields_of_def opt_field_def)
qed

theorem post_profile_false_status_dropped_witness:
  "validation_result profile_checks [(''status'', JBool False), (''skills'', JStr ''js'')] = [] \<and>
   (\<exists>p. find (\<lambda>q. p_user q = ''u9'')
          (profiles (fst (serve (post_profile ''u9'' [(''status'', JBool False), (''skills'', JStr ''js'')]) ex_db)))
        = Some p \<and> p_status p = None)"
  by (rule post_profile_false_status_dropped[where s = "''js''"])
     (simp_all add: body_get_def ex_db_def ex_profile_def)

text \<open>C15. A truthy skills value that is not a string (a number) passes validation, and
  \<open>skills.split\<close>, which runs outside the try block, throws a TypeError out of the
  handler: no response is sent and nothing is written.\<close>

theorem post_profile_nonstring_skills_unanswered:
  assumes "body_get b ''skills'' = JNum n" "n \<noteq> 0" "\<not> is_empty_value (body_get b ''status'')"
  shows "serve (post_profile uid b) d = (d, None, Some (TypeError ''skills.split is not a function''))"
proof -
  have valid: "validation_result profile_checks b = []"
    using assms by (simp add: validation_result_Nil_iff profile_checks_def)
  show ?thesis
    using assms(1,2) by (intro serve_post_profile_split_error[OF valid]) auto
qed

theorem post_profile_nonstring_skills_unanswered_witness:
  "serve (post_profile ''u1'' [(''status'', JStr ''dev''), (''skills'', JNum 5)]) ex_db =
   (ex_db, None, Some (TypeError ''skills.split is not a function''))"
  by (rule post_profile_nonstring_skills_unanswered[where n = 5]) (simp_all add: body_get_def)

text \<open>C16. GET /me answers with the requesting user's profile, populated with the name
  and avatar of the user record it references, when there is one; with 400 and
  \<open>There is no profile for this user\<close> when there is none; with 500 when the store
  fails; and it never changes the database or lets an exception escape.\<close>

theorem get_me_answers:
  "serve (get_me uid) d =
     (d, Some (if \<not> online d then (500, BText ''Server Error'')
               else case find (\<lambda>p. p_user p = uid) (profiles d) of
                      None \<Rightarrow> (400, BMsg ''There is no profile for this user'')
                    | Some p \<Rightarrow> (200, BPopulated (p, map_option (\<lambda>x. (u_id x, u_name x, u_avatar x))
                                                    (find (\<lambda>x. u_id x = uid) (users d))))),
      None)"
proof (cases "online d")
  case False then show ?thesis by (simp add: serve_get_me_offline)
next
  case True
  show ?thesis
  proof (cases "find (\<lambda>p. p_user p = uid) (profiles d)")
    case None with True show ?thesis by (simp add: serve_get_me_missing)
  next
    case (Some p)
    then have "p_user p = uid" by (auto dest: find_Some_iff[THEN iffD1])
    with True Some show ?thesis by (simp add: serve_get_me_found populate_def)
  qed
qed

text \<open>C37. The education routes act on the education array only, as the experience
  routes do on theirs: adding an entry puts it first with a fresh id, before the
  others in order; deleting by an id removes the first entry with that id, and an
  id that matches no entry removes the last entry (\<open>splice(-1, 1)\<close>); the
  experience array is kept in both cases.\<close>

theorem education_routes:
  assumes "distinct (map p_id (profiles d))" "validation_result education_checks b = []"
    "online d" "find (\<lambda>q. p_user q = uid) (profiles d) = Some p"
  shows "(\<exists>p'. find (\<lambda>q. p_user q = uid) (profiles (fst (serve (put_education uid b) d))) = Some p' \<and>
           p_education p' = new_edu (oid_of_nat (next_oid d)) b # p_education p \<and>
           p_experience p' = p_experience p) \<and>
         (\<exists>p'. find (\<lambda>q. p_user q = uid) (profiles (fst (serve (delete_education uid x) d))) = Some p' \<and>
           p_education p' = (case find (\<lambda>e. edu_id e = x) (p_education p) of
                               Some e \<Rightarrow> remove1 e (p_education p)
                             | None \<Rightarrow> butlast (p_education p)) \<and>
           p_experience p' = p_experience p)"
proof
  let ?p' = "p\<lparr>p_education := new_edu (oid_of_nat (next_oid d)) b # p_education p\<rparr>"
  have "find (\<lambda>q. p_user q = uid)
          (update_first (\<lambda>q. p_id q = p_id p \<and> p_v q = p_v p) (write_path Education ?p') (profiles d)) =
        Some (write_path Education ?p' p)"
    using assms(1,4) by (rule stored_after_array_save) simp
  then show "\<exists>p'. find (\<lambda>q. p_user q = uid) (profiles (fst (serve (put_education uid b) d))) = Some p' \<and>
           p_education p' = new_edu (oid_of_nat (next_oid d)) b # p_education p \<and>
           p_experience p' = p_experience p"
    by (simp add: serve_put_education_found[OF assms(2-4)] Let_def)
next
  let ?es = "js_splice1 (js_index_of x (map edu_id (p_education p))) (p_education p)"
  have es: "?es = (case find (\<lambda>e. edu_id e = x) (p_education p) of
                     Some e \<Rightarrow> remove1 e (p_education p) | None \<Rightarrow> butlast (p_education p))"
  proof (cases "find (\<lambda>e. edu_id e = x) (p_education p)")
    case None
    then have "x \<notin> edu_id ` set (p_education p)" by (auto simp: find_None_iff)
    with None show ?thesis by (simp add: js_splice1_index_of_map_absent)
  next
    case (Some e)
    then show ?thesis by (simp add: js_splice1_index_of_map)
  qed
  have "find (\<lambda>q. p_user q = uid)
          (update_first (\<lambda>q. p_id q = p_id p \<and> p_v q = p_v p)
             (write_path Education (p\<lparr>p_education := ?es\<rparr>)) (profiles d)) =
        Some (write_path Education (p\<lparr>p_education := ?es\<rparr>) p)"
    using assms(1,4) by (rule stored_after_array_save) simp
  then show "\<exists>p'. find (\<lambda>q. p_user q = uid) (profiles (fst (serve (delete_education uid x) d))) = Some p' \<and>
           p_education p' = (case find (\<lambda>e. edu_id e = x) (p_education p) of
                               Some e \<Rightarrow> remove1 e (p_education p)
                             | None \<Rightarrow> butlast (p_education p)) \<and>
           p_experience p' = p_experience p"
    by (simp add: serve_delete_education_found[OF assms(3,4)] Let_def es del: find_None_iff)
qed

theorem education_routes_witness:
  "(\<exists>p'. find (\<lambda>q. p_user q = ''u1'') (profiles (fst (serve (put_education ''u1''
          [(''school'', JStr ''MIT''), (''degree'', JStr ''BSc''), (''fieldofstudy'', JStr ''CS'')]) ex_db))) = Some p' \<and>
     p_education p' = [new_edu (oid_of_nat 7)
          [(''school'', JStr ''MIT''), (''degree'', JStr ''BSc''), (''fieldofstudy'', JStr ''CS'')]] \<and>
     p_experience p' = [ex_exp ''e1'', ex_exp ''e2'']) \<and>
   (\<exists>p'. find (\<lambda>q. p_user q = ''u1'') (profiles (fst (serve (delete_education ''u1'' ''nope'') ex_db))) = Some p' \<and>
     p_education p' = [] \<and> p_experience p' = [ex_exp ''e1'', ex_exp ''e2''])"
  using education_routes[of ex_db "[(''school'', JStr ''MIT''), (''degree'', JStr ''BSc''), (''fieldofstudy'', JStr ''CS'')]"
      "''u1''" "ex_profile ''p1'' ''u1''" "''nope''"]
  by (simp add: ex_db_def ex_profile_def ex_exp_def validation_result_def run_check_def
                education_checks_def body_get_def)

text \<open>The cascade keeps the comments a deleted user left on other users' posts: each
  survives, naming a user id that no user record carries any more.\<close>

lemma delete_profile_keeps_foreign_comments:
  assumes "distinct (map u_id (users d))" "online d" "q \<in> set (posts d)" "post_user q \<noteq> uid"
    "c \<in> set (post_comments q)" "c_user c = uid"
  shows "(\<exists>q'\<in>set (posts (fst (serve (delete_profile uid) d))). c \<in> set (post_comments q')) \<and>
         c_user c \<notin> u_id ` set (users (fst (serve (delete_profile uid) d)))"
  using assms by (auto simp: serve_delete_profile_online delete_first_filter_distinct)

lemma delete_profile_keeps_foreign_comments_example:
  "(\<exists>q'\<in>set (posts (fst (serve (delete_profile ''u1'') ex_db))). ex_comment \<in> set (post_comments q')) \<and>
   c_user ex_comment \<notin> u_id ` set (users (fst (serve (delete_profile ''u1'') ex_db)))"
  by (rule delete_profile_keeps_foreign_comments[where q = "last (posts ex_db)"])
     (simp_all add: ex_db_def ex_comment_def)

text \<open>The read routes never change the database, whatever their outcome.\<close>

lemma read_routes_keep_db:
  "fst (serve (get_me uid) d) = d \<and> fst (serve get_profiles d) = d \<and>
   fst (serve (get_profile_by_user s) d) = d"
  by (simp add: serve_get_me_db serve_get_profiles_db serve_get_profile_by_user_db)

end
