(* ===== verification/Api.thy ===== *)
theory Api
  imports ProfileApi
begin

text \<open>
  The router of \<open>src/routes/api/profile.js\<close>: the requests it serves, the
  authentication middleware in front of every route but two, and the
  well-formedness invariant of the database that every request preserves.
\<close>

datatype request =
    GetMe
  | PostProfile req_body
  | GetProfiles
  | GetProfileByUser string
  | DeleteProfile
  | PutExperience req_body
  | DeleteExperience string
  | PutEducation req_body
  | DeleteEducation string

text \<open>The \<open>auth\<close> middleware (\<open>middleware/auth.js\<close>, not part of the sources) passes
  the id of the token's user on, and refuses a request without a valid token.\<close>

definition auth :: "oid option \<Rightarrow> (oid \<Rightarrow> unit handler) \<Rightarrow> unit handler" where
  "auth tok h = (case tok of None \<Rightarrow> send 401 BUnauthorized | Some uid \<Rightarrow> h uid)"

fun route :: "oid option \<Rightarrow> request \<Rightarrow> unit handler" where
  "route tok GetMe = auth tok get_me"
| "route tok (PostProfile b) = auth tok (\<lambda>uid. post_profile uid b)"
| "route tok GetProfiles = get_profiles"
| "route tok (GetProfileByUser s) = auth tok (\<lambda>_. get_profile_by_user s)"
| "route tok DeleteProfile = auth tok delete_profile"
| "route tok (PutExperience b) = auth tok (\<lambda>uid. put_experience uid b)"
| "route tok (DeleteExperience x) = auth tok (\<lambda>uid. delete_experience uid x)"
| "route tok (PutEducation b) = auth tok (\<lambda>uid. put_education uid b)"
| "route tok (DeleteEducation x) = auth tok (\<lambda>uid. delete_education uid x)"

subsection \<open>Well-formed databases\<close>

text \<open>Identifiers generated so far are the first \<open>n\<close> values of the generator.\<close>

definition ids_below :: "nat \<Rightarrow> oid list \<Rightarrow> bool" where
  "ids_below n xs \<longleftrightarrow> list_all (\<lambda>x. x \<in> set (map oid_of_nat [0..<n])) xs"

definition wf_profile :: "nat \<Rightarrow> profile \<Rightarrow> bool" where
  "wf_profile n p \<longleftrightarrow>
     distinct (map exp_id (p_experience p)) \<and> ids_below n (map exp_id (p_experience p)) \<and>
     distinct (map edu_id (p_education p)) \<and> ids_below n (map edu_id (p_education p))"

text \<open>The part of well-formedness that concerns identifiers only: distinct profile
  identifiers, distinct entry identifiers within each profile, all issued by the
  generator.\<close>

definition ids_wf :: "db \<Rightarrow> bool" where
  "ids_wf d \<longleftrightarrow>
     distinct (map p_id (profiles d)) \<and> ids_below (next_oid d) (map p_id (profiles d)) \<and>
     list_all (wf_profile (next_oid d)) (profiles d)"

definition wf_db :: "db \<Rightarrow> bool" where
  "wf_db d \<longleftrightarrow>
     distinct (map p_user (profiles d)) \<and> distinct (map p_id (profiles d)) \<and>
     ids_below (next_oid d) (map p_id (profiles d)) \<and> list_all (wf_profile (next_oid d)) (profiles d)"

text \<open>A well-formed database: the identifiers of the two profiles and of their
  experience entries are the first four the generator issued.\<close>

definition ex_wf_db :: db where
  "ex_wf_db = ex_db\<lparr>profiles :=
     [(ex_profile (oid_of_nat 0) ''u1'')\<lparr>p_experience := [ex_exp (oid_of_nat 2)]\<rparr>,
      (ex_profile (oid_of_nat 1) ''u2'')\<lparr>p_experience := [ex_exp (oid_of_nat 3)]\<rparr>],
     next_oid := 4\<rparr>"

subsection \<open>Well-typed skills\<close>

text \<open>A stored skill is a trimmed string without a comma: what \<open>split(',')\<close>
  followed by \<open>trim()\<close> produces.\<close>

definition skill_ok :: "string \<Rightarrow> bool" where
  "skill_ok s \<longleftrightarrow> CHR '','' \<notin> set s \<and> js_trim s = s"

definition fields_ok :: "profile_fields \<Rightarrow> bool" where
  "fields_ok f = (case pf_skills f of None \<Rightarrow> True | Some sk \<Rightarrow> list_all skill_ok sk)"

definition skills_typed :: "db \<Rightarrow> bool" where
  "skills_typed d \<longleftrightarrow> list_all (\<lambda>p. list_all skill_ok (p_skills p)) (profiles d)"

subsection \<open>What one request can do to the database\<close>

text \<open>The database a request leaves behind, one rule per kind of path through the
  handlers: nothing written; a profile updated or created (\<open>POST /\<close>); an
  experience or education entry added or removed by a versioned save; the account
  deleted (\<open>DELETE /\<close>).\<close>

inductive req_effect :: "db \<Rightarrow> db \<Rightarrow> bool" where
  keep: "req_effect d d"
| update: "fields_ok f \<Longrightarrow>
    req_effect d (d\<lparr>profiles := update_first (\<lambda>p. p_user p = pf_user f) (set_profile_fields f) (profiles d)\<rparr>)"
| create: "fields_ok f \<Longrightarrow> find (\<lambda>p. p_user p = pf_user f) (profiles d) = None \<Longrightarrow>
    req_effect d (d\<lparr>next_oid := Suc (next_oid d),
                    profiles := profiles d @ [new_profile (oid_of_nat (next_oid d)) f]\<rparr>)"
| add_exp: "find (\<lambda>q. p_user q = u) (profiles d) = Some p \<Longrightarrow>
    req_effect d (d\<lparr>next_oid := Suc (next_oid d),
      profiles := update_first (\<lambda>q. p_id q = p_id p \<and> p_v q = p_v p)
        (write_path Experience (p\<lparr>p_experience := new_exp (oid_of_nat (next_oid d)) b # p_experience p\<rparr>))
        (profiles d)\<rparr>)"
| add_edu: "find (\<lambda>q. p_user q = u) (profiles d) = Some p \<Longrightarrow>
    req_effect d (d\<lparr>next_oid := Suc (next_oid d),
      profiles := update_first (\<lambda>q. p_id q = p_id p \<and> p_v q = p_v p)
        (write_path Education (p\<lparr>p_education := new_edu (oid_of_nat (next_oid d)) b # p_education p\<rparr>))
        (profiles d)\<rparr>)"
| del_exp: "find (\<lambda>q. p_user q = u) (profiles d) = Some p \<Longrightarrow>
    req_effect d (d\<lparr>profiles := update_first (\<lambda>q. p_id q = p_id p \<and> p_v q = p_v p)
        (write_path Experience (p\<lparr>p_experience := js_splice1 k (p_experience p)\<rparr>)) (profiles d)\<rparr>)"
| del_edu: "find (\<lambda>q. p_user q = u) (profiles d) = Some p \<Longrightarrow>
    req_effect d (d\<lparr>profiles := update_first (\<lambda>q. p_id q = p_id p \<and> p_v q = p_v p)
        (write_path Education (p\<lparr>p_education := js_splice1 k (p_education p)\<rparr>)) (profiles d)\<rparr>)"
| delete: "req_effect d (d\<lparr>posts := ps, profiles := delete_first (\<lambda>p. p_user p = u) (profiles d), users := us\<rparr>)"

lemma ids_below_fresh: "ids_below n xs \<Longrightarrow> oid_of_nat n \<notin> set xs"
  by (auto simp: ids_below_def list_all_iff oid_of_nat_inj)

lemma ids_below_mono: "ids_below n xs \<Longrightarrow> n \<le> m \<Longrightarrow> ids_below m xs"
  by (auto simp: ids_below_def list_all_iff)

lemma ids_below_Cons_fresh: "ids_below n xs \<Longrightarrow> ids_below (Suc n) (oid_of_nat n # xs)"
  by (auto simp: ids_below_def list_all_iff)

lemma ids_below_subset: "ids_below n xs \<Longrightarrow> set ys \<subseteq> set xs \<Longrightarrow> ids_below n ys"
  by (auto simp: ids_below_def list_all_iff)

lemma wf_profile_mono: "wf_profile n p \<Longrightarrow> n \<le> m \<Longrightarrow> wf_profile m p"
  by (auto simp: wf_profile_def intro: ids_below_mono)


lemma map_remove_at: "map g (remove_at k xs) = remove_at k (map g xs)"
  by (simp add: remove_at_def take_map drop_map)

lemma set_remove_at: "set (remove_at k xs) \<subseteq> set xs"
  by (auto simp: remove_at_def dest: in_set_takeD in_set_dropD)

lemma distinct_remove_at: "distinct xs \<Longrightarrow> distinct (remove_at k xs)"
  by (simp add: remove_at_def set_take_disj_set_drop_if_distinct)

lemma js_splice1_remove_at: "\<exists>j. js_splice1 k xs = remove_at j xs"
  by (auto simp: js_splice1_def Let_def)

lemma wf_profile_splice_experience:
  "wf_profile n p \<Longrightarrow> wf_profile n (p\<lparr>p_experience := js_splice1 k (p_experience p)\<rparr>)"
proof -
  assume wf: "wf_profile n p"
  obtain j where j: "js_splice1 k (p_experience p) = remove_at j (p_experience p)"
    using js_splice1_remove_at by blast
  have sub: "set (remove_at j (map exp_id (p_experience p))) \<subseteq> set (map exp_id (p_experience p))"
    by (rule set_remove_at)
  have "ids_below n (remove_at j (map exp_id (p_experience p)))"
    using ids_below_subset[OF _ sub] wf unfolding wf_profile_def by blast
  moreover have "distinct (remove_at j (map exp_id (p_experience p)))"
    using wf by (simp add: wf_profile_def distinct_remove_at)
  ultimately show ?thesis
    using wf by (simp add: wf_profile_def j map_remove_at)
qed

lemma wf_profile_splice_education:
  "wf_profile n p \<Longrightarrow> wf_profile n (p\<lparr>p_education := js_splice1 k (p_education p)\<rparr>)"
proof -
  assume wf: "wf_profile n p"
  obtain j where j: "js_splice1 k (p_education p) = remove_at j (p_education p)"
    using js_splice1_remove_at by blast
  have sub: "set (remove_at j (map edu_id (p_education p))) \<subseteq> set (map edu_id (p_education p))"
    by (rule set_remove_at)
  have "ids_below n (remove_at j (map edu_id (p_education p)))"
    using ids_below_subset[OF _ sub] wf unfolding wf_profile_def by blast
  moreover have "distinct (remove_at j (map edu_id (p_education p)))"
    using wf by (simp add: wf_profile_def distinct_remove_at)
  ultimately show ?thesis
    using wf by (simp add: wf_profile_def j map_remove_at)
qed

lemma wf_profile_new_experience:
  "wf_profile n p \<Longrightarrow> wf_profile (Suc n) (p\<lparr>p_experience := new_exp (oid_of_nat n) b # p_experience p\<rparr>)"
proof -
  assume wf: "wf_profile n p"
  then have "oid_of_nat n \<notin> set (map exp_id (p_experience p))"
    using ids_below_fresh[of n "map exp_id (p_experience p)"] unfolding wf_profile_def by blast
  with wf show ?thesis
    by (auto simp: wf_profile_def new_exp_def ids_below_Cons_fresh intro: ids_below_mono)
qed

lemma wf_profile_new_education:
  "wf_profile n p \<Longrightarrow> wf_profile (Suc n) (p\<lparr>p_education := new_edu (oid_of_nat n) b # p_education p\<rparr>)"
proof -
  assume wf: "wf_profile n p"
  then have "oid_of_nat n \<notin> set (map edu_id (p_education p))"
    using ids_below_fresh[of n "map edu_id (p_education p)"] unfolding wf_profile_def by blast
  with wf show ?thesis
    by (auto simp: wf_profile_def new_edu_def ids_below_Cons_fresh intro: ids_below_mono)
qed

lemma wf_profile_write_path:
  "wf_profile n p' \<Longrightarrow> wf_profile n p \<Longrightarrow> wf_profile n (write_path path p' p)"
  by (cases path) (auto simp: wf_profile_def)

lemma wf_db_ids_wf: "wf_db d \<longleftrightarrow> distinct (map p_user (profiles d)) \<and> ids_wf d"
  by (auto simp: wf_db_def ids_wf_def)

lemma ids_wf_profile: "ids_wf d \<Longrightarrow> p \<in> set (profiles d) \<Longrightarrow> wf_profile (next_oid d) p"
  by (simp add: ids_wf_def list_all_iff)

lemma map_update_first_write_path:
  "map p_id (update_first Q (write_path path p') xs) = map p_id xs"
  "map p_user (update_first Q (write_path path p') xs) = map p_user xs"
  by (rule map_update_first; cases path; simp)+

text \<open>A save of an array writes the array of a document all of whose entries are
  well formed into every profile it matches; the profile identifiers do not change.\<close>

lemma ids_wf_array_save:
  assumes ids: "ids_wf d" and wfp: "wf_profile n p'" and n: "next_oid d \<le> n"
  shows "ids_wf (d\<lparr>next_oid := n, profiles := update_first Q (write_path path p') (profiles d)\<rparr>)"
proof -
  let ?xs = "update_first Q (write_path path p') (profiles d)"
  have old: "wf_profile n q" if "q \<in> set (profiles d)" for q
    using ids_wf_profile[OF ids that] n by (rule wf_profile_mono)
  have "set ?xs \<subseteq> set (profiles d) \<union> write_path path p' ` {x \<in> set (profiles d). Q x}"
    by (rule set_update_first_subset)
  then have "list_all (wf_profile n) ?xs"
    using old wfp by (auto simp: list_all_iff intro: wf_profile_write_path)
  moreover have "ids_below n (map p_id (profiles d))"
    using ids n by (auto simp: ids_wf_def intro: ids_below_mono)
  ultimately show ?thesis
    using ids by (simp add: ids_wf_def map_update_first_write_path)
qed

lemma wf_db_array_save:
  assumes wf: "wf_db d" and found: "find (\<lambda>q. p_user q = uid) (profiles d) = Some p"
    and wfp: "wf_profile n p'" and n: "next_oid d \<le> n"
  shows "wf_db (d\<lparr>next_oid := n,
           profiles := update_first (\<lambda>q. p_id q = p_id p \<and> p_v q = p_v p) (write_path path p') (profiles d)\<rparr>)"
  using wf ids_wf_array_save[OF _ wfp n] by (simp add: wf_db_ids_wf map_update_first_write_path)

lemma ids_below_snoc_fresh: "ids_below n xs \<Longrightarrow> ids_below (Suc n) (xs @ [oid_of_nat n])"
  by (auto simp: ids_below_def list_all_iff)

lemma ids_wf_next_oid: "ids_wf d \<Longrightarrow> next_oid d \<le> n \<Longrightarrow> ids_wf (d\<lparr>next_oid := n\<rparr>)"
  by (auto simp: ids_wf_def list_all_iff intro: ids_below_mono wf_profile_mono)

lemma wf_db_next_oid: "wf_db d \<Longrightarrow> next_oid d \<le> n \<Longrightarrow> wf_db (d\<lparr>next_oid := n\<rparr>)"
  by (simp add: wf_db_ids_wf ids_wf_next_oid)

lemma wf_db_array_save_same:
  assumes "wf_db d" "find (\<lambda>q. p_user q = uid) (profiles d) = Some p" "wf_profile (next_oid d) p'"
  shows "wf_db (d\<lparr>profiles :=
           update_first (\<lambda>q. p_id q = p_id p \<and> p_v q = p_v p) (write_path path p') (profiles d)\<rparr>)"
  using wf_db_array_save[OF assms order_refl] by simp

lemma wf_db_found_profile:
  "wf_db d \<Longrightarrow> find (\<lambda>q. p_user q = uid) (profiles d) = Some p \<Longrightarrow> wf_profile (next_oid d) p"
  by (auto simp: wf_db_def list_all_iff dest: find_SomeD)

lemma wf_profile_set_fields [simp]: "wf_profile n (set_profile_fields f p) = wf_profile n p"
  by (simp add: wf_profile_def set_profile_fields_def)

lemma ids_wf_profile_update:
  assumes ids: "ids_wf d"
  shows "ids_wf (d\<lparr>profiles := update_first P (set_profile_fields f) (profiles d)\<rparr>)"
proof -
  have "map p_id (update_first P (set_profile_fields f) (profiles d)) = map p_id (profiles d)"
    by (intro map_update_first) (simp add: set_profile_fields_def)
  moreover have "list_all (wf_profile (next_oid d)) (update_first P (set_profile_fields f) (profiles d))"
    using ids by (intro list_all_update_first) (auto simp: ids_wf_def list_all_iff)
  ultimately show ?thesis using ids by (simp add: ids_wf_def)
qed

lemma ids_wf_profile_create:
  assumes ids: "ids_wf d"
  shows "ids_wf (d\<lparr>next_oid := Suc (next_oid d),
                   profiles := profiles d @ [new_profile (oid_of_nat (next_oid d)) f]\<rparr>)"
proof -
  have "oid_of_nat (next_oid d) \<notin> set (map p_id (profiles d))"
    using ids ids_below_fresh[of "next_oid d" "map p_id (profiles d)"] by (simp add: ids_wf_def)
  moreover have "ids_below (Suc (next_oid d)) (map p_id (profiles d) @ [oid_of_nat (next_oid d)])"
    using ids by (simp add: ids_wf_def ids_below_snoc_fresh)
  moreover have "list_all (wf_profile (Suc (next_oid d))) (profiles d)"
    using ids by (auto simp: ids_wf_def list_all_iff intro: wf_profile_mono)
  moreover have "wf_profile (Suc (next_oid d)) (new_profile (oid_of_nat (next_oid d)) f)"
    by (simp add: wf_profile_def new_profile_def ids_below_def)
  ultimately show ?thesis using ids by (simp add: ids_wf_def new_profile_def)
qed

lemma ids_wf_delete:
  assumes ids: "ids_wf d"
  shows "ids_wf (d\<lparr>posts := ps, profiles := delete_first P (profiles d), users := us\<rparr>)"
proof -
  have "set (map p_id (delete_first P (profiles d))) \<subseteq> set (map p_id (profiles d))"
    using set_delete_first_subset by fastforce
  with ids have "ids_below (next_oid d) (map p_id (delete_first P (profiles d)))"
    unfolding ids_wf_def by (blast intro: ids_below_subset)
  with ids show ?thesis
    by (simp add: ids_wf_def map_delete_first_distinct list_all_delete_first)
qed

lemma wf_db_profile_update:
  assumes wf: "wf_db d" and u: "pf_user f = uid"
  shows "wf_db (d\<lparr>profiles := update_first (\<lambda>p. p_user p = uid) (set_profile_fields f) (profiles d)\<rparr>)"
proof -
  have "map p_user (update_first (\<lambda>p. p_user p = uid) (set_profile_fields f) (profiles d)) = map p_user (profiles d)"
    using u by (intro map_update_first) (simp add: set_profile_fields_def)
  with wf ids_wf_profile_update[of d] show ?thesis by (simp add: wf_db_ids_wf)
qed

lemma wf_db_profile_create:
  assumes wf: "wf_db d" and none: "find (\<lambda>p. p_user p = pf_user f) (profiles d) = None"
  shows "wf_db (d\<lparr>next_oid := Suc (next_oid d),
                   profiles := profiles d @ [new_profile (oid_of_nat (next_oid d)) f]\<rparr>)"
proof -
  have "pf_user f \<notin> set (map p_user (profiles d))"
    using none by (auto simp: find_None_iff)
  with wf ids_wf_profile_create[of d f] show ?thesis by (simp add: wf_db_ids_wf new_profile_def)
qed

lemma wf_db_delete_profile:
  "wf_db d \<Longrightarrow> wf_db (d\<lparr>posts := ps, profiles := delete_first P (profiles d), users := us\<rparr>)"
  by (simp add: wf_db_ids_wf ids_wf_delete map_delete_first_distinct)

subsection \<open>The effect of every handler\<close>

lemma normalize_skills_ok: "list_all skill_ok (normalize_skills s)"
proof -
  have "skill_ok (js_trim p)" if "p \<in> set (js_split (CHR '','') s)" for p
    using js_split_no_sep[OF that] set_js_trim[of p] js_trim_idem[of p]
    by (auto simp: skill_ok_def)
  then show ?thesis by (auto simp: normalize_skills_def list_all_iff)
qed

lemma build_profile_fields_ok:
  "build_profile_fields uid b = (js_throw (TypeError ''skills.split is not a function'') :: (profile_fields, 's) js) \<or>
   (\<exists>sk. fields_ok (fields_of uid b sk) \<and>
         build_profile_fields uid b = (js_return (fields_of uid b sk) :: (profile_fields, 's) js))"
proof (cases "truthy (body_get b ''skills'')")
  case True
  show ?thesis
  proof (cases "body_get b ''skills''")
    case (JStr str)
    have "fields_ok (fields_of uid b (Some (normalize_skills str)))"
      by (simp add: fields_ok_def fields_of_def normalize_skills_ok)
    moreover have "build_profile_fields uid b =
        (js_return (fields_of uid b (Some (normalize_skills str))) :: (profile_fields, 's) js)"
      using True JStr by (simp add: build_profile_fields_def fun_eq_iff js_simps)
    ultimately show ?thesis by blast
  qed (use True in \<open>simp_all add: build_profile_fields_def fun_eq_iff js_simps\<close>)
next
  case False
  then have "build_profile_fields uid b = (js_return (fields_of uid b None) :: (profile_fields, 's) js)"
    by (simp add: build_profile_fields_def fun_eq_iff js_simps)
  moreover have "fields_ok (fields_of uid b None)" by (simp add: fields_ok_def fields_of_def)
  ultimately show ?thesis by blast
qed

lemma effect_post_profile: "req_effect d (fst (serve (post_profile uid b) d))"
proof (cases "validation_result profile_checks b")
  case (Cons e es) then show ?thesis by (simp add: serve_post_profile_invalid req_effect.keep)
next
  case Nil
  consider (thr) "build_profile_fields uid b =
              (js_throw (TypeError ''skills.split is not a function'') :: (profile_fields, server) js)"
    | (ret) sk where "fields_ok (fields_of uid b sk)"
        "build_profile_fields uid b = (js_return (fields_of uid b sk) :: (profile_fields, server) js)"
    using build_profile_fields_ok by blast
  then show ?thesis
  proof cases
    case thr with Nil show ?thesis by (simp add: serve_post_profile_throw req_effect.keep)
  next
    case ret
    let ?f = "fields_of uid b sk"
    have u: "pf_user ?f = uid" by (simp add: fields_of_def)
    show ?thesis
    proof (cases "online d")
      case False with Nil ret show ?thesis by (simp add: serve_post_profile_offline req_effect.keep)
    next
      case True
      show ?thesis
      proof (cases "find (\<lambda>p. p_user p = uid) (profiles d)")
        case None
        with Nil ret True req_effect.create[OF ret(1), of d] u show ?thesis
          by (simp add: serve_post_profile_create Let_def)
      next
        case (Some p)
        with Nil ret True req_effect.update[OF ret(1), of d] u show ?thesis
          by (simp add: serve_post_profile_update)
      qed
    qed
  qed
qed

lemma effect_put_experience: "req_effect d (fst (serve (put_experience uid b) d))"
proof (cases "validation_result experience_checks b")
  case (Cons e es) then show ?thesis by (simp add: serve_put_experience_invalid req_effect.keep)
next
  case Nil
  show ?thesis
  proof (cases "online d")
    case False with Nil show ?thesis by (simp add: serve_put_experience_offline req_effect.keep)
  next
    case True
    show ?thesis
    proof (cases "find (\<lambda>p. p_user p = uid) (profiles d)")
      case None with Nil True show ?thesis by (simp add: serve_put_experience_missing req_effect.keep)
    next
      case (Some p)
      from req_effect.add_exp[OF Some, of b]
      show ?thesis by (simp add: serve_put_experience_found[OF Nil True Some] Let_def)
    qed
  qed
qed

lemma effect_put_education: "req_effect d (fst (serve (put_education uid b) d))"
proof (cases "validation_result education_checks b")
  case (Cons e es) then show ?thesis by (simp add: serve_put_education_invalid req_effect.keep)
next
  case Nil
  show ?thesis
  proof (cases "online d")
    case False with Nil show ?thesis by (simp add: serve_put_education_offline req_effect.keep)
  next
    case True
    show ?thesis
    proof (cases "find (\<lambda>p. p_user p = uid) (profiles d)")
      case None with Nil True show ?thesis by (simp add: serve_put_education_missing req_effect.keep)
    next
      case (Some p)
      from req_effect.add_edu[OF Some, of b]
      show ?thesis by (simp add: serve_put_education_found[OF Nil True Some] Let_def)
    qed
  qed
qed

lemma effect_delete_experience: "req_effect d (fst (serve (delete_experience uid x) d))"
proof (cases "online d")
  case False then show ?thesis by (simp add: serve_delete_experience_offline req_effect.keep)
next
  case True
  show ?thesis
  proof (cases "find (\<lambda>p. p_user p = uid) (profiles d)")
    case None with True show ?thesis by (simp add: serve_delete_experience_missing req_effect.keep)
  next
    case (Some p)
    from req_effect.del_exp[OF Some, of "js_index_of x (map exp_id (p_experience p))"]
    show ?thesis by (simp add: serve_delete_experience_found[OF True Some] Let_def)
  qed
qed

lemma effect_delete_education: "req_effect d (fst (serve (delete_education uid x) d))"
proof (cases "online d")
  case False then show ?thesis by (simp add: serve_delete_education_offline req_effect.keep)
next
  case True
  show ?thesis
  proof (cases "find (\<lambda>p. p_user p = uid) (profiles d)")
    case None with True show ?thesis by (simp add: serve_delete_education_missing req_effect.keep)
  next
    case (Some p)
    from req_effect.del_edu[OF Some, of "js_index_of x (map edu_id (p_education p))"]
    show ?thesis by (simp add: serve_delete_education_found[OF True Some] Let_def)
  qed
qed

lemma effect_delete_profile: "req_effect d (fst (serve (delete_profile uid) d))"
  by (cases "online d") (simp_all add: serve_delete_profile_online serve_delete_profile_offline
                                       req_effect.keep req_effect.delete)

lemma route_req_effect: "req_effect d (fst (serve (route tok r) d))"
proof (cases tok)
  case None then show ?thesis by (cases r) (simp_all add: auth_def serve_get_profiles_db req_effect.keep)
next
  case (Some uid)
  then show ?thesis
    by (cases r) (simp_all add: auth_def serve_get_me_db serve_get_profiles_db serve_get_profile_by_user_db
                   req_effect.keep effect_post_profile effect_put_experience effect_put_education
                   effect_delete_experience effect_delete_education effect_delete_profile)
qed

subsection \<open>Well-formedness, typing and bounds of one request\<close>

lemma wf_db_req_effect: "req_effect d d' \<Longrightarrow> wf_db d \<Longrightarrow> wf_db d'"
proof (induction rule: req_effect.induct)
  case (update f d) from update.prems show ?case by (rule wf_db_profile_update) simp
next
  case (create f d) then show ?case by (simp add: wf_db_profile_create)
next
  case (add_exp d u p b)
  from wf_profile_new_experience[OF wf_db_found_profile[OF add_exp.prems add_exp.hyps]]
  show ?case by (rule wf_db_array_save[OF add_exp.prems add_exp.hyps _ le_SucI[OF order_refl]])
next
  case (add_edu d u p b)
  from wf_profile_new_education[OF wf_db_found_profile[OF add_edu.prems add_edu.hyps]]
  show ?case by (rule wf_db_array_save[OF add_edu.prems add_edu.hyps _ le_SucI[OF order_refl]])
next
  case (del_exp d u p k)
  from wf_profile_splice_experience[OF wf_db_found_profile[OF del_exp.prems del_exp.hyps]]
  show ?case by (rule wf_db_array_save_same[OF del_exp.prems del_exp.hyps])
next
  case (del_edu d u p k)
  from wf_profile_splice_education[OF wf_db_found_profile[OF del_edu.prems del_edu.hyps]]
  show ?case by (rule wf_db_array_save_same[OF del_edu.prems del_edu.hyps])
next
  case (delete d ps u us) then show ?case by (rule wf_db_delete_profile)
qed simp

lemma wf_db_put_experience: "wf_db d \<Longrightarrow> wf_db (fst (serve (put_experience uid b) d))"
  using wf_db_req_effect effect_put_experience by blast

lemma wf_ex_wf_db: "wf_db ex_wf_db"
  by (simp add: wf_db_def ex_wf_db_def ex_db_def ex_profile_def ex_exp_def wf_profile_def
                ids_below_def oid_of_nat_inj)

subsection \<open>Properties of the routed API\<close>

text \<open>C18. Every request to the profile API, with or without a token, preserves the
  well-formedness of the database: at most one profile per user, distinct profile
  identifiers, distinct experience and education identifiers within each profile, and
  every identifier one the generator has issued.\<close>

theorem route_preserves_wf:
  "wf_db d \<Longrightarrow> wf_db (fst (serve (route tok r) d))"
  using route_req_effect wf_db_req_effect by blast

theorem route_preserves_wf_witness:
  "wf_db ex_wf_db \<and> wf_db (fst (serve (route (Some ''u1'') (PutExperience ex_exp_body)) ex_wf_db))"
  using route_preserves_wf[of ex_wf_db "Some ''u1''" "PutExperience ex_exp_body"] wf_ex_wf_db by simp

text \<open>Without a token, the routes of the profile API other than GET / answer 401.\<close>

lemma route_without_token:
  "serve (route None r) d =
     (if r = GetProfiles then serve get_profiles d else (d, Some (401, BUnauthorized), None))"
  by (cases r) (simp_all add: auth_def)

lemma req_effect_bounds:
  "req_effect d d' \<Longrightarrow>
   next_oid d \<le> next_oid d' \<and> next_oid d' \<le> Suc (next_oid d) \<and>
   length (profiles d') \<le> Suc (length (profiles d)) \<and> length (profiles d) \<le> Suc (length (profiles d'))"
proof (induction rule: req_effect.induct)
  case (delete d ps u us)
  then show ?case using length_delete_first[of "profiles d" "\<lambda>p. p_user p = u"] by (simp; arith)
qed simp_all

lemma skills_write_path [simp]: "p_skills (write_path path p' q) = p_skills q"
  by (cases path) simp_all

lemma skills_typed_req_effect: "req_effect d d' \<Longrightarrow> skills_typed d \<Longrightarrow> skills_typed d'"
proof (induction rule: req_effect.induct)
  case (update f d)
  have q: "list_all skill_ok (p_skills (set_profile_fields f q))" if "list_all skill_ok (p_skills q)" for q
    using update.hyps that by (simp add: fields_ok_def set_profile_fields_def split: option.splits)
  from update.prems
  have "list_all (\<lambda>p. list_all skill_ok (p_skills p))
          (update_first (\<lambda>p. p_user p = pf_user f) (set_profile_fields f) (profiles d))"
    unfolding skills_typed_def
  proof (rule list_all_update_first)
    fix x assume "x \<in> set (profiles d)"
    with update.prems have "list_all skill_ok (p_skills x)" by (simp add: skills_typed_def list_all_iff)
    then show "(\<lambda>p. list_all skill_ok (p_skills p)) (set_profile_fields f x)" by (simp add: q)
  qed
  then show ?case by (simp add: skills_typed_def)
next
  case (create f d)
  then show ?case by (auto simp: skills_typed_def fields_ok_def new_profile_def split: option.splits)
next
  case (delete d ps u us)
  then show ?case by (simp add: skills_typed_def list_all_delete_first)
qed (auto simp: skills_typed_def intro!: list_all_update_first, simp_all add: list_all_iff)

text \<open>C38. One request, whatever its route and outcome, draws at most one identifier from
  the generator and changes the number of stored profiles by at most one.\<close>

theorem route_bounds:
  "next_oid d \<le> next_oid (fst (serve (route tok r) d)) \<and>
   next_oid (fst (serve (route tok r) d)) \<le> Suc (next_oid d) \<and>
   length (profiles (fst (serve (route tok r) d))) \<le> Suc (length (profiles d)) \<and>
   length (profiles d) \<le> Suc (length (profiles (fst (serve (route tok r) d))))"
  by (rule req_effect_bounds[OF route_req_effect])

text \<open>C39. Stored skills are always well typed: if every stored skill is a trimmed
  string without a comma, so is every skill after any request; the create-or-update
  route stores exactly the output of \<open>split(',')\<close> and \<open>trim()\<close>, and no other route
  touches the skills.\<close>

theorem route_keeps_skills_typed:
  "skills_typed d \<Longrightarrow> skills_typed (fst (serve (route tok r) d))"
  by (rule skills_typed_req_effect[OF route_req_effect])

theorem route_keeps_skills_typed_witness:
  "skills_typed (fst (serve (route (Some ''u1'') (PostProfile ex_body)) ex_wf_db))"
  by (rule route_keeps_skills_typed)
     (simp add: skills_typed_def skill_ok_def ex_wf_db_def ex_db_def ex_profile_def js_trim_def js_whitespace_def)

lemma serve_put_experience_stored:
  assumes wf: "wf_db d" and on: "online d" and v: "validation_result experience_checks b = []"
    and found: "find (\<lambda>q. p_user q = u) (profiles d) = Some p"
  shows "wf_db (fst (serve (put_experience u b) d)) \<and> online (fst (serve (put_experience u b) d)) \<and>
         next_oid (fst (serve (put_experience u b) d)) = Suc (next_oid d) \<and>
         find (\<lambda>q. p_user q = u) (profiles (fst (serve (put_experience u b) d))) =
           Some (p\<lparr>p_experience := new_exp (oid_of_nat (next_oid d)) b # p_experience p, p_v := Suc (p_v p)\<rparr>)"
proof -
  have ids: "distinct (map p_id (profiles d))" using wf by (simp add: wf_db_def)
  let ?p' = "p\<lparr>p_experience := new_exp (oid_of_nat (next_oid d)) b # p_experience p\<rparr>"
  have "find (\<lambda>q. p_user q = u)
          (update_first (\<lambda>q. p_id q = p_id p \<and> p_v q = p_v p) (write_path Experience ?p') (profiles d)) =
        Some (write_path Experience ?p' p)"
    by (rule stored_after_array_save[OF ids found]) simp
  moreover have "wf_db (fst (serve (put_experience u b) d))" by (rule wf_db_put_experience[OF wf])
  ultimately show ?thesis using on
    by (simp add: serve_put_experience_found[OF v on found] Let_def)
qed

lemma serve_delete_new_experience:
  assumes wf: "wf_db d" and on: "online d"
    and found: "find (\<lambda>q. p_user q = u) (profiles d) = Some (p\<lparr>p_experience := e # es\<rparr>)"
  shows "find (\<lambda>q. p_user q = u) (profiles (fst (serve (delete_experience u (exp_id e)) d))) =
           Some (p\<lparr>p_experience := es, p_v := Suc (p_v p)\<rparr>)"
proof -
  have ids: "distinct (map p_id (profiles d))" using wf by (simp add: wf_db_def)
  let ?q = "p\<lparr>p_experience := e # es\<rparr>"
  have "find (\<lambda>x. p_user x = u)
          (update_first (\<lambda>x. p_id x = p_id ?q \<and> p_v x = p_v ?q) (write_path Experience (?q\<lparr>p_experience := es\<rparr>))
            (profiles d)) = Some (write_path Experience (?q\<lparr>p_experience := es\<rparr>) ?q)"
    by (rule stored_after_array_save[OF ids found]) simp
  then show ?thesis
    by (simp add: serve_delete_experience_found[OF on found] Let_def js_splice1_def remove_at_def)
qed

text \<open>C40. Adding an experience entry and then deleting it by the identifier it was given
  restores the user's experience list; only the version has moved on, by one per
  save.\<close>

theorem add_then_delete_experience_roundtrip:
  assumes wf: "wf_db d" and on: "online d" and v: "validation_result experience_checks b = []"
    and found: "find (\<lambda>q. p_user q = u) (profiles d) = Some p"
  shows "find (\<lambda>q. p_user q = u)
           (profiles (fst (serve (delete_experience u (oid_of_nat (next_oid d)))
                                 (fst (serve (put_experience u b) d))))) =
         Some (p\<lparr>p_v := Suc (Suc (p_v p))\<rparr>)"
proof -
  let ?d1 = "fst (serve (put_experience u b) d)"
  let ?e = "new_exp (oid_of_nat (next_oid d)) b"
  note st = serve_put_experience_stored[OF wf on v found]
  have "find (\<lambda>q. p_user q = u) (profiles ?d1) =
        Some ((p\<lparr>p_v := Suc (p_v p)\<rparr>)\<lparr>p_experience := ?e # p_experience p\<rparr>)"
    using st by simp
  from serve_delete_new_experience[OF conjunct1[OF st] conjunct1[OF conjunct2[OF st]] this]
  show ?thesis by (simp add: new_exp_def)
qed

theorem add_then_delete_experience_roundtrip_witness:
  "find (\<lambda>q. p_user q = ''u1'')
     (profiles (fst (serve (delete_experience ''u1'' (oid_of_nat 4))
                           (fst (serve (put_experience ''u1'' ex_exp_body) ex_wf_db))))) =
   Some (((ex_profile (oid_of_nat 0) ''u1'')\<lparr>p_experience := [ex_exp (oid_of_nat 2)]\<rparr>)\<lparr>p_v := 2\<rparr>)"
  using add_then_delete_experience_roundtrip[OF wf_ex_wf_db, of ex_exp_body "''u1''" "(ex_profile (oid_of_nat 0) ''u1'')\<lparr>p_experience := [ex_exp (oid_of_nat 2)]\<rparr>"]
  by (simp add: ex_wf_db_def ex_db_def ex_exp_body_def ex_profile_def validation_result_def run_check_def
                experience_checks_def body_get_def)

end
