(* ===== verification/Concurrency.thy ===== *)
theory Concurrency
  imports Api
begin

text \<open>
  Requests in flight at the same time. Node runs one handler at a time, but an
  \<open>async\<close> handler gives up the processor at every \<open>await\<close>; the handlers that
  read a profile and then write it (\<open>POST /\<close>, \<open>PUT\<close> and \<open>DELETE\<close> on the two
  arrays) are split at their \<open>await Profile.findOne\<close> into a read step and a
  resumption step, which runs the rest of the handler (the write is one atomic
  store operation). \<open>DELETE /\<close> awaits three deletions in turn and is a chain of
  three steps. The read routes await one query and run as one step. A schedule is
  the list of the threads that take the successive steps.
\<close>

datatype tstate =
    Idle request
  | Resume "unit handler"
  | Chain "unit query list" "unit handler" "exn \<Rightarrow> unit handler"
  | Done "(nat \<times> body) option" "exn option"

type_synonym thread = "oid \<times> tstate"

record sys =
  s_db :: db
  s_threads :: "thread list"

text \<open>The object \<open>profileFields\<close> that \<open>POST /\<close> builds before its first \<open>await\<close>,
  or \<open>None\<close> when building it throws.\<close>

definition pending_fields :: "oid \<Rightarrow> req_body \<Rightarrow> profile_fields option" where
  "pending_fields u b =
     (case (build_profile_fields u b :: (profile_fields, unit) js) () of
        Inl _ \<Rightarrow> None
      | Inr (f, _) \<Rightarrow> Some f)"

text \<open>The continuation after \<open>await Profile.findOne({user})\<close> and the \<open>catch\<close>
  block around it, for the requests whose handler reaches that \<open>await\<close>.\<close>

fun await_split ::
  "oid \<Rightarrow> request \<Rightarrow> ((profile option \<Rightarrow> unit handler) \<times> (exn \<Rightarrow> unit handler)) option" where
  "await_split u (PostProfile b) =
     (if validation_result profile_checks b = [] then
        map_option (\<lambda>f. (post_profile_cont u f, post_profile_catch)) (pending_fields u b)
      else None)"
| "await_split u (PutExperience b) =
     (if validation_result experience_checks b = [] then Some (put_experience_cont b, server_error)
      else None)"
| "await_split u (DeleteExperience x) = Some (delete_experience_cont x, server_error)"
| "await_split u (PutEducation b) =
     (if validation_result education_checks b = [] then Some (put_education_cont b, server_error)
      else None)"
| "await_split u (DeleteEducation x) = Some (delete_education_cont x, server_error)"
| "await_split u GetMe = None"
| "await_split u GetProfiles = None"
| "await_split u (GetProfileByUser s) = None"
| "await_split u DeleteProfile = None"

text \<open>The handlers that await a sequence of queries whose results they drop, then
  answer: the queries, the code after the last one and the \<open>catch\<close> block.\<close>

fun await_chain ::
  "oid \<Rightarrow> request \<Rightarrow> (unit query list \<times> unit handler \<times> (exn \<Rightarrow> unit handler)) option" where
  "await_chain u DeleteProfile =
     Some ([post_delete_many u, profile_find_one_and_delete u, user_find_one_and_delete u],
           res_json (BMsg ''User deleted''), \<lambda>err. send 500 (BText ''Server Error''))"
| "await_chain u _ = None"

fun chain_handler :: "unit query list \<Rightarrow> unit handler \<Rightarrow> unit handler" where
  "chain_handler [] k = k"
| "chain_handler (q # qs) k = js_then (run_query q) (chain_handler qs k)"

definition finish :: "unit handler \<Rightarrow> db \<Rightarrow> tstate \<times> db" where
  "finish h d = (case serve h d of (d', out, e) \<Rightarrow> (Done out e, d'))"

text \<open>One step of a chain: the next query runs; a failure goes to the \<open>catch\<close>
  block, the last query is followed by the rest of the handler in the same step.\<close>

fun chain_step :: "unit query list \<Rightarrow> unit handler \<Rightarrow> (exn \<Rightarrow> unit handler) \<Rightarrow> db \<Rightarrow> tstate \<times> db" where
  "chain_step [] k c d = finish (js_catch k c) d"
| "chain_step (q # qs) k c d =
     (case q d of
        Inl e \<Rightarrow> finish (c e) d
      | Inr (_, d') \<Rightarrow> (case qs of [] \<Rightarrow> finish (js_catch k c) d' | _ \<Rightarrow> (Chain qs k c, d')))"

definition start :: "oid \<Rightarrow> request \<Rightarrow> db \<Rightarrow> tstate \<times> db" where
  "start u r d =
     (case await_split u r of
        None \<Rightarrow>
          (case await_chain u r of
             None \<Rightarrow> finish (route (Some u) r) d
           | Some (qs, k, c) \<Rightarrow> chain_step qs k c d)
      | Some (k, c) \<Rightarrow>
          (case profile_find_one u d of
             Inl e \<Rightarrow> finish (c e) d
           | Inr (x, d') \<Rightarrow> (Resume (js_catch (k x) c), d')))"

fun thread_step :: "oid \<Rightarrow> tstate \<Rightarrow> db \<Rightarrow> tstate \<times> db" where
  "thread_step u (Idle r) d = start u r d"
| "thread_step u (Resume h) d = finish h d"
| "thread_step u (Chain qs k c) d = chain_step qs k c d"
| "thread_step u (Done out e) d = (Done out e, d)"

definition sched_step :: "nat \<Rightarrow> sys \<Rightarrow> sys" where
  "sched_step i s =
     (if i < length (s_threads s) then
        (case s_threads s ! i of (u, t) \<Rightarrow>
          (case thread_step u t (s_db s) of (t', d') \<Rightarrow>
             s\<lparr>s_db := d', s_threads := (s_threads s)[i := (u, t')]\<rparr>))
      else s)"

definition run_sched :: "nat list \<Rightarrow> sys \<Rightarrow> sys" where
  "run_sched is s = fold sched_step is s"

text \<open>The reference semantics: the requests served one after the other, each by its
  whole handler.\<close>

fun serve_seq :: "(oid \<times> request) list \<Rightarrow> db \<Rightarrow> db \<times> ((nat \<times> body) option \<times> exn option) list" where
  "serve_seq [] d = (d, [])"
| "serve_seq ((u, r) # rs) d =
     (case serve (route (Some u) r) d of (d', out, e) \<Rightarrow>
        (case serve_seq rs d' of (d'', outs) \<Rightarrow> (d'', (out, e) # outs)))"

text \<open>How many steps a thread has left: a request that has not started needs at most
  three (\<open>DELETE /\<close>) or two (the read and the resumption), a resumed one one, a
  chain one per query left.\<close>

fun stage :: "tstate \<Rightarrow> nat" where
  "stage (Idle DeleteProfile) = 3"
| "stage (Idle r) = 2"
| "stage (Resume h) = 1"
| "stage (Chain qs k c) = length qs"
| "stage (Done out e) = 0"

text \<open>The schedule that runs the requests one after the other, each for all its steps.\<close>

fun serial_schedule :: "nat \<Rightarrow> (oid \<times> request) list \<Rightarrow> nat list" where
  "serial_schedule i [] = []"
| "serial_schedule i ((u, r) # rs) = replicate (stage (Idle r)) i @ serial_schedule (Suc i) rs"

subsection \<open>Splitting a handler at its await\<close>

lemma serve_await:
  "serve (js_catch (js_bind (run_query q) k) c) d =
     (case q d of Inl e \<Rightarrow> serve (c e) d | Inr (x, d') \<Rightarrow> serve (js_catch (k x) c) d')"
  by (simp add: serve_def js_simps split: sum.split prod.split)

lemma build_profile_fields_any_state:
  "(build_profile_fields u b :: (profile_fields, 's) js) s =
     (case (build_profile_fields u b :: (profile_fields, unit) js) () of
        Inl (e, _) \<Rightarrow> Inl (e, s) | Inr (f, _) \<Rightarrow> Inr (f, s))"
  by (cases "body_get b ''skills''") (simp_all add: build_profile_fields_def js_simps Let_def)

lemma pending_fields_Some:
  "pending_fields u b = Some f \<Longrightarrow> build_profile_fields u b = (js_return f :: (profile_fields, 's) js)"
  by (auto simp: pending_fields_def fun_eq_iff js_simps build_profile_fields_any_state[where 's='s]
           split: sum.splits prod.splits)

lemma route_await:
  "await_split u r = Some (k, c) \<Longrightarrow>
   route (Some u) r = js_catch (js_bind (run_query (profile_find_one u)) k) c"
  by (cases r) (auto simp: auth_def post_profile_def put_experience_def delete_experience_def
                  put_education_def delete_education_def pending_fields_Some split: if_splits)

lemma serve_then:
  "serve (js_catch (js_then (run_query q) k) c) d =
     (case q d of Inl e \<Rightarrow> serve (c e) d | Inr (_, d') \<Rightarrow> serve (js_catch k c) d')"
  by (simp add: js_then_def serve_await split: sum.split prod.split)

lemma route_chain:
  "await_chain u r = Some (qs, k, c) \<Longrightarrow> route (Some u) r = js_catch (chain_handler qs k) c"
  by (cases r) (auto simp: auth_def delete_profile_def)

lemma start_chain:
  "await_chain u r = Some (qs, k, c) \<Longrightarrow> start u r d = chain_step qs k c d"
  by (cases r) (simp_all add: start_def)

lemma start_serve:
  "await_chain u r = None \<Longrightarrow>
   start u r d = finish (route (Some u) r) d \<or>
   (\<exists>h d'. start u r d = (Resume h, d') \<and> serve (route (Some u) r) d = serve h d')"
  by (auto simp: start_def finish_def serve_await route_await split: option.splits sum.splits)

lemma thread_step_Idle_serve:
  "await_chain u r = None \<Longrightarrow> thread_step u (Idle r) d = (t, d') \<Longrightarrow>
   thread_step u t d' = (case serve (route (Some u) r) d of (d'', out, e) \<Rightarrow> (Done out e, d''))"
  using start_serve[of u r d] by (auto simp: finish_def split: prod.splits)

lemma run_sched_Cons: "run_sched (i # is) s = run_sched is (sched_step i s)"
  by (simp add: run_sched_def)

text \<open>A thread that takes its two steps back to back, whatever the other threads
  are doing, has the effect of its handler run atomically.\<close>

lemma run_sched_twice:
  assumes "i < length ts" "ts ! i = (u, Idle r)" "await_chain u r = None"
  shows "run_sched [i, i] \<lparr>s_db = d, s_threads = ts\<rparr> =
     (case serve (route (Some u) r) d of (d', out, e) \<Rightarrow>
        \<lparr>s_db = d', s_threads = ts[i := (u, Done out e)]\<rparr>)"
proof -
  obtain t d1 where t: "thread_step u (Idle r) d = (t, d1)" by fastforce
  then have t': "start u r d = (t, d1)" by simp
  show ?thesis
    using assms thread_step_Idle_serve[OF assms(3) t]
    by (simp add: run_sched_def sched_step_def t' split: prod.splits)
qed

lemma sched_step_Done:
  "ts ! i = (u, Done out e) \<Longrightarrow> sched_step i \<lparr>s_db = d, s_threads = ts\<rparr> = \<lparr>s_db = d, s_threads = ts\<rparr>"
  by (auto simp: sched_step_def) (metis list_update_id)

lemma run_sched_Done:
  "ts ! i = (u, Done out e) \<Longrightarrow> run_sched (replicate n i) \<lparr>s_db = d, s_threads = ts\<rparr> = \<lparr>s_db = d, s_threads = ts\<rparr>"
  by (induction n) (simp_all add: run_sched_def sched_step_Done)

text \<open>A chain run back to back has the effect of the awaited queries and the rest
  of the handler in one go.\<close>

lemma run_chain:
  "i < length ts \<Longrightarrow> ts ! i = (u, Chain qs k c) \<Longrightarrow> qs \<noteq> [] \<Longrightarrow>
   run_sched (replicate (length qs) i) \<lparr>s_db = d, s_threads = ts\<rparr> =
     (case serve (js_catch (chain_handler qs k) c) d of (d', out, e) \<Rightarrow>
        \<lparr>s_db = d', s_threads = ts[i := (u, Done out e)]\<rparr>)"
proof (induction qs arbitrary: d ts)
  case Nil then show ?case by simp
next
  case (Cons q qs)
  show ?case
  proof (cases "q d")
    case (Inl e)
    obtain d' out ex where r: "serve (c e) d = (d', out, ex)" by (metis prod_cases3)
    have "sched_step i \<lparr>s_db = d, s_threads = ts\<rparr> = \<lparr>s_db = d', s_threads = ts[i := (u, Done out ex)]\<rparr>"
      using Cons.prems Inl r by (simp add: sched_step_def finish_def)
    then show ?thesis
      using Cons.prems Inl r by (simp add: run_sched_Cons run_sched_Done serve_then)
  next
    case (Inr p)
    obtain d1 where p: "p = ((), d1)" by (cases p) auto
    show ?thesis
    proof (cases "qs = []")
      case True
      then show ?thesis using Cons.prems Inr p
        by (simp add: run_sched_def sched_step_def finish_def serve_then split: prod.split)
    next
      case False
      have step: "sched_step i \<lparr>s_db = d, s_threads = ts\<rparr> = \<lparr>s_db = d1, s_threads = ts[i := (u, Chain qs k c)]\<rparr>"
        using False Cons.prems Inr p by (simp add: sched_step_def split: list.split)
      show ?thesis
        using Cons.IH[of "ts[i := (u, Chain qs k c)]" d1] Cons.prems False Inr p
        by (simp add: run_sched_Cons step serve_then)
    qed
  qed
qed

text \<open>Every request run for all its steps back to back has the effect of its whole
  handler.\<close>

lemma run_sched_whole:
  assumes i: "i < length ts" and t: "ts ! i = (u, Idle r)"
  shows "run_sched (replicate (stage (Idle r)) i) \<lparr>s_db = d, s_threads = ts\<rparr> =
     (case serve (route (Some u) r) d of (d', out, e) \<Rightarrow>
        \<lparr>s_db = d', s_threads = ts[i := (u, Done out e)]\<rparr>)"
proof (cases "await_chain u r")
  case None
  then have "stage (Idle r) = 2" by (cases r) auto
  with run_sched_twice[OF i t None] show ?thesis by (simp add: numeral_2_eq_2)
next
  case (Some x)
  obtain qs k c where x: "x = (qs, k, c)" by (metis prod_cases3)
  have ch: "await_chain u r = Some (qs, k, c)" using Some x by simp
  then have r: "r = DeleteProfile" and qs: "qs \<noteq> []" and n: "stage (Idle r) = length qs"
    by (cases r; auto)+
  have "sched_step i \<lparr>s_db = d, s_threads = ts\<rparr> =
        sched_step i \<lparr>s_db = d, s_threads = ts[i := (u, Chain qs k c)]\<rparr>"
    using i t by (simp add: sched_step_def start_chain[OF ch])
  then have "run_sched (replicate (stage (Idle r)) i) \<lparr>s_db = d, s_threads = ts\<rparr> =
        run_sched (replicate (length qs) i) \<lparr>s_db = d, s_threads = ts[i := (u, Chain qs k c)]\<rparr>"
    using qs n by (cases qs) (simp_all add: run_sched_Cons)
  also have "\<dots> = (case serve (route (Some u) r) d of (d', out, e) \<Rightarrow>
        \<lparr>s_db = d', s_threads = ts[i := (u, Done out e)]\<rparr>)"
    using run_chain[of i "ts[i := (u, Chain qs k c)]" u qs k c d] i qs
    by (simp add: route_chain[OF ch] split: prod.split)
  finally show ?thesis .
qed

lemma run_sched_append: "run_sched (xs @ ys) s = run_sched ys (run_sched xs s)"
  by (simp add: run_sched_def)

subsection \<open>The steps of the array and create-or-update routes\<close>

lemma start_put_experience:
  "validation_result experience_checks b = [] \<Longrightarrow> online d \<Longrightarrow>
   find (\<lambda>q. p_user q = u) (profiles d) = Some p \<Longrightarrow>
   start u (PutExperience b) d = (Resume (js_catch (put_experience_cont b (Some p)) server_error), d)"
  by (simp add: start_def profile_find_one_def guarded_def)

lemma serve_put_experience_resume_stale:
  "online d \<Longrightarrow> find (\<lambda>q. p_id q = p_id p \<and> p_v q = p_v p) (profiles d) = None \<Longrightarrow>
   serve (js_catch (put_experience_cont b (Some p)) server_error) d =
     (d\<lparr>next_oid := Suc (next_oid d)\<rparr>, Some (500, BText ''Server Error''), None)"
  by (simp add: serve_simps)

lemma serve_put_experience_resume_fresh:
  "online d \<Longrightarrow> find (\<lambda>q. p_id q = p_id p \<and> p_v q = p_v p) (profiles d) = Some q \<Longrightarrow>
   serve (js_catch (put_experience_cont b (Some p)) server_error) d =
    (let p' = p\<lparr>p_experience := new_exp (oid_of_nat (next_oid d)) b # p_experience p\<rparr>
     in (d\<lparr>next_oid := Suc (next_oid d),
           profiles := update_first (\<lambda>q. p_id q = p_id p \<and> p_v q = p_v p)
                         (write_path Experience p') (profiles d)\<rparr>,
         Some (200, BProfile (p'\<lparr>p_v := Suc (p_v p)\<rparr>)), None))"
  by (simp add: serve_simps js_unshift_def Let_def)

lemma pending_fields_user: "pending_fields u b = Some f \<Longrightarrow> pf_user f = u"
  by (auto simp: pending_fields_def build_profile_fields_def js_simps Let_def fields_of_def
           split: if_splits sum.splits prod.splits elim: split_skills.elims)

lemma start_post_profile_missing:
  "validation_result profile_checks b = [] \<Longrightarrow> pending_fields u b = Some f \<Longrightarrow> online d \<Longrightarrow>
   find (\<lambda>q. p_user q = u) (profiles d) = None \<Longrightarrow>
   start u (PostProfile b) d = (Resume (js_catch (post_profile_cont u f None) post_profile_catch), d)"
  by (simp add: start_def profile_find_one_def guarded_def)

lemma serve_post_profile_resume_create:
  "online d \<Longrightarrow>
   serve (js_catch (post_profile_cont u f None) post_profile_catch) d =
     (let p = new_profile (oid_of_nat (next_oid d)) f
      in (d\<lparr>next_oid := Suc (next_oid d), profiles := profiles d @ [p]\<rparr>, Some (200, BProfile p), None))"
  by (simp add: serve_simps Let_def)

lemma saved_version_gone:
  "distinct (map p_id xs) \<Longrightarrow>
   find (\<lambda>q. p_id q = p_id p \<and> p_v q = p_v p) (update_first (\<lambda>q. p_id q = p_id p \<and> p_v q = p_v p)
      (write_path path p') xs) = None"
  by (rule find_update_first_gone[where g = p_id]) (cases path; simp)+

lemma filter_user_after_create:
  "find (\<lambda>q. p_user q = u) xs = None \<Longrightarrow> pf_user f1 = u \<Longrightarrow> pf_user f2 = u \<Longrightarrow>
   filter (\<lambda>q. p_user q = u) (xs @ [new_profile i1 f1] @ [new_profile i2 f2]) =
   [new_profile i1 f1, new_profile i2 f2]"
  by (simp add: find_None_iff filter_empty_conv new_profile_def)

lemma run_serial_schedule:
  "run_sched (serial_schedule (length ds) rs)
     \<lparr>s_db = d, s_threads = ds @ map (\<lambda>(u, r). (u, Idle r)) rs\<rparr> =
   (case serve_seq rs d of (d', outs) \<Rightarrow>
      \<lparr>s_db = d', s_threads = ds @ map2 (\<lambda>(u, _) (out, e). (u, Done out e)) rs outs\<rparr>)"
proof (induction rs arbitrary: ds d)
  case Nil then show ?case by (simp add: run_sched_def)
next
  case (Cons ur rs)
  obtain u r where ur: "ur = (u, r)" by fastforce
  obtain d1 o1 e1 where r1: "serve (route (Some u) r) d = (d1, o1, e1)" by (metis prod.exhaust)
  obtain d2 outs where r2: "serve_seq rs d1 = (d2, outs)" by fastforce
  let ?ts = "ds @ map (\<lambda>(u, r). (u, Idle r)) (ur # rs)"
  have "run_sched (replicate (stage (Idle r)) (length ds)) \<lparr>s_db = d, s_threads = ?ts\<rparr> =
        \<lparr>s_db = d1, s_threads = (ds @ [(u, Done o1 e1)]) @ map (\<lambda>(u, r). (u, Idle r)) rs\<rparr>"
    using run_sched_whole[of "length ds" ?ts u r d] by (simp add: ur r1 list_update_append)
  moreover have "run_sched (serial_schedule (length ds) (ur # rs)) \<lparr>s_db = d, s_threads = ?ts\<rparr> =
     run_sched (serial_schedule (Suc (length ds)) rs)
       (run_sched (replicate (stage (Idle r)) (length ds)) \<lparr>s_db = d, s_threads = ?ts\<rparr>)"
    by (simp add: ur run_sched_append)
  ultimately show ?case
    using Cons.IH[of "ds @ [(u, Done o1 e1)]" d1] by (simp add: ur r1 r2)
qed

text \<open>An execution in which every request runs from its first step to its last
  without interruption (thread 0 for all its steps, then thread 1, ...) has the
  effect of serving the requests one after the other by their whole handlers.\<close>

lemma serial_execution_refines_sequential:
  "run_sched (serial_schedule 0 rs) \<lparr>s_db = d, s_threads = map (\<lambda>(u, r). (u, Idle r)) rs\<rparr> =
   (case serve_seq rs d of (d', outs) \<Rightarrow>
      \<lparr>s_db = d', s_threads = map2 (\<lambda>(u, _) (out, e). (u, Done out e)) rs outs\<rparr>)"
  using run_serial_schedule[of "[]" rs d] by simp

lemma stage_chain_step: "stage (fst (chain_step qs k c d)) \<le> length qs - 1"
  by (cases qs) (auto simp: finish_def split: sum.split prod.split list.split)

lemma stage_thread_step: "stage (fst (thread_step u t d)) \<le> stage t - 1"
proof (cases t)
  case (Idle r)
  then show ?thesis
    using stage_chain_step by (cases r) (auto simp: start_def finish_def split: option.split sum.split prod.split)
next
  case (Chain qs k c)
  then show ?thesis using stage_chain_step[of qs k c d] by simp
qed (auto simp: finish_def split: prod.split)

lemma sched_step_length [simp]: "length (s_threads (sched_step i s)) = length (s_threads s)"
  by (simp add: sched_step_def split: prod.split)

lemma sched_step_stage:
  assumes "j < length (s_threads s)"
  shows "stage (snd (s_threads (sched_step i s) ! j)) \<le> stage (snd (s_threads s ! j)) - (if i = j then 1 else 0)"
proof (cases "i = j")
  case True
  obtain u t where ut: "s_threads s ! j = (u, t)" by fastforce
  obtain t' d' where td: "thread_step u t (s_db s) = (t', d')" by fastforce
  from stage_thread_step[of u t "s_db s"] td have "stage t' \<le> stage t - 1" by simp
  with True assms ut td show ?thesis by (simp add: sched_step_def)
next
  case False
  then show ?thesis by (simp add: sched_step_def split: prod.split)
qed

lemma run_sched_length [simp]: "length (s_threads (run_sched sch s)) = length (s_threads s)"
  by (induction sch arbitrary: s) (simp_all add: run_sched_def)

lemma run_sched_stage:
  "j < length (s_threads s) \<Longrightarrow>
   length (s_threads (run_sched sch s)) = length (s_threads s) \<and>
   stage (snd (s_threads (run_sched sch s) ! j)) \<le> stage (snd (s_threads s ! j)) - count_list sch j"
proof (induction sch arbitrary: s)
  case Nil then show ?case by (simp add: run_sched_def)
next
  case (Cons i sch)
  have r: "run_sched (i # sch) s = run_sched sch (sched_step i s)" by (simp add: run_sched_def)
  from Cons.prems have "j < length (s_threads (sched_step i s))" by simp
  note IH = Cons.IH[OF this]
  have "stage (snd (s_threads (sched_step i s) ! j)) \<le> stage (snd (s_threads s ! j)) - (if i = j then 1 else 0)"
    by (rule sched_step_stage[OF Cons.prems])
  with IH show ?case unfolding r by auto
qed

text \<open>No thread is left pending: in any schedule in which each thread takes as many
  steps as it has awaits left, every thread has ended.\<close>

lemma every_request_finishes:
  assumes "\<forall>j<length ts. stage (snd (ts ! j)) \<le> count_list sch j"
  shows "list_all (\<lambda>x. stage (snd x) = 0) (s_threads (run_sched sch \<lparr>s_db = d, s_threads = ts\<rparr>))"
proof -
  have "stage (snd (s_threads (run_sched sch \<lparr>s_db = d, s_threads = ts\<rparr>) ! j)) = 0" if j: "j < length ts" for j
    using run_sched_stage[of j "\<lparr>s_db = d, s_threads = ts\<rparr>" sch] j assms by fastforce
  moreover have "length (s_threads (run_sched sch \<lparr>s_db = d, s_threads = ts\<rparr>)) = length ts"
    by simp
  ultimately show ?thesis by (auto simp: list_all_length)
qed

lemma every_request_finishes_example:
  "list_all (\<lambda>x. stage (snd x) = 0) (s_threads (run_sched [1, 0, 1, 0, 1]
     \<lparr>s_db = ex_wf_db, s_threads = [(''u1'', Idle (PutExperience ex_exp_body)), (''u2'', Idle DeleteProfile)]\<rparr>))"
  by (rule every_request_finishes) (simp add: less_Suc_eq)

end
