(* ===== verification/Interleavings.thy ===== *)
theory Interleavings
  imports Concurrency
begin

text \<open>
  Concrete interleavings of requests, run on the model of \<open>Concurrency\<close>: two
  experience additions of one user (a version conflict, and the same two
  serialised) and of two users (serialisable), two first profile writes (a duplicate profile), a profile update
  or the account deletion between the read and the save of an experience
  addition, and the account deletion between the read and the write of a first
  profile creation (an orphan profile).
\<close>

text \<open>C20. Two requests that add an experience entry for the same user and interleave at
  their \<open>await\<close> (both read the profile, then both save) do not lose an entry
  silently: the first save stores the first entry, the second save finds the
  profile at a newer version, fails with a \<open>VersionError\<close>, and the second request is
  answered 500 Server Error.\<close>

theorem concurrent_put_experience_version_conflict:
  assumes wf: "wf_db d" and on: "online d"
    and v1: "validation_result experience_checks b1 = []"
    and v2: "validation_result experience_checks b2 = []"
    and found: "find (\<lambda>q. p_user q = u) (profiles d) = Some p"
  shows "run_sched [0, 1, 0, 1]
           \<lparr>s_db = d, s_threads = [(u, Idle (PutExperience b1)), (u, Idle (PutExperience b2))]\<rparr> =
         (let p' = p\<lparr>p_experience := new_exp (oid_of_nat (next_oid d)) b1 # p_experience p\<rparr>
          in \<lparr>s_db = d\<lparr>next_oid := Suc (Suc (next_oid d)),
                        profiles := update_first (\<lambda>q. p_id q = p_id p \<and> p_v q = p_v p)
                                      (write_path Experience p') (profiles d)\<rparr>,
              s_threads = [(u, Done (Some (200, BProfile (p'\<lparr>p_v := Suc (p_v p)\<rparr>))) None),
                           (u, Done (Some (500, BText ''Server Error'')) None)]\<rparr>)"
proof -
  let ?Q = "\<lambda>q. p_id q = p_id p \<and> p_v q = p_v p"
  let ?p' = "p\<lparr>p_experience := new_exp (oid_of_nat (next_oid d)) b1 # p_experience p\<rparr>"
  obtain q where q: "find ?Q (profiles d) = Some q"
    using find_loaded_version[OF found] by blast
  have ids: "distinct (map p_id (profiles d))" using wf by (simp add: wf_db_def)
  show ?thesis
    using saved_version_gone[OF ids, of p Experience ?p']
    by (simp add: run_sched_def sched_step_def start_put_experience[OF v1 on found]
                  start_put_experience[OF v2 on found] finish_def on
                  serve_put_experience_resume_fresh[OF on q] serve_put_experience_resume_stale Let_def)
qed

theorem concurrent_put_experience_version_conflict_witness:
  "run_sched [0, 1, 0, 1]
     \<lparr>s_db = ex_wf_db, s_threads = [(''u1'', Idle (PutExperience ex_exp_body)),
                                    (''u1'', Idle (PutExperience ex_exp_body))]\<rparr> =
   (let p' = (ex_profile (oid_of_nat 0) ''u1'')\<lparr>p_experience := [ex_exp (oid_of_nat 2)]\<rparr>\<lparr>p_experience := new_exp (oid_of_nat 4) ex_exp_body # p_experience ((ex_profile (oid_of_nat 0) ''u1'')\<lparr>p_experience := [ex_exp (oid_of_nat 2)]\<rparr>)\<rparr>
    in \<lparr>s_db = ex_wf_db\<lparr>next_oid := 6,
                  profiles := update_first (\<lambda>q. p_id q = p_id ((ex_profile (oid_of_nat 0) ''u1'')\<lparr>p_experience := [ex_exp (oid_of_nat 2)]\<rparr>) \<and> p_v q = p_v ((ex_profile (oid_of_nat 0) ''u1'')\<lparr>p_experience := [ex_exp (oid_of_nat 2)]\<rparr>))
                                (write_path Experience p') (profiles ex_wf_db)\<rparr>,
        s_threads = [(''u1'', Done (Some (200, BProfile (p'\<lparr>p_v := Suc (p_v ((ex_profile (oid_of_nat 0) ''u1'')\<lparr>p_experience := [ex_exp (oid_of_nat 2)]\<rparr>))\<rparr>))) None),
                     (''u1'', Done (Some (500, BText ''Server Error'')) None)]\<rparr>)"
  using concurrent_put_experience_version_conflict[OF wf_ex_wf_db, of ex_exp_body ex_exp_body "''u1''" "(ex_profile (oid_of_nat 0) ''u1'')\<lparr>p_experience := [ex_exp (oid_of_nat 2)]\<rparr>"]
  by (simp add: ex_wf_db_def ex_db_def ex_exp_body_def ex_profile_def validation_result_def run_check_def
                experience_checks_def body_get_def)

lemma set_profile_fields_keys [simp]:
  "p_id (set_profile_fields f p) = p_id p" "p_v (set_profile_fields f p) = p_v p"
  "p_experience (set_profile_fields f p) = p_experience p"
  by (simp_all add: set_profile_fields_def)

lemma start_post_profile_found:
  "validation_result profile_checks b = [] \<Longrightarrow> pending_fields u b = Some f \<Longrightarrow> online d \<Longrightarrow>
   find (\<lambda>q. p_user q = u) (profiles d) = Some p \<Longrightarrow>
   start u (PostProfile b) d = (Resume (js_catch (post_profile_cont u f (Some p)) post_profile_catch), d)"
  by (simp add: start_def profile_find_one_def guarded_def)

lemma serve_post_profile_resume_update:
  "online d \<Longrightarrow> find (\<lambda>q. p_user q = u) (profiles d) = Some q \<Longrightarrow>
   serve (js_catch (post_profile_cont u f (Some p)) post_profile_catch) d =
     (d\<lparr>profiles := update_first (\<lambda>q. p_user q = u) (set_profile_fields f) (profiles d)\<rparr>,
      Some (200, BProfile (set_profile_fields f q)), None)"
  by (simp add: serve_simps json_profile_def)

text \<open>The same two requests run one after the other (each from its read to its
  save without interruption) keep both entries, the later one first.\<close>

lemma serial_put_experience_both_kept:
  assumes wf: "wf_db d" and on: "online d"
    and v1: "validation_result experience_checks b1 = []"
    and v2: "validation_result experience_checks b2 = []"
    and found: "find (\<lambda>q. p_user q = u) (profiles d) = Some p"
  shows "find (\<lambda>q. p_user q = u) (profiles (s_db (run_sched [0, 0, 1, 1]
           \<lparr>s_db = d, s_threads = [(u, Idle (PutExperience b1)), (u, Idle (PutExperience b2))]\<rparr>))) =
         Some (p\<lparr>p_experience := new_exp (oid_of_nat (Suc (next_oid d))) b2 #
                                 new_exp (oid_of_nat (next_oid d)) b1 # p_experience p,
                 p_v := Suc (Suc (p_v p))\<rparr>)"
proof -
  obtain d1 o1 e1 where r1: "serve (put_experience u b1) d = (d1, o1, e1)" by (metis prod.exhaust)
  obtain d2 o2 e2 where r2: "serve (put_experience u b2) d1 = (d2, o2, e2)" by (metis prod.exhaust)
  have run: "s_db (run_sched [0, 0, 1, 1]
           \<lparr>s_db = d, s_threads = [(u, Idle (PutExperience b1)), (u, Idle (PutExperience b2))]\<rparr>) = d2"
    using run_sched_append[of "[0, 0]" "[1, 1]"]
    by (simp add: run_sched_twice auth_def r1 r2)
  from serve_put_experience_stored[OF wf on v1 found] r1
  have "wf_db d1" "online d1" "next_oid d1 = Suc (next_oid d)"
    "find (\<lambda>q. p_user q = u) (profiles d1) =
       Some (p\<lparr>p_experience := new_exp (oid_of_nat (next_oid d)) b1 # p_experience p, p_v := Suc (p_v p)\<rparr>)"
    by simp_all
  from serve_put_experience_stored[OF this(1,2) v2 this(4)] r2 this(3) run show ?thesis by simp
qed

lemma serial_put_experience_both_kept_example:
  "find (\<lambda>q. p_user q = ''u1'') (profiles (s_db (run_sched [0, 0, 1, 1]
     \<lparr>s_db = ex_wf_db, s_threads = [(''u1'', Idle (PutExperience ex_exp_body)),
                                    (''u1'', Idle (PutExperience ex_exp_body))]\<rparr>))) =
   Some (((ex_profile (oid_of_nat 0) ''u1'')\<lparr>p_experience := [ex_exp (oid_of_nat 2)]\<rparr>)\<lparr>p_experience := new_exp (oid_of_nat 5) ex_exp_body #
                                 new_exp (oid_of_nat 4) ex_exp_body # [ex_exp (oid_of_nat 2)],
              p_v := 2\<rparr>)"
  using serial_put_experience_both_kept[OF wf_ex_wf_db, of ex_exp_body ex_exp_body "''u1''" "(ex_profile (oid_of_nat 0) ''u1'')\<lparr>p_experience := [ex_exp (oid_of_nat 2)]\<rparr>"]
  by (simp add: ex_wf_db_def ex_db_def ex_exp_body_def ex_profile_def validation_result_def run_check_def
                experience_checks_def body_get_def)

text \<open>C22. Two create-or-update requests of a user without a profile that interleave at
  their \<open>await\<close> both find no profile and both create one: the user ends with two
  profiles, and the database is no longer well-formed.\<close>

theorem concurrent_post_profile_duplicates:
  assumes on: "online d"
    and v1: "validation_result profile_checks b1 = []" and f1: "pending_fields u b1 = Some f1"
    and v2: "validation_result profile_checks b2 = []" and f2: "pending_fields u b2 = Some f2"
    and none: "find (\<lambda>q. p_user q = u) (profiles d) = None"
  shows "filter (\<lambda>q. p_user q = u) (profiles (s_db (run_sched [0, 1, 0, 1]
           \<lparr>s_db = d, s_threads = [(u, Idle (PostProfile b1)), (u, Idle (PostProfile b2))]\<rparr>))) =
         [new_profile (oid_of_nat (next_oid d)) f1, new_profile (oid_of_nat (Suc (next_oid d))) f2] \<and>
         \<not> wf_db (s_db (run_sched [0, 1, 0, 1]
           \<lparr>s_db = d, s_threads = [(u, Idle (PostProfile b1)), (u, Idle (PostProfile b2))]\<rparr>))"
proof -
  let ?d2 = "d\<lparr>next_oid := Suc (Suc (next_oid d)),
               profiles := profiles d @ [new_profile (oid_of_nat (next_oid d)) f1] @
                           [new_profile (oid_of_nat (Suc (next_oid d))) f2]\<rparr>"
  have run: "s_db (run_sched [0, 1, 0, 1]
           \<lparr>s_db = d, s_threads = [(u, Idle (PostProfile b1)), (u, Idle (PostProfile b2))]\<rparr>) = ?d2"
    by (simp add: run_sched_def sched_step_def start_post_profile_missing[OF v1 f1 on none]
                  start_post_profile_missing[OF v2 f2 on none] finish_def on
                  serve_post_profile_resume_create Let_def)
  have filt: "filter (\<lambda>q. p_user q = u) (profiles ?d2) =
         [new_profile (oid_of_nat (next_oid d)) f1, new_profile (oid_of_nat (Suc (next_oid d))) f2]"
    using filter_user_after_create[OF none pending_fields_user[OF f1] pending_fields_user[OF f2]] by simp
  have "\<not> distinct (map p_user (profiles ?d2))"
  proof
    assume "distinct (map p_user (profiles ?d2))"
    have "length (filter (\<lambda>q. p_user q = u) (profiles ?d2)) = 2"
      by (simp only: filt) simp
    moreover from \<open>distinct (map p_user (profiles ?d2))\<close>
    have "length (filter (\<lambda>q. p_user q = u) (profiles ?d2)) =
               (if u \<in> p_user ` set (profiles ?d2) then 1 else 0)"
      by (rule length_filter_distinct_map)
    ultimately have "(2::nat) = (if u \<in> p_user ` set (profiles ?d2) then 1 else 0)"
      by (rule trans[OF sym])
    then show False by (simp split: if_splits)
  qed
  then have "\<not> wf_db ?d2" unfolding wf_db_def by blast
  with filt show ?thesis unfolding run by blast
qed

theorem concurrent_post_profile_duplicates_witness:
  "filter (\<lambda>q. p_user q = ''u3'') (profiles (s_db (run_sched [0, 1, 0, 1]
     \<lparr>s_db = ex_wf_db, s_threads = [(''u3'', Idle (PostProfile ex_body)), (''u3'', Idle (PostProfile ex_body))]\<rparr>))) =
     [new_profile (oid_of_nat 4) (fields_of ''u3'' ex_body (Some (normalize_skills '' js ,isabelle''))), new_profile (oid_of_nat 5) (fields_of ''u3'' ex_body (Some (normalize_skills '' js ,isabelle'')))] \<and>
   \<not> wf_db (s_db (run_sched [0, 1, 0, 1]
     \<lparr>s_db = ex_wf_db, s_threads = [(''u3'', Idle (PostProfile ex_body)), (''u3'', Idle (PostProfile ex_body))]\<rparr>))"
  using concurrent_post_profile_duplicates[of ex_wf_db ex_body "''u3''" "fields_of ''u3'' ex_body (Some (normalize_skills '' js ,isabelle''))" ex_body "fields_of ''u3'' ex_body (Some (normalize_skills '' js ,isabelle''))"]
  by (simp add: ex_wf_db_def ex_db_def ex_body_def ex_profile_def validation_result_def run_check_def
                profile_checks_def body_get_def pending_fields_def build_profile_fields_def js_simps)

text \<open>C34. A profile update (POST /) that runs between the read and the save of an
  experience addition is kept: the update does not change \<open>__v\<close>, the save
  matches, and it writes only the experience array, so the stored profile has
  both the updated fields and the new entry.\<close>

theorem concurrent_update_and_experience_both_kept:
  assumes wf: "wf_db d" and on: "online d"
    and v1: "validation_result experience_checks b1 = []"
    and v2: "validation_result profile_checks b2 = []" and f: "pending_fields u b2 = Some f"
    and found: "find (\<lambda>q. p_user q = u) (profiles d) = Some p"
  shows "find (\<lambda>q. p_user q = u) (profiles (s_db (run_sched [0, 1, 1, 0]
           \<lparr>s_db = d, s_threads = [(u, Idle (PutExperience b1)), (u, Idle (PostProfile b2))]\<rparr>))) =
         Some ((set_profile_fields f p)\<lparr>p_experience := new_exp (oid_of_nat (next_oid d)) b1 # p_experience p,
                                          p_v := Suc (p_v p)\<rparr>)"
proof -
  have u: "pf_user f = u" by (rule pending_fields_user[OF f])
  have pu: "p_user p = u" using found by (auto dest: find_SomeD)
  let ?xs1 = "update_first (\<lambda>q. p_user q = u) (set_profile_fields f) (profiles d)"
  let ?d1 = "d\<lparr>profiles := ?xs1\<rparr>"
  let ?Q = "\<lambda>q. p_id q = p_id p \<and> p_v q = p_v p"
  let ?pA = "p\<lparr>p_experience := new_exp (oid_of_nat (next_oid d)) b1 # p_experience p\<rparr>"
  have wf1: "wf_db ?d1" using wf_db_profile_update[OF wf u] .
  have users: "distinct (map p_user (profiles d))" and ids1: "distinct (map p_id ?xs1)"
    using wf wf1 by (simp_all add: wf_db_def)
  have find1: "find (\<lambda>q. p_user q = u) ?xs1 = Some (set_profile_fields f p)"
    using find_update_first[of "\<lambda>q. p_user q = u" "set_profile_fields f" "profiles d"] found u
    by (simp add: set_profile_fields_def)
  have ids: "distinct (map p_id (profiles d))" using wf by (simp add: wf_db_def)
  have fq: "find ?Q (profiles d) = Some p"
    using find_distinct_unique[OF ids, of p ?Q] find_SomeD[OF found] by simp
  have q1: "find ?Q ?xs1 = Some (set_profile_fields f p)"
    by (rule find_update_first_other[where Q = "\<lambda>q. p_user q = u" and f = "set_profile_fields f" and g = p_user,
                                    OF fq pu _ users]) (simp_all add: set_profile_fields_def pu)
  have stored: "find (\<lambda>q. p_user q = u) (update_first ?Q (write_path Experience ?pA) ?xs1) =
                Some (write_path Experience ?pA (set_profile_fields f p))"
    using stored_after_array_save[of ?d1 u "set_profile_fields f p" ?pA Experience] ids1 find1 u
    by (simp add: set_profile_fields_def pu)
  have run: "s_db (run_sched [0, 1, 1, 0]
           \<lparr>s_db = d, s_threads = [(u, Idle (PutExperience b1)), (u, Idle (PostProfile b2))]\<rparr>) =
         ?d1\<lparr>next_oid := Suc (next_oid d), profiles := update_first ?Q (write_path Experience ?pA) ?xs1\<rparr>"
    using q1 on
    by (simp add: run_sched_def sched_step_def start_put_experience[OF v1 on found]
                  start_post_profile_found[OF v2 f on found] finish_def
                  serve_post_profile_resume_update[OF on found] serve_put_experience_resume_fresh Let_def)
  show ?thesis using stored unfolding run by simp
qed

theorem concurrent_update_and_experience_both_kept_witness:
  "find (\<lambda>q. p_user q = ''u1'') (profiles (s_db (run_sched [0, 1, 1, 0]
     \<lparr>s_db = ex_wf_db, s_threads = [(''u1'', Idle (PutExperience ex_exp_body)), (''u1'', Idle (PostProfile ex_body))]\<rparr>))) =
   Some ((set_profile_fields (fields_of ''u1'' ex_body (Some (normalize_skills '' js ,isabelle''))) ((ex_profile (oid_of_nat 0) ''u1'')\<lparr>p_experience := [ex_exp (oid_of_nat 2)]\<rparr>))
           \<lparr>p_experience := new_exp (oid_of_nat 4) ex_exp_body # [ex_exp (oid_of_nat 2)], p_v := 1\<rparr>)"
  using concurrent_update_and_experience_both_kept[OF wf_ex_wf_db, of ex_exp_body ex_body "''u1''"
          "fields_of ''u1'' ex_body (Some (normalize_skills '' js ,isabelle''))" "(ex_profile (oid_of_nat 0) ''u1'')\<lparr>p_experience := [ex_exp (oid_of_nat 2)]\<rparr>"]
  by (simp add: ex_wf_db_def ex_db_def ex_exp_body_def ex_body_def ex_profile_def validation_result_def
                run_check_def experience_checks_def profile_checks_def body_get_def pending_fields_def
                build_profile_fields_def js_simps)

text \<open>The account deletion run for its three steps between two steps of another
  request.\<close>

lemma run_sched_delete_between:
  assumes "thread_step u0 t0 d = (t0', d1)"
  shows "run_sched [0, 1, 1, 1, 0] \<lparr>s_db = d, s_threads = [(u0, t0), (u, Idle DeleteProfile)]\<rparr> =
    (case serve (delete_profile u) d1 of (d2, out, e) \<Rightarrow>
       sched_step 0 \<lparr>s_db = d2, s_threads = [(u0, t0'), (u, Done out e)]\<rparr>)"
proof -
  have s0: "sched_step 0 \<lparr>s_db = d, s_threads = [(u0, t0), (u, Idle DeleteProfile)]\<rparr> =
            \<lparr>s_db = d1, s_threads = [(u0, t0'), (u, Idle DeleteProfile)]\<rparr>"
    using assms by (simp add: sched_step_def)
  have "run_sched [1, 1, 1] \<lparr>s_db = d1, s_threads = [(u0, t0'), (u, Idle DeleteProfile)]\<rparr> =
    (case serve (delete_profile u) d1 of (d2, out, e) \<Rightarrow>
       \<lparr>s_db = d2, s_threads = [(u0, t0'), (u, Done out e)]\<rparr>)"
    using run_sched_whole[of 1 "[(u0, t0'), (u, Idle DeleteProfile)]" u DeleteProfile d1]
    by (simp add: numeral_3_eq_3 auth_def split: prod.split)
  then show ?thesis
    by (simp add: run_sched_Cons s0 split: prod.split) (simp add: run_sched_def)
qed

lemma find_saved_after_delete:
  assumes "distinct (map p_id xs)" "distinct (map p_user xs)" "p \<in> set xs" "p_user p = u"
  shows "find (\<lambda>q. p_id q = p_id p \<and> p_v q = p_v p) (delete_first (\<lambda>q. p_user q = u) xs) = None"
proof -
  have "\<not> (p_id q = p_id p \<and> p_v q = p_v p)" if "q \<in> set xs" "p_user q \<noteq> u" for q
  proof
    assume "p_id q = p_id p \<and> p_v q = p_v p"
    with assms(1,3) that(1) have "q = p" by (auto dest: inj_onD[OF distinct_map[THEN iffD1, THEN conjunct2]])
    with that(2) assms(4) show False by simp
  qed
  then show ?thesis using assms(2) by (auto simp: delete_first_filter_distinct find_None_iff)
qed

text \<open>C35. Deleting the account between the read and the save of an experience addition
  does not bring the profile back: the save matches no document and the addition is
  answered 500, while the deletion is answered \<open>User deleted\<close>.\<close>

theorem concurrent_delete_account_no_resurrection:
  assumes wf: "wf_db d" and on: "online d"
    and v1: "validation_result experience_checks b1 = []"
    and found: "find (\<lambda>q. p_user q = u) (profiles d) = Some p"
  shows "find (\<lambda>q. p_user q = u) (profiles (s_db (run_sched [0, 1, 1, 1, 0]
           \<lparr>s_db = d, s_threads = [(u, Idle (PutExperience b1)), (u, Idle DeleteProfile)]\<rparr>))) = None \<and>
         s_threads (run_sched [0, 1, 1, 1, 0]
           \<lparr>s_db = d, s_threads = [(u, Idle (PutExperience b1)), (u, Idle DeleteProfile)]\<rparr>) =
           [(u, Done (Some (500, BText ''Server Error'')) None), (u, Done (Some (200, BMsg ''User deleted'')) None)]"
proof -
  have ids: "distinct (map p_id (profiles d))" and users: "distinct (map p_user (profiles d))"
    using wf by (simp_all add: wf_db_def)
  have pu: "p_user p = u" and pin: "p \<in> set (profiles d)" using found by (auto dest: find_SomeD)
  have gone: "find (\<lambda>q. p_id q = p_id p \<and> p_v q = p_v p) (delete_first (\<lambda>q. p_user q = u) (profiles d)) = None"
    by (rule find_saved_after_delete[OF ids users pin pu])
  have none: "find (\<lambda>q. p_user q = u) (delete_first (\<lambda>q. p_user q = u) (profiles d)) = None"
    using users by (simp add: delete_first_filter_distinct find_None_iff)
  have step: "thread_step u (Idle (PutExperience b1)) d =
      (Resume (js_catch (put_experience_cont b1 (Some p)) server_error), d)"
    using start_put_experience[OF v1 on found] by simp
  show ?thesis
    unfolding run_sched_delete_between[OF step]
    using gone none on
    by (simp add: sched_step_def finish_def serve_delete_profile_online
                  serve_put_experience_resume_stale)
qed

theorem concurrent_delete_account_no_resurrection_witness:
  "find (\<lambda>q. p_user q = ''u1'') (profiles (s_db (run_sched [0, 1, 1, 1, 0]
     \<lparr>s_db = ex_wf_db, s_threads = [(''u1'', Idle (PutExperience ex_exp_body)), (''u1'', Idle DeleteProfile)]\<rparr>))) = None \<and>
   s_threads (run_sched [0, 1, 1, 1, 0]
     \<lparr>s_db = ex_wf_db, s_threads = [(''u1'', Idle (PutExperience ex_exp_body)), (''u1'', Idle DeleteProfile)]\<rparr>) =
     [(''u1'', Done (Some (500, BText ''Server Error'')) None), (''u1'', Done (Some (200, BMsg ''User deleted'')) None)]"
  using concurrent_delete_account_no_resurrection[OF wf_ex_wf_db, of ex_exp_body "''u1''" "(ex_profile (oid_of_nat 0) ''u1'')\<lparr>p_experience := [ex_exp (oid_of_nat 2)]\<rparr>"]
  by (simp add: ex_wf_db_def ex_db_def ex_exp_body_def ex_profile_def validation_result_def run_check_def
                experience_checks_def body_get_def)

text \<open>C33. Deleting the account while a first create-or-update request of the same user
  is between its read and its write leaves an orphan: the deletion finds no profile
  to delete and removes the user, then the create inserts a profile that references
  the deleted user.\<close>

theorem concurrent_delete_and_create_orphan:
  assumes on: "online d" and v: "validation_result profile_checks b = []" and f: "pending_fields u b = Some f"
    and none: "find (\<lambda>q. p_user q = u) (profiles d) = None" and us: "distinct (map u_id (users d))"
  shows "find (\<lambda>q. p_user q = u) (profiles (s_db (run_sched [0, 1, 1, 1, 0]
           \<lparr>s_db = d, s_threads = [(u, Idle (PostProfile b)), (u, Idle DeleteProfile)]\<rparr>))) =
           Some (new_profile (oid_of_nat (next_oid d)) f) \<and>
         find (\<lambda>x. u_id x = u) (users (s_db (run_sched [0, 1, 1, 1, 0]
           \<lparr>s_db = d, s_threads = [(u, Idle (PostProfile b)), (u, Idle DeleteProfile)]\<rparr>))) = None"
proof -
  have keep: "delete_first (\<lambda>q. p_user q = u) (profiles d) = profiles d"
    using none by (simp add: delete_first_no_match find_None_iff)
  have gone: "find (\<lambda>x. u_id x = u) (delete_first (\<lambda>x. u_id x = u) (users d)) = None"
    using us by (simp add: delete_first_filter_distinct find_None_iff)
  have pu: "p_user (new_profile (oid_of_nat (next_oid d)) f) = u"
    using pending_fields_user[OF f] by (simp add: new_profile_def)
  have step: "thread_step u (Idle (PostProfile b)) d =
      (Resume (js_catch (post_profile_cont u f None) post_profile_catch), d)"
    using start_post_profile_missing[OF v f on none] by simp
  show ?thesis
    unfolding run_sched_delete_between[OF step]
    using gone on none pu
    by (simp add: sched_step_def finish_def serve_delete_profile_online
                  serve_post_profile_resume_create keep Let_def find_append_None)
qed

theorem concurrent_delete_and_create_orphan_witness:
  "find (\<lambda>q. p_user q = ''u2'') (profiles (s_db (run_sched [0, 1, 1, 1, 0]
     \<lparr>s_db = ex_wf_db\<lparr>profiles := take 1 (profiles ex_wf_db)\<rparr>,
        s_threads = [(''u2'', Idle (PostProfile ex_body)), (''u2'', Idle DeleteProfile)]\<rparr>))) =
     Some (new_profile (oid_of_nat 4) (fields_of ''u2'' ex_body (Some (normalize_skills '' js ,isabelle'')))) \<and>
   find (\<lambda>x. u_id x = ''u2'') (users (s_db (run_sched [0, 1, 1, 1, 0]
     \<lparr>s_db = ex_wf_db\<lparr>profiles := take 1 (profiles ex_wf_db)\<rparr>,
        s_threads = [(''u2'', Idle (PostProfile ex_body)), (''u2'', Idle DeleteProfile)]\<rparr>))) = None"
  using concurrent_delete_and_create_orphan[of "ex_wf_db\<lparr>profiles := take 1 (profiles ex_wf_db)\<rparr>" ex_body "''u2''"
          "fields_of ''u2'' ex_body (Some (normalize_skills '' js ,isabelle''))"]
  by (simp add: ex_wf_db_def ex_db_def ex_body_def ex_profile_def validation_result_def run_check_def
                profile_checks_def body_get_def pending_fields_def build_profile_fields_def js_simps)

text \<open>The profile of another user is neither found by nor changed by the save of a
  profile loaded for the user \<open>u\<close>: it keeps its owner and its identifier.\<close>

lemma find_after_other_save:
  assumes ids: "distinct (map p_id (profiles d))"
    and p: "find (\<lambda>q. p_user q = u) (profiles d) = Some p"
    and Q: "\<not> Q p" "\<not> Q (write_path path doc p)"
  shows "find Q (update_first (\<lambda>q. p_id q = p_id p \<and> p_v q = p_v p) (write_path path doc) (profiles d)) =
         find Q (profiles d)"
proof (rule find_update_first_disjoint)
  fix x assume x: "x \<in> set (profiles d)" "p_id x = p_id p \<and> p_v x = p_v p"
  have "p \<in> set (profiles d)" using p by (auto dest: find_SomeD)
  with ids x have "x = p" by (metis distinct_map inj_onD)
  with Q show "\<not> Q x \<and> \<not> Q (write_path path doc x)" by blast
qed

lemma write_path_keys [simp]:
  "p_user (write_path path doc x) = p_user x" "p_id (write_path path doc x) = p_id x"
  by (cases path; simp)+

text \<open>C23. Experience additions of two different users are serialisable: interleaved
  at their \<open>await\<close> (both read, then both save), they give the same database and
  the same answers as when the first runs to its end before the second starts.\<close>

theorem other_users_put_experience_serialisable:
  assumes ids: "distinct (map p_id (profiles d))" and on: "online d" and u: "u1 \<noteq> u2"
    and v1: "validation_result experience_checks b1 = []"
    and v2: "validation_result experience_checks b2 = []"
    and f1: "find (\<lambda>q. p_user q = u1) (profiles d) = Some p1"
    and f2: "find (\<lambda>q. p_user q = u2) (profiles d) = Some p2"
  shows "run_sched [0, 1, 0, 1]
           \<lparr>s_db = d, s_threads = [(u1, Idle (PutExperience b1)), (u2, Idle (PutExperience b2))]\<rparr> =
         run_sched [0, 0, 1, 1]
           \<lparr>s_db = d, s_threads = [(u1, Idle (PutExperience b1)), (u2, Idle (PutExperience b2))]\<rparr>"
proof -
  let ?P1 = "\<lambda>q. p_id q = p_id p1 \<and> p_v q = p_v p1"
  let ?P2 = "\<lambda>q. p_id q = p_id p2 \<and> p_v q = p_v p2"
  let ?p1' = "p1\<lparr>p_experience := new_exp (oid_of_nat (next_oid d)) b1 # p_experience p1\<rparr>"
  let ?d1 = "d\<lparr>next_oid := Suc (next_oid d),
               profiles := update_first ?P1 (write_path Experience ?p1') (profiles d)\<rparr>"
  have p1: "p1 \<in> set (profiles d)" "p_user p1 = u1" and p2: "p2 \<in> set (profiles d)" "p_user p2 = u2"
    using f1 f2 by (auto dest: find_SomeD)
  have "p_id p1 \<noteq> p_id p2"
    using ids p1 p2 u by (metis distinct_map inj_onD)
  have on1: "online ?d1" using on by simp
  obtain q1 where q1: "find ?P1 (profiles d) = Some q1" using find_loaded_version[OF f1] by blast
  have f2': "find (\<lambda>q. p_user q = u2) (profiles ?d1) = Some p2"
    using find_after_other_save[OF ids f1, of "\<lambda>q. p_user q = u2"] f2 u p1(2) by simp
  have "find ?P2 (profiles ?d1) = find ?P2 (profiles d)"
    using find_after_other_save[OF ids f1, of ?P2] \<open>p_id p1 \<noteq> p_id p2\<close> by simp
  then obtain q2 where q2: "find ?P2 (profiles ?d1) = Some q2"
    using find_loaded_version[OF f2] by auto
  show ?thesis
    by (simp add: run_sched_def sched_step_def start_put_experience[OF v1 on f1]
                  start_put_experience[OF v2 on f2] start_put_experience[OF v2 on1 f2'] finish_def
                  serve_put_experience_resume_fresh[OF on q1] serve_put_experience_resume_fresh[OF on1 q2]
                  Let_def)
qed

theorem other_users_put_experience_serialisable_witness:
  "run_sched [0, 1, 0, 1]
     \<lparr>s_db = ex_db, s_threads = [(''u1'', Idle (PutExperience ex_exp_body)), (''u2'', Idle (PutExperience ex_exp_body))]\<rparr> =
   run_sched [0, 0, 1, 1]
     \<lparr>s_db = ex_db, s_threads = [(''u1'', Idle (PutExperience ex_exp_body)), (''u2'', Idle (PutExperience ex_exp_body))]\<rparr>"
  by (rule other_users_put_experience_serialisable[of ex_db "''u1''" "''u2''" ex_exp_body ex_exp_body
      "ex_profile ''p1'' ''u1''" "ex_profile ''p2'' ''u2''"])
     (simp_all add: ex_db_def ex_exp_body_def ex_profile_def validation_result_def run_check_def
                    experience_checks_def body_get_def)

end
