(* ===== verification/ConcurrentIds.thy ===== *)
theory ConcurrentIds
  imports Concurrency
begin

text \<open>
  The identifier invariant \<open>ids_wf\<close> under any interleaving of requests: what one
  thread step can do to the database (\<open>step_effect\<close>), the invariant of the
  suspended threads (\<open>thread_ok\<close>: a document read before was well formed when it
  was read), and their preservation by every scheduler step.
\<close>

text \<open>What one step of a thread can do to the identifiers of the database, whatever
  the other threads did since its read: keep it, draw an identifier, update the
  top-level fields of matched profiles, create a profile with a fresh identifier,
  write into matched profiles an array whose entries are well formed (the saved
  document, read before, with a fresh entry or one entry removed), delete.\<close>

inductive step_effect :: "db \<Rightarrow> db \<Rightarrow> bool" where
  keep: "step_effect d d"
| draw: "step_effect d (d\<lparr>next_oid := Suc (next_oid d)\<rparr>)"
| update: "step_effect d (d\<lparr>profiles := update_first P (set_profile_fields f) (profiles d)\<rparr>)"
| create: "step_effect d (d\<lparr>next_oid := Suc (next_oid d),
                            profiles := profiles d @ [new_profile (oid_of_nat (next_oid d)) f]\<rparr>)"
| save_new: "wf_profile (Suc (next_oid d)) p' \<Longrightarrow>
    step_effect d (d\<lparr>next_oid := Suc (next_oid d), profiles := update_first Q (write_path path p') (profiles d)\<rparr>)"
| save: "wf_profile (next_oid d) p' \<Longrightarrow>
    step_effect d (d\<lparr>profiles := update_first Q (write_path path p') (profiles d)\<rparr>)"
| delete: "step_effect d (d\<lparr>posts := ps, profiles := delete_first P (profiles d), users := us\<rparr>)"

text \<open>The queries of the account deletion's chain.\<close>

inductive del_query :: "unit query \<Rightarrow> bool" where
  "del_query (post_delete_many u)"
| "del_query (profile_find_one_and_delete u)"
| "del_query (user_find_one_and_delete u)"

text \<open>A resumption is the continuation of one of the split handlers after its read,
  applied to the profile read then, whose entries were well formed at the time.\<close>

inductive cont_ok :: "db \<Rightarrow> unit handler \<Rightarrow> bool" where
  post: "cont_ok d (js_catch (post_profile_cont u f x) post_profile_catch)"
| put_exp: "pred_option (wf_profile (next_oid d)) x \<Longrightarrow> cont_ok d (js_catch (put_experience_cont b x) server_error)"
| del_exp: "pred_option (wf_profile (next_oid d)) x \<Longrightarrow> cont_ok d (js_catch (delete_experience_cont e x) server_error)"
| put_edu: "pred_option (wf_profile (next_oid d)) x \<Longrightarrow> cont_ok d (js_catch (put_education_cont b x) server_error)"
| del_edu: "pred_option (wf_profile (next_oid d)) x \<Longrightarrow> cont_ok d (js_catch (delete_education_cont e x) server_error)"

inductive thread_ok :: "db \<Rightarrow> tstate \<Rightarrow> bool" where
  idle: "thread_ok d (Idle r)"
| resume: "cont_ok d h \<Longrightarrow> thread_ok d (Resume h)"
| chain: "list_all del_query qs \<Longrightarrow>
    thread_ok d (Chain qs (res_json (BMsg ''User deleted'')) (\<lambda>err. send 500 (BText ''Server Error'')))"
| finished: "thread_ok d (Done out e)"

subsection \<open>Identifiers under any interleaving\<close>

lemma step_effect_next_oid: "step_effect d d' \<Longrightarrow> next_oid d \<le> next_oid d'"
  by (induction rule: step_effect.induct) simp_all

lemma ids_wf_step_effect: "step_effect d d' \<Longrightarrow> ids_wf d \<Longrightarrow> ids_wf d'"
proof (induction rule: step_effect.induct)
  case (save d p' Q path)
  from ids_wf_array_save[OF save.prems save.hyps order_refl, of Q path] show ?case by simp
qed (simp_all add: ids_wf_next_oid ids_wf_profile_update ids_wf_profile_create ids_wf_array_save ids_wf_delete)

lemma req_effect_step_effect: "req_effect d d' \<Longrightarrow> ids_wf d \<Longrightarrow> step_effect d d'"
proof (induction rule: req_effect.induct)
  case (add_exp u d p b)
  then have "wf_profile (next_oid d) p" by (auto intro: ids_wf_profile dest: find_SomeD)
  then show ?case by (intro step_effect.save_new wf_profile_new_experience)
next
  case (add_edu u d p b)
  then have "wf_profile (next_oid d) p" by (auto intro: ids_wf_profile dest: find_SomeD)
  then show ?case by (intro step_effect.save_new wf_profile_new_education)
next
  case (del_exp u d p k)
  then have "wf_profile (next_oid d) p" by (auto intro: ids_wf_profile dest: find_SomeD)
  then show ?case by (intro step_effect.save wf_profile_splice_experience)
next
  case (del_edu u d p k)
  then have "wf_profile (next_oid d) p" by (auto intro: ids_wf_profile dest: find_SomeD)
  then show ?case by (intro step_effect.save wf_profile_splice_education)
qed (auto intro: step_effect.intros)

lemma pred_option_wf_mono:
  "pred_option (wf_profile n) x \<Longrightarrow> n \<le> m \<Longrightarrow> pred_option (wf_profile m) x"
  by (cases x) (auto intro: wf_profile_mono)

lemma cont_ok_mono: "cont_ok d h \<Longrightarrow> next_oid d \<le> next_oid d' \<Longrightarrow> cont_ok d' h"
proof (induction rule: cont_ok.induct)
  case (put_exp d x b)
  from put_exp.hyps put_exp.prems have "pred_option (wf_profile (next_oid d')) x" by (rule pred_option_wf_mono)
  then show ?case by (rule cont_ok.put_exp)
next
  case (del_exp d x e)
  from del_exp.hyps del_exp.prems have "pred_option (wf_profile (next_oid d')) x" by (rule pred_option_wf_mono)
  then show ?case by (rule cont_ok.del_exp)
next
  case (put_edu d x b)
  from put_edu.hyps put_edu.prems have "pred_option (wf_profile (next_oid d')) x" by (rule pred_option_wf_mono)
  then show ?case by (rule cont_ok.put_edu)
next
  case (del_edu d x e)
  from del_edu.hyps del_edu.prems have "pred_option (wf_profile (next_oid d')) x" by (rule pred_option_wf_mono)
  then show ?case by (rule cont_ok.del_edu)
qed (rule cont_ok.post)

lemma thread_ok_mono: "thread_ok d t \<Longrightarrow> next_oid d \<le> next_oid d' \<Longrightarrow> thread_ok d' t"
  by (induction rule: thread_ok.induct) (auto intro: thread_ok.intros cont_ok_mono)

lemma catch_keeps_db:
  "fst (serve (post_profile_catch e) d) = d" "fst (serve (server_error e) d) = d"
  by (simp_all add: serve_simps)

text \<open>What a resumption does to the database is one of the steps above.\<close>

lemma cont_effect: "cont_ok d h \<Longrightarrow> step_effect d (fst (serve h d))"
proof (induction rule: cont_ok.induct)
  case (post d u f x)
  show ?case
    by (cases x; cases "online d") (simp_all add: serve_simps Let_def step_effect.intros)
next
  case (put_exp d x b)
  show ?case
  proof (cases x)
    case (Some p)
    with put_exp have w: "wf_profile (Suc (next_oid d)) (p\<lparr>p_experience := new_exp (oid_of_nat (next_oid d)) b # p_experience p\<rparr>)"
      by (simp add: wf_profile_new_experience)
    show ?thesis
      using Some step_effect.save_new[OF w] step_effect.draw[of d]
      by (cases "online d \<and> find (\<lambda>q. p_id q = p_id p \<and> p_v q = p_v p) (profiles d) \<noteq> None")
         (auto simp: serve_simps js_unshift_def Let_def)
  qed (simp add: serve_simps step_effect.keep)
next
  case (put_edu d x b)
  show ?case
  proof (cases x)
    case (Some p)
    with put_edu have w: "wf_profile (Suc (next_oid d)) (p\<lparr>p_education := new_edu (oid_of_nat (next_oid d)) b # p_education p\<rparr>)"
      by (simp add: wf_profile_new_education)
    show ?thesis
      using Some step_effect.save_new[OF w] step_effect.draw[of d]
      by (cases "online d \<and> find (\<lambda>q. p_id q = p_id p \<and> p_v q = p_v p) (profiles d) \<noteq> None")
         (auto simp: serve_simps js_unshift_def Let_def)
  qed (simp add: serve_simps step_effect.keep)
next
  case (del_exp d x e)
  show ?case
  proof (cases x)
    case (Some p)
    let ?p' = "p\<lparr>p_experience := js_splice1 (js_index_of e (map exp_id (p_experience p))) (p_experience p)\<rparr>"
    from del_exp Some have w: "wf_profile (next_oid d) ?p'" by (simp add: wf_profile_splice_experience)
    show ?thesis
      using Some step_effect.save[OF w] step_effect.keep[of d]
      by (cases "online d \<and> find (\<lambda>q. p_id q = p_id p \<and> p_v q = p_v p) (profiles d) \<noteq> None")
         (auto simp: serve_simps Let_def)
  qed (simp add: serve_simps step_effect.keep)
next
  case (del_edu d x e)
  show ?case
  proof (cases x)
    case (Some p)
    let ?p' = "p\<lparr>p_education := js_splice1 (js_index_of e (map edu_id (p_education p))) (p_education p)\<rparr>"
    from del_edu Some have w: "wf_profile (next_oid d) ?p'" by (simp add: wf_profile_splice_education)
    show ?thesis
      using Some step_effect.save[OF w] step_effect.keep[of d]
      by (cases "online d \<and> find (\<lambda>q. p_id q = p_id p \<and> p_v q = p_v p) (profiles d) \<noteq> None")
         (auto simp: serve_simps Let_def)
  qed (simp add: serve_simps step_effect.keep)
qed

lemma await_split_cont:
  "await_split u r = Some (k, c) \<Longrightarrow> pred_option (wf_profile (next_oid d)) x \<Longrightarrow> cont_ok d (js_catch (k x) c)"
  by (cases r) (auto intro: cont_ok.intros split: if_splits)

lemma await_split_catch: "await_split u r = Some (k, c) \<Longrightarrow> fst (serve (c e) d) = d"
  by (cases r) (auto simp: catch_keeps_db split: if_splits)

lemma await_chain_del:
  "await_chain u r = Some (qs, k, c) \<Longrightarrow>
   list_all del_query qs \<and> k = res_json (BMsg ''User deleted'') \<and> c = (\<lambda>err. send 500 (BText ''Server Error''))"
  by (cases r) (auto intro: del_query.intros)

lemma del_query_effect: "del_query q \<Longrightarrow> q d = Inr (x, d') \<Longrightarrow> step_effect d d'"
proof (induction rule: del_query.induct)
  case (1 u)
  have "step_effect d (d\<lparr>posts := filter (\<lambda>p. post_user p \<noteq> u) (posts d),
                         profiles := delete_first (\<lambda>_. False) (profiles d), users := users d\<rparr>)"
    by (rule step_effect.delete)
  with 1 show ?case by (simp add: post_delete_many_def guarded_def delete_first_no_match split: if_splits)
next
  case (2 u)
  have "step_effect d (d\<lparr>posts := posts d, profiles := delete_first (\<lambda>p. p_user p = u) (profiles d),
                         users := users d\<rparr>)"
    by (rule step_effect.delete)
  with 2 show ?case by (simp add: profile_find_one_and_delete_def guarded_def split: if_splits)
next
  case (3 u)
  have "step_effect d (d\<lparr>posts := posts d, profiles := delete_first (\<lambda>_. False) (profiles d),
                         users := delete_first (\<lambda>x. u_id x = u) (users d)\<rparr>)"
    by (rule step_effect.delete)
  with 3 show ?case by (simp add: user_find_one_and_delete_def guarded_def delete_first_no_match split: if_splits)
qed

lemma chain_step_ok:
  assumes "list_all del_query qs"
    and "chain_step qs (res_json (BMsg ''User deleted'')) (\<lambda>err. send 500 (BText ''Server Error'')) d = (t', d')"
  shows "step_effect d d' \<and> thread_ok d' t'"
proof (cases qs)
  case Nil
  with assms(2) show ?thesis
    by (auto simp: finish_def serve_simps intro: step_effect.keep thread_ok.finished)
next
  case (Cons q qs')
  show ?thesis
  proof (cases "q d")
    case (Inl e)
    with Cons assms(2) show ?thesis
      by (auto simp: finish_def serve_simps intro: step_effect.keep thread_ok.finished)
  next
    case (Inr r)
    obtain x d1 where r: "r = (x, d1)" by (cases r) auto
    have eff: "step_effect d d1" using Cons assms(1) Inr r by (auto intro: del_query_effect)
    show ?thesis
    proof (cases qs')
      case Nil
      with Cons Inr r assms(2) eff show ?thesis
        by (auto simp: finish_def serve_simps intro: thread_ok.finished)
    next
      case (Cons q' qs'')
      with \<open>qs = q # qs'\<close> Inr r assms eff show ?thesis
        by (auto intro: thread_ok.chain)
    qed
  qed
qed

lemma thread_step_ok:
  assumes ids: "ids_wf d" and ok: "thread_ok d t" and st: "thread_step u t d = (t', d')"
  shows "step_effect d d' \<and> thread_ok d' t'"
  using ok
proof cases
  case (idle r)
  show ?thesis
  proof (cases "await_split u r")
    case None
    show ?thesis
    proof (cases "await_chain u r")
      case None2: None
      have "step_effect d (fst (serve (route (Some u) r) d))"
        by (rule req_effect_step_effect[OF route_req_effect ids])
      with st idle None None2 show ?thesis
        by (auto simp: start_def finish_def intro: thread_ok.finished split: prod.splits)
    next
      case (Some y)
      obtain qs k c where y: "y = (qs, k, c)" by (metis prod_cases3)
      with Some have "list_all del_query qs \<and> k = res_json (BMsg ''User deleted'') \<and>
          c = (\<lambda>err. send 500 (BText ''Server Error''))" by (simp add: await_chain_del)
      with st idle None Some y chain_step_ok[of qs d t' d'] show ?thesis
        by (auto simp: start_def)
    qed
  next
    case (Some kc)
    obtain k c where kc: "kc = (k, c)" by fastforce
    show ?thesis
    proof (cases "online d")
      case True
      have "pred_option (wf_profile (next_oid d)) (find (\<lambda>p. p_user p = u) (profiles d))"
        using ids by (cases "find (\<lambda>p. p_user p = u) (profiles d)") (auto dest: find_SomeD intro: ids_wf_profile)
      then have "cont_ok d (js_catch (k (find (\<lambda>p. p_user p = u) (profiles d))) c)"
        using Some kc by (auto intro: await_split_cont)
      with st idle Some kc True show ?thesis
        by (auto simp: start_def profile_find_one_def guarded_def intro: step_effect.keep thread_ok.resume)
    next
      case False
      have "fst (serve (c StoreError) d) = d" using Some kc by (simp add: await_split_catch)
      with st idle Some kc False show ?thesis
        by (auto simp: start_def profile_find_one_def guarded_def finish_def
                 intro: step_effect.keep thread_ok.finished split: prod.splits)
    qed
  qed
next
  case (resume h)
  with st cont_effect[of d h] show ?thesis
    by (auto simp: finish_def intro: thread_ok.finished split: prod.splits)
next
  case (chain qs)
  with st show ?thesis by (simp add: chain_step_ok)
next
  case (finished out e)
  with st show ?thesis by (auto intro: step_effect.keep thread_ok.finished)
qed

lemma sched_step_ok:
  assumes ids: "ids_wf (s_db s)" and ok: "list_all (\<lambda>x. thread_ok (s_db s) (snd x)) (s_threads s)"
  shows "ids_wf (s_db (sched_step i s)) \<and>
         list_all (\<lambda>x. thread_ok (s_db (sched_step i s)) (snd x)) (s_threads (sched_step i s))"
proof (cases "i < length (s_threads s)")
  case False then show ?thesis using assms by (simp add: sched_step_def)
next
  case True
  obtain u t where ut: "s_threads s ! i = (u, t)" by fastforce
  obtain t' d' where st: "thread_step u t (s_db s) = (t', d')" by fastforce
  have "thread_ok (s_db s) t" using ok True ut by (metis list_all_length snd_conv)
  from thread_step_ok[OF ids this st] have eff: "step_effect (s_db s) d'" and ok': "thread_ok d' t'" by auto
  have le: "next_oid (s_db s) \<le> next_oid d'" by (rule step_effect_next_oid[OF eff])
  have s': "sched_step i s = s\<lparr>s_db := d', s_threads := (s_threads s)[i := (u, t')]\<rparr>"
    using True ut st by (simp add: sched_step_def)
  have "list_all (\<lambda>x. thread_ok d' (snd x)) ((s_threads s)[i := (u, t')])"
  proof (unfold list_all_length, intro allI impI)
    fix n assume n: "n < length ((s_threads s)[i := (u, t')])"
    show "thread_ok d' (snd ((s_threads s)[i := (u, t')] ! n))"
    proof (cases "n = i")
      case True with n ok' show ?thesis by simp
    next
      case False
      with n ok have "thread_ok (s_db s) (snd (s_threads s ! n))" by (simp add: list_all_length)
      with False le show ?thesis by (simp add: thread_ok_mono)
    qed
  qed
  with ids_wf_step_effect[OF eff ids] show ?thesis by (simp add: s')
qed

lemma run_sched_ok:
  "ids_wf (s_db s) \<Longrightarrow> list_all (\<lambda>x. thread_ok (s_db s) (snd x)) (s_threads s) \<Longrightarrow>
   ids_wf (s_db (run_sched sch s))"
proof (induction sch arbitrary: s)
  case (Cons i sch)
  from sched_step_ok[OF Cons.prems] show ?case by (simp add: run_sched_Cons Cons.IH)
qed (simp add: run_sched_def)

text \<open>C17. Identifiers stay sound under any interleaving: starting from a well-formed
  database, whatever requests are in flight and whatever the schedule, profile
  identifiers stay distinct, the entries of each profile have distinct
  identifiers, and every identifier was issued by the generator. This holds even
  though two profiles of one user can arise (C22), and even for a save of a
  document read before other requests changed it.\<close>

theorem concurrent_ids_wf:
  assumes "wf_db d"
  shows "ids_wf (s_db (run_sched sch \<lparr>s_db = d, s_threads = map (\<lambda>(u, r). (u, Idle r)) rs\<rparr>))"
proof (rule run_sched_ok)
  show "ids_wf (s_db \<lparr>s_db = d, s_threads = map (\<lambda>(u, r). (u, Idle r)) rs\<rparr>)"
    using assms by (simp add: wf_db_ids_wf)
  show "list_all (\<lambda>x. thread_ok (s_db \<lparr>s_db = d, s_threads = map (\<lambda>(u, r). (u, Idle r)) rs\<rparr>) (snd x))
          (s_threads \<lparr>s_db = d, s_threads = map (\<lambda>(u, r). (u, Idle r)) rs\<rparr>)"
    by (auto simp: list_all_iff intro: thread_ok.idle)
qed

theorem concurrent_ids_wf_witness:
  "ids_wf (s_db (run_sched [0, 1, 0, 1]
     \<lparr>s_db = ex_wf_db, s_threads = map (\<lambda>(u, r). (u, Idle r))
        [(''u1'', PutExperience ex_exp_body), (''u1'', DeleteExperience (oid_of_nat 2))]\<rparr>))"
  by (rule concurrent_ids_wf[OF wf_ex_wf_db])

end
