(* ===== verification/GithubAdapter.thy ===== *)
theory GithubAdapter
  imports ProfileApi
begin

text \<open>
  The route \<open>GET /api/profile/github/:username\<close> of \<open>src/routes/api/profile.js\<close>:
  a synchronous part that reads the client id and secret from the configuration
  and issues an HTTP request to the GitHub API, and the callback that the
  \<open>request\<close> library calls later with the outcome. The configuration, the
  network and \<open>JSON.parse\<close> are parameters: \<open>cfg\<close> maps a configuration key to its
  value (\<open>config.get\<close> throws for a missing key), \<open>net\<close> gives the upstream outcome
  of the request issued, \<open>parse\<close> is \<open>JSON.parse\<close> (\<open>None\<close> for a text that is not
  JSON). An exception escaping the callback is not caught by the route's
  \<open>try\<close> block, which has returned long before.
\<close>

record gh_options =
  gh_uri :: string
  gh_method :: string
  gh_headers :: "(string \<times> string) list"

text \<open>What the callback receives: a transport error (\<open>error\<close> set, \<open>response\<close>
  undefined), or a response with its status code and body text.\<close>

datatype upstream = Transport string | Reply nat string

definition github_options :: "string \<Rightarrow> string \<Rightarrow> string \<Rightarrow> gh_options" where
  "github_options username cid secret =
     \<lparr>gh_uri = ''https://api.github.com/users/'' @ username @
               ''/repos?per_page=5&sort=created:asc&client_id='' @ cid @ ''&client_secret='' @ secret,
      gh_method = ''GET'', gh_headers = [(''user-agent'', ''node.js'')]\<rparr>"

definition config_get :: "(string \<Rightarrow> string option) \<Rightarrow> string \<Rightarrow> (string, 's) js" where
  "config_get cfg k =
     (case cfg k of None \<Rightarrow> js_throw (ReferenceError (''Configuration property \"'' @ k @ ''\" is not defined''))
      | Some v \<Rightarrow> js_return v)"

text \<open>The \<open>try\<close> block: build the options and call \<open>request\<close>; the result is the
  request issued, if any. The \<open>catch\<close> block answers 500.\<close>

definition github_issue :: "(string \<Rightarrow> string option) \<Rightarrow> string \<Rightarrow> (gh_options option) handler" where
  "github_issue cfg username =
     js_catch
       (js_bind (config_get cfg ''githubClientId'') (\<lambda>cid.
          js_bind (config_get cfg ''githubSecret'') (\<lambda>secret.
            js_return (Some (github_options username cid secret)))))
       (\<lambda>err. js_then (send 500 (BText ''Server Error'')) (js_return None))"

text \<open>The callback \<open>(error, response, body) => ...\<close>: \<open>console.error\<close> is output
  only; \<open>response.statusCode\<close> on an undefined response throws.\<close>

definition github_callback :: "(string \<Rightarrow> json option) \<Rightarrow> upstream \<Rightarrow> unit handler" where
  "github_callback parse up =
     (case up of
        Transport err \<Rightarrow> js_throw (TypeError ''Cannot read property 'statusCode' of undefined'')
      | Reply code body \<Rightarrow>
          js_then (if code \<noteq> 200 then send 400 (BMsg ''No github profile found'') else js_return ())
            (case parse body of
               None \<Rightarrow> js_throw SyntaxError
             | Some j \<Rightarrow> res_json (BJson j)))"

text \<open>The whole exchange: the route's synchronous part, then, if a request was
  issued, the callback with the upstream outcome of that request.\<close>

definition get_github ::
  "(string \<Rightarrow> string option) \<Rightarrow> (string \<Rightarrow> json option) \<Rightarrow> (gh_options \<Rightarrow> upstream) \<Rightarrow> string \<Rightarrow> unit handler" where
  "get_github cfg parse net username =
     js_bind (github_issue cfg username) (\<lambda>issued.
       case issued of None \<Rightarrow> js_return () | Some opts \<Rightarrow> github_callback parse (net opts))"

text \<open>What the \<open>request\<close> library sends for an option's \<open>uri\<close> (Node's legacy
  \<open>url.parse\<close>): the fragment, from the first \<open>#\<close>, is not sent; the query is what
  follows the first \<open>?\<close> before it; the path and host are what precedes. The query is
  read by \<open>querystring.parse\<close> as \<open>&\<close>-separated \<open>key=value\<close> pairs. \<open>url.parse\<close>
  also percent-escapes white space, quotes, \<open><>\<close>, backslash, \<open>^\<close>, backquote and
  \<open>{|}\<close>, and \<open>querystring.parse\<close> decodes \<open>%XX\<close> and \<open>+\<close>; \<open>uri_split\<close> and
  \<open>parse_query\<close> leave these out, so they are faithful on the strings whose
  characters are printable ASCII other than those and \<open>%\<close> and \<open>+\<close>
  (\<open>url_plain\<close>), where both transformations are the identity.\<close>

definition url_plain :: "string \<Rightarrow> bool" where
  "url_plain s \<longleftrightarrow>
     (\<forall>c\<in>set s. 33 \<le> (of_char c :: nat) \<and> (of_char c :: nat) < 127 \<and>
                c \<notin> set ''%+\"'<>^`{|}'' \<and> c \<noteq> CHR 0x5C)"

definition uri_split :: "string \<Rightarrow> string \<times> string option" where
  "uri_split uri =
     (let pre = takeWhile (\<lambda>c. c \<noteq> CHR ''#'') uri
      in (takeWhile (\<lambda>c. c \<noteq> CHR ''?'') pre,
          if CHR ''?'' \<in> set pre then Some (tl (dropWhile (\<lambda>c. c \<noteq> CHR ''?'') pre)) else None))"

definition parse_query :: "string \<Rightarrow> (string \<times> string) list" where
  "parse_query q =
     map (\<lambda>kv. (takeWhile (\<lambda>c. c \<noteq> CHR ''='') kv, drop 1 (dropWhile (\<lambda>c. c \<noteq> CHR ''='') kv)))
       (js_split (CHR ''&'') q)"

definition upstream_request :: "gh_options \<Rightarrow> string \<times> (string \<times> string) list option" where
  "upstream_request opts = (case uri_split (gh_uri opts) of (path, q) \<Rightarrow> (path, map_option parse_query q))"

definition ex_cfg :: "string \<Rightarrow> string option" where
  "ex_cfg k = (if k = ''githubClientId'' then Some ''cid'' else if k = ''githubSecret'' then Some ''sec'' else None)"

definition ex_parse :: "string \<Rightarrow> json option" where
  "ex_parse s = (if s = ''[]'' then Some (JSONArr []) else if s = ''{}'' then Some (JSONObj []) else None)"

lemmas github_defs = get_github_def github_issue_def github_callback_def config_get_def

lemma serve_get_github_configured:
  "cfg ''githubClientId'' = Some cid \<Longrightarrow> cfg ''githubSecret'' = Some secret \<Longrightarrow>
   serve (get_github cfg parse net username) d =
     serve (github_callback parse (net (github_options username cid secret))) d"
  by (simp add: github_defs js_simps serve_def)

text \<open>C24. With the configuration present and a 200 reply whose body is JSON, the route
  answers 200 with the parsed body, and nothing escapes.\<close>

theorem github_ok:
  assumes "cfg ''githubClientId'' = Some cid" "cfg ''githubSecret'' = Some secret"
    "net (github_options username cid secret) = Reply 200 body" "parse body = Some j"
  shows "serve (get_github cfg parse net username) d = (d, Some (200, BJson j), None)"
  unfolding serve_get_github_configured[OF assms(1,2)] using assms(3,4)
  by (simp add: github_callback_def serve_def js_simps fresh_response_def)

theorem github_ok_witness:
  "serve (get_github ex_cfg ex_parse (\<lambda>_. Reply 200 ''[]'') ''octocat'') ex_db =
   (ex_db, Some (200, BJson (JSONArr [])), None)"
  by (rule github_ok) (simp_all add: ex_cfg_def ex_parse_def)

text \<open>C25. A reply with a status other than 200 is answered 400 with
  \<open>{msg: 'No github profile found'}\<close>, and the callback then goes on to
  \<open>res.json(JSON.parse(body))\<close>: a second response on the same request, which throws
  out of the callback (a \<open>SyntaxError\<close> when the body is not JSON, otherwise the
  headers-sent error).\<close>

theorem github_not_ok_double_response:
  assumes "cfg ''githubClientId'' = Some cid" "cfg ''githubSecret'' = Some secret"
    "net (github_options username cid secret) = Reply code body" "code \<noteq> 200"
  shows "serve (get_github cfg parse net username) d =
           (d, Some (400, BMsg ''No github profile found''),
            Some (case parse body of None \<Rightarrow> SyntaxError | Some _ \<Rightarrow> HeadersSent))"
  unfolding serve_get_github_configured[OF assms(1,2)] using assms(3,4)
  by (simp add: github_callback_def serve_def js_simps fresh_response_def split: option.split)

theorem github_not_ok_double_response_witness:
  "serve (get_github ex_cfg ex_parse (\<lambda>_. Reply 404 ''{}'') ''nobody'') ex_db =
   (ex_db, Some (400, BMsg ''No github profile found''), Some HeadersSent)"
  using github_not_ok_double_response[of ex_cfg "''cid''" "''sec''" "\<lambda>_. Reply 404 ''{}''" "''nobody''" 404 "''{}''" ex_parse ex_db]
  by (simp add: ex_cfg_def ex_parse_def)

text \<open>C26. A transport error (no response) is not turned into a server-error answer:
  reading \<open>response.statusCode\<close> throws a \<open>TypeError\<close> out of the callback and the
  request is never answered.\<close>

theorem github_transport_error_unanswered:
  assumes "cfg ''githubClientId'' = Some cid" "cfg ''githubSecret'' = Some secret"
    "net (github_options username cid secret) = Transport err"
  shows "serve (get_github cfg parse net username) d =
           (d, None, Some (TypeError ''Cannot read property 'statusCode' of undefined''))"
  unfolding serve_get_github_configured[OF assms(1,2)] using assms(3)
  by (simp add: github_callback_def serve_def js_simps fresh_response_def)

theorem github_transport_error_unanswered_witness:
  "serve (get_github ex_cfg ex_parse (\<lambda>_. Transport ''ETIMEDOUT'') ''octocat'') ex_db =
   (ex_db, None, Some (TypeError ''Cannot read property 'statusCode' of undefined''))"
  by (rule github_transport_error_unanswered) (simp_all add: ex_cfg_def)

text \<open> Without the client id in the configuration no request is issued and the route
  answers 500 Server Error.\<close>

lemma github_missing_config:
  "cfg ''githubClientId'' = None \<Longrightarrow>
   serve (get_github cfg parse net username) d = (d, Some (500, BText ''Server Error''), None)"
  by (simp add: github_defs js_simps serve_def fresh_response_def)

lemma github_missing_config_example:
  "serve (get_github (\<lambda>_. None) ex_parse (\<lambda>_. Reply 200 ''[]'') ''octocat'') ex_db =
   (ex_db, Some (500, BText ''Server Error''), None)"
  by (rule github_missing_config) simp

subsection \<open>The request sent upstream\<close>

lemma takeWhile_append_not_in:
  "c \<notin> set xs \<Longrightarrow> takeWhile (\<lambda>x. x \<noteq> c) (xs @ ys) = xs @ takeWhile (\<lambda>x. x \<noteq> c) ys"
  by (induction xs) auto
lemma takeWhile_not_in: "c \<notin> set xs \<Longrightarrow> takeWhile (\<lambda>x. x \<noteq> c) xs = xs"
  by (induction xs) auto
lemma dropWhile_append_not_in:
  "c \<notin> set xs \<Longrightarrow> dropWhile (\<lambda>x. x \<noteq> c) (xs @ ys) = dropWhile (\<lambda>x. x \<noteq> c) ys"
  by (induction xs) auto
lemma github_query_join:
  "''per_page=5&sort=created:asc&client_id='' @ cid @ ''&client_secret='' @ secret =
   js_join (CHR ''&'') [''per_page=5'', ''sort=created:asc'', ''client_id='' @ cid, ''client_secret='' @ secret]"
  by simp
lemma github_parse_query:
  assumes c: "CHR ''&'' \<notin> set cid" and s: "CHR ''&'' \<notin> set secret"
  shows "parse_query (''per_page=5&sort=created:asc&client_id='' @ cid @ ''&client_secret='' @ secret) =
           [(''per_page'', ''5''), (''sort'', ''created:asc''), (''client_id'', cid), (''client_secret'', secret)]"
proof -
  have "js_split (CHR ''&'') (js_join (CHR ''&'') [''per_page=5'', ''sort=created:asc'', ''client_id='' @ cid, ''client_secret='' @ secret]) =
        [''per_page=5'', ''sort=created:asc'', ''client_id='' @ cid, ''client_secret='' @ secret]"
    by (rule js_split_join) (use c s in auto)
  note sp = this
  show ?thesis unfolding parse_query_def github_query_join sp by simp
qed
text \<open>C27. The request sent to GitHub carries the path of the user's repositories and
  the four query parameters in order, with the configured client id and secret,
  whenever the username has no \<open>?\<close> or \<open>#\<close>, the credentials no \<open>&\<close> or \<open>#\<close>, and
  none of the three holds a character that \<open>url.parse\<close> escapes or
  \<open>querystring.parse\<close> decodes: building the URI and reading it back agree.\<close>

theorem github_uri_roundtrip:
  assumes u: "CHR ''?'' \<notin> set username" "CHR ''#'' \<notin> set username"
    and c: "CHR ''&'' \<notin> set cid" "CHR ''#'' \<notin> set cid"
    and s: "CHR ''&'' \<notin> set secret" "CHR ''#'' \<notin> set secret"
    and plain: "url_plain username" "url_plain cid" "url_plain secret"
  shows "upstream_request (github_options username cid secret) =
           (''https://api.github.com/users/'' @ username @ ''/repos'',
            Some [(''per_page'', ''5''), (''sort'', ''created:asc''), (''client_id'', cid),
                  (''client_secret'', secret)])"
  using u c s github_parse_query[OF c(1) s(1), simplified]
  by (simp add: upstream_request_def uri_split_def github_options_def
                takeWhile_append_not_in takeWhile_not_in dropWhile_append_not_in)

theorem github_uri_roundtrip_witness:
  "upstream_request (github_options ''octocat'' ''cid'' ''sec'') =
     (''https://api.github.com/users/octocat/repos'',
      Some [(''per_page'', ''5''), (''sort'', ''created:asc''), (''client_id'', ''cid''), (''client_secret'', ''sec'')])"
  using github_uri_roundtrip[of "''octocat''" "''cid''" "''sec''"] by (simp add: url_plain_def)

text \<open>The username is inserted without encoding, and Express decodes the path
  parameter, so \<open>%23\<close> in the request path is a \<open>#\<close> in the username: the rest of
  the URI, the query with the client id and secret included, becomes a fragment
  and is not sent.\<close>

lemma github_uri_fragment_drops_credentials:
  assumes "CHR ''?'' \<notin> set a" "CHR ''#'' \<notin> set a"
  shows "upstream_request (github_options (a @ CHR ''#'' # b) cid secret) = (''https://api.github.com/users/'' @ a, None)"
  using assms by (simp add: upstream_request_def uri_split_def github_options_def
                takeWhile_append_not_in takeWhile_not_in dropWhile_append_not_in)

end
