(* ===== verification/Router.thy ===== *)
theory Router
  imports Api GithubAdapter
begin

text \<open>
  The whole router of \<open>src/routes/api/profile.js\<close>: the nine routes of
  \<open>Api.route\<close>, which read or write the database, and the public route
  \<open>GET /github/:username\<close> of \<open>GithubAdapter\<close>, which only talks to GitHub. The
  configuration, \<open>JSON.parse\<close> and the network that the GitHub route consults are
  the environment \<open>github_env\<close>.
\<close>

record github_env =
  gh_cfg :: "string \<Rightarrow> string option"
  gh_parse :: "string \<Rightarrow> json option"
  gh_net :: "gh_options \<Rightarrow> upstream"

datatype api_request = ProfileRoute request | GithubRoute string

fun api_route :: "github_env \<Rightarrow> oid option \<Rightarrow> api_request \<Rightarrow> unit handler" where
  "api_route env tok (ProfileRoute r) = route tok r"
| "api_route env tok (GithubRoute username) =
     get_github (gh_cfg env) (gh_parse env) (gh_net env) username"

definition public_route :: "api_request \<Rightarrow> bool" where
  "public_route r \<longleftrightarrow> r = ProfileRoute GetProfiles \<or> (\<exists>u. r = GithubRoute u)"

definition ex_env :: github_env where
  "ex_env = \<lparr>gh_cfg = ex_cfg, gh_parse = ex_parse, gh_net = \<lambda>_. Reply 200 ''[]''\<rparr>"

text \<open>C19. Without a token, every route but the two public ones (GET / and
  GET /github/:username) is refused with 401 and leaves the database alone; the two
  public routes are served exactly as for an authenticated user, whoever it is.\<close>

theorem api_route_without_token:
  "serve (api_route env None r) d =
     (if public_route r then serve (api_route env (Some uid) r) d
      else (d, Some (401, BUnauthorized), None))"
proof (cases r)
  case (ProfileRoute q)
  then show ?thesis by (cases q) (simp_all add: public_route_def auth_def)
next
  case (GithubRoute u)
  then show ?thesis by (simp add: public_route_def)
qed

end
