(* ===== verification/Client.thy ===== *)
theory Client
  imports Store "HOL-Library.Multiset"
begin

text \<open>
  The client code under \<open>src/client/src\<close>: the \<open>setAlert\<close> thunk
  (\<open>actions/alert.js\<close>) with the timer that removes the alert, the submit
  handlers of the post and comment forms (\<open>components/posts/PostForm.js\<close>,
  \<open>components/post/CommentForm.js\<close>), the rendering decisions of the comment
  item and the post page (\<open>components/post/CommentItem.js\<close>,
  \<open>components/post/Post.js\<close>) and the links of the dashboard
  (\<open>components/dashboard/DashboardActions.js\<close>). The browser is a record: the
  clock, the supply of alert identifiers (\<open>uuidv4\<close>, modelled as a counter), the
  pending \<open>setTimeout\<close> callbacks with their due times, the text of the two
  forms, and the log of the effects the code produced (Redux dispatches, calls
  of the action creators, scrolling) in their order. The forms' rendered fields,
  the Redux store of \<open>store.js\<close> (thunk before logger) and the \<open>mapStateToProps\<close>
  wiring of the connected components are modelled at the end of the
  definitions.
\<close>

subsection \<open>Effects and browser state\<close>

datatype action =
    SET_ALERT string string nat   \<comment> \<open>payload \<open>{msg, alertType, id}\<close>\<close>
  | REMOVE_ALERT nat              \<comment> \<open>payload \<open>id\<close>\<close>

datatype effect =
    Dispatch action
  | ScrollTo nat nat
  | AddPost string                \<comment> \<open>\<open>addPost({text})\<close>\<close>
  | AddComment oid string         \<comment> \<open>\<open>addComment(postId, {text})\<close>\<close>
  | DeleteComment oid oid         \<comment> \<open>\<open>deleteComment(postId, commentId)\<close>\<close>
  | GetPost string                \<comment> \<open>\<open>getPost(id)\<close>\<close>
  | GetProfileById oid            \<comment> \<open>\<open>getProfileById(userId)\<close>\<close>

record client =
  cl_now :: nat
  cl_uuid :: nat
  cl_timers :: "(nat \<times> effect) list"
  cl_post_text :: string
  cl_comment_text :: string
  cl_log :: "effect list"

definition client_init :: client where
  "client_init = \<lparr>cl_now = 0, cl_uuid = 0, cl_timers = [], cl_post_text = [], cl_comment_text = [],
                  cl_log = []\<rparr>"

subsection \<open>setAlert\<close>

text \<open>\<open>timeout = 5000\<close>: the default applies when the argument is left out.\<close>

definition alert_timeout :: "nat option \<Rightarrow> nat" where
  "alert_timeout t = (case t of None \<Rightarrow> 5000 | Some n \<Rightarrow> n)"

definition set_alert :: "string \<Rightarrow> string \<Rightarrow> nat option \<Rightarrow> client \<Rightarrow> client" where
  "set_alert msg alertType timeout c =
     (let id = cl_uuid c
      in c\<lparr>cl_uuid := Suc id,
           cl_log := cl_log c @ [Dispatch (SET_ALERT msg alertType id), ScrollTo 0 0],
           cl_timers := cl_timers c @ [(cl_now c + alert_timeout timeout, Dispatch (REMOVE_ALERT id))]\<rparr>)"

text \<open>Time passes by \<open>dt\<close> milliseconds: the callbacks that fall due run in the
  order of their due times, those due at the same time in the order they were
  set.\<close>

definition advance :: "nat \<Rightarrow> client \<Rightarrow> client" where
  "advance dt c =
     (let t = cl_now c + dt;
          due = sort_key fst (filter (\<lambda>x. fst x \<le> t) (cl_timers c))
      in c\<lparr>cl_now := t, cl_timers := filter (\<lambda>x. \<not> fst x \<le> t) (cl_timers c),
           cl_log := cl_log c @ map snd due\<rparr>)"

subsection \<open>The post and comment forms\<close>

definition post_form_submit :: "client \<Rightarrow> client" where
  "post_form_submit c =
     (if cl_post_text c = [] then set_alert ''Post cannot be empty'' ''danger'' None c
      else c\<lparr>cl_log := cl_log c @ [AddPost (cl_post_text c)], cl_post_text := []\<rparr>)"

definition comment_form_submit :: "oid \<Rightarrow> client \<Rightarrow> client" where
  "comment_form_submit postId c =
     (if cl_comment_text c = [] then set_alert ''Comments cannot be empty'' ''danger'' None c
      else c\<lparr>cl_log := cl_log c @ [AddComment postId (cl_comment_text c)], cl_comment_text := []\<rparr>)"

text \<open>What can happen in the browser: an alert raised by any component, time
  passing, typing in a form (\<open>onChange\<close>), submitting a form.\<close>

datatype event =
    SetAlert string string "nat option"
  | Tick nat
  | PostChange string
  | PostSubmit
  | CommentChange string
  | CommentSubmit oid

fun client_event :: "event \<Rightarrow> client \<Rightarrow> client" where
  "client_event (SetAlert m t tm) c = set_alert m t tm c"
| "client_event (Tick dt) c = advance dt c"
| "client_event (PostChange s) c = c\<lparr>cl_post_text := s\<rparr>"
| "client_event PostSubmit c = post_form_submit c"
| "client_event (CommentChange s) c = c\<lparr>cl_comment_text := s\<rparr>"
| "client_event (CommentSubmit p) c = comment_form_submit p c"

inductive client_reach :: "client \<Rightarrow> bool" where
  init: "client_reach client_init"
| step: "client_reach c \<Longrightarrow> client_reach (client_event e c)"

subsection \<open>Invariant of the alert timers and the log\<close>

fun removed_id :: "effect \<Rightarrow> nat option" where
  "removed_id (Dispatch (REMOVE_ALERT i)) = Some i"
| "removed_id _ = None"

fun set_id :: "effect \<Rightarrow> nat option" where
  "set_id (Dispatch (SET_ALERT m t i)) = Some i"
| "set_id _ = None"

definition removes :: "effect list \<Rightarrow> nat list" where
  "removes es = List.map_filter removed_id es"

definition sets :: "effect list \<Rightarrow> nat list" where
  "sets es = List.map_filter set_id es"

subsection \<open>The comment item and the post page\<close>

text \<open>The \<open>auth\<close> slice of the Redux state: \<open>loading\<close>, and \<open>user\<close> with its \<open>_id\<close>
  (\<open>None\<close> for \<open>null\<close>).\<close>

record auth_state =
  a_loading :: bool
  a_user :: "oid option"

text \<open>A rendered comment: the link to its author's profile, avatar, name, text, and
  the delete button with the arguments its \<open>onClick\<close> passes to \<open>deleteComment\<close>.\<close>

datatype citem = CItem string string string string "(oid \<times> oid) option"

fun citem_delete :: "citem \<Rightarrow> (oid \<times> oid) option" where
  "citem_delete (CItem link avatar name text del) = del"

text \<open>\<open>!auth.loading && user === auth.user._id && <button ...>\<close>: the access to
  \<open>auth.user._id\<close> throws when the user is \<open>null\<close>.\<close>

definition comment_item :: "auth_state \<Rightarrow> oid \<Rightarrow> comment \<Rightarrow> exn + citem" where
  "comment_item auth postId c =
     (let item = CItem (''/profile/'' @ c_user c) (c_avatar c) (c_name c) (c_text c)
      in if a_loading auth then Inr (item None)
         else (case a_user auth of
                 None \<Rightarrow> Inl (TypeError ''Cannot read property '_id' of null'')
               | Some u \<Rightarrow> Inr (item (if c_user c = u then Some (postId, c_id c) else None))))"

record post_state =
  ps_post :: "post option"
  ps_loading :: bool

datatype page = Spinner | NotFound | PostPage oid "citem list"

text \<open>Children render in order; the first one that throws aborts the render.\<close>

fun render_all :: "(exn + 'a) list \<Rightarrow> exn + 'a list" where
  "render_all [] = Inr []"
| "render_all (Inl e # rs) = Inl e"
| "render_all (Inr x # rs) = (case render_all rs of Inl e \<Rightarrow> Inl e | Inr xs \<Rightarrow> Inr (x # xs))"

text \<open>\<open>loading ? <Spinner/> : post === null ? <h3>Post not found</h3> : ...\<close> with one
  \<open>CommentItem\<close> per comment.\<close>

definition post_page :: "auth_state \<Rightarrow> post_state \<Rightarrow> exn + page" where
  "post_page auth ps =
     (if ps_loading ps then Inr Spinner
      else (case ps_post ps of
              None \<Rightarrow> Inr NotFound
            | Some p \<Rightarrow> map_sum id (PostPage (post_id p))
                          (render_all (map (comment_item auth (post_id p)) (post_comments p)))))"

text \<open>The two \<open>useEffect\<close> hooks of the page: \<open>getPost(match.params.id)\<close>, and
  \<open>getProfileById(post.user)\<close> once a post with a user is loaded.\<close>

definition post_page_effects :: "string \<Rightarrow> post option \<Rightarrow> effect list" where
  "post_page_effects routeId post =
     GetPost routeId # (case post of Some p \<Rightarrow> if post_user p \<noteq> [] then [GetProfileById (post_user p)] else []
                        | None \<Rightarrow> [])"

subsection \<open>The dashboard links\<close>

definition dashboard_links :: "oid \<Rightarrow> string list" where
  "dashboard_links i = [''profile/'' @ i, ''edit-profile'', ''add-experience'', ''add-education'']"

text \<open>How the router resolves a link target against the current path (the
  \<open>resolve-pathname\<close> algorithm of \<open>history\<close>, for targets without \<open>.\<close> and \<open>..\<close>
  segments): an absolute target is kept; a relative one replaces the last segment
  of the current path.\<close>

definition resolve_link :: "string \<Rightarrow> string \<Rightarrow> string" where
  "resolve_link current target =
     (if take 1 target = ''/'' then target
      else js_join (CHR ''/'') (butlast (js_split (CHR ''/'') current) @ js_split (CHR ''/'') target))"

definition ex_client_post :: post where
  "ex_client_post =
     \<lparr>post_id = ''q2'', post_user = ''u2'', post_text = ''hey'', post_likes = [],
      post_comments =
        [\<lparr>c_id = ''c1'', c_user = ''u1'', c_text = ''nice'', c_name = ''Ann'', c_avatar = ''a''\<rparr>,
         \<lparr>c_id = ''c2'', c_user = ''u2'', c_text = ''thanks'', c_name = ''Bob'', c_avatar = ''b''\<rparr>]\<rparr>"

subsection \<open>What the forms render\<close>

text \<open>The controlled form of \<open>PostForm\<close> and \<open>CommentForm\<close>: its heading, the
  textarea's placeholder and value (the component's \<open>text\<close> state), and the submit
  button's label.\<close>

record form_view =
  fv_heading :: string
  fv_placeholder :: string
  fv_value :: string
  fv_submit :: string

definition post_form_view :: "client \<Rightarrow> form_view" where
  "post_form_view c = \<lparr>fv_heading = ''Say Something...'', fv_placeholder = ''Create a post'',
                       fv_value = cl_post_text c, fv_submit = ''Submit''\<rparr>"

definition comment_form_view :: "client \<Rightarrow> form_view" where
  "comment_form_view c = \<lparr>fv_heading = ''Leave a comment'', fv_placeholder = ''Create a post'',
                          fv_value = cl_comment_text c, fv_submit = ''Submit''\<rparr>"

subsection \<open>The connected components\<close>

text \<open>The slices of the root state the connected components read.\<close>

record root_state =
  st_auth :: auth_state
  st_post :: post_state
  st_profile :: "profile option"

text \<open>\<open>mapStateToProps\<close> of \<open>CommentItem\<close> (\<open>auth: state.auth\<close>) and of \<open>Post\<close>
  (\<open>post: state.post, profile: state.profile.profile\<close>).\<close>

definition comment_item_props :: "root_state \<Rightarrow> auth_state" where
  "comment_item_props st = st_auth st"

definition post_props :: "root_state \<Rightarrow> post_state \<times> profile option" where
  "post_props st = (st_post st, st_profile st)"

text \<open>The connected post page: \<open>Post\<close> reads its slice, and each \<open>CommentItem\<close> it
  renders reads \<open>auth\<close> from the same store.\<close>

definition connected_post_page :: "root_state \<Rightarrow> exn + page" where
  "connected_post_page st = post_page (comment_item_props st) (fst (post_props st))"

text \<open>The log is ordered when every \<open>REMOVE_ALERT\<close> comes after the \<open>SET_ALERT\<close> of
  the same alert (\<open>S\<close>: the alerts shown so far).\<close>

fun ordered_from :: "nat list \<Rightarrow> effect list \<Rightarrow> bool" where
  "ordered_from S [] = True"
| "ordered_from S (e # es) =
     ((case removed_id e of None \<Rightarrow> True | Some i \<Rightarrow> i \<in> set S) \<and> ordered_from (S @ sets [e]) es)"

text \<open>Every pending timer removes an alert already shown; no alert is removed twice
  (counting the removals still pending); the log is ordered; identifiers are
  below the supply.\<close>

definition alert_inv :: "client \<Rightarrow> bool" where
  "alert_inv c \<longleftrightarrow>
     list_all (\<lambda>x. removed_id (snd x) \<noteq> None) (cl_timers c) \<and>
     set (removes (map snd (cl_timers c))) \<subseteq> set (sets (cl_log c)) \<and>
     distinct (removes (cl_log c) @ removes (map snd (cl_timers c))) \<and>
     ordered_from [] (cl_log c) \<and>
     list_all (\<lambda>i. i < cl_uuid c) (sets (cl_log c))"

lemma removes_simps [simp]:
  "removes [] = []" "removes (e # es) = (case removed_id e of None \<Rightarrow> [] | Some i \<Rightarrow> [i]) @ removes es"
  "removes (xs @ ys) = removes xs @ removes ys"
proof -
  show a: "removes [] = []" "removes (e # es) = (case removed_id e of None \<Rightarrow> [] | Some i \<Rightarrow> [i]) @ removes es" for e es
    by (simp_all add: removes_def map_filter_simps split: option.split)
  show "removes (xs @ ys) = removes xs @ removes ys" by (induction xs) (simp_all add: a)
qed

lemma sets_simps [simp]:
  "sets [] = []" "sets (e # es) = (case set_id e of None \<Rightarrow> [] | Some i \<Rightarrow> [i]) @ sets es"
  "sets (xs @ ys) = sets xs @ sets ys"
proof -
  show a: "sets [] = []" "sets (e # es) = (case set_id e of None \<Rightarrow> [] | Some i \<Rightarrow> [i]) @ sets es" for e es
    by (simp_all add: sets_def map_filter_simps split: option.split)
  show "sets (xs @ ys) = sets xs @ sets ys" by (induction xs) (simp_all add: a)
qed

lemma ordered_from_append:
  "ordered_from S (xs @ ys) \<longleftrightarrow> ordered_from S xs \<and> ordered_from (S @ sets xs) ys"
  by (induction xs arbitrary: S) (simp_all split: option.split)

lemma ordered_from_mono: "ordered_from S es \<Longrightarrow> set S \<subseteq> set S' \<Longrightarrow> ordered_from S' es"
proof (induction es arbitrary: S S')
  case Nil then show ?case by simp
next
  case (Cons e es)
  from Cons.prems have "set (S @ sets [e]) \<subseteq> set (S' @ sets [e])" by auto
  with Cons show ?case by (auto split: option.splits)
qed

lemma ordered_from_removes: "set (removes es) \<subseteq> set S \<Longrightarrow> ordered_from S es"
proof (induction es arbitrary: S)
  case Nil then show ?case by simp
next
  case (Cons e es)
  have "set (removes es) \<subseteq> set (S @ sets [e])" using Cons.prems by (auto split: option.splits)
  then have "ordered_from (S @ sets [e]) es" by (rule Cons.IH)
  with Cons.prems show ?case by (auto split: option.splits)
qed

lemma mset_removes:
  "mset (removes es) = image_mset (the \<circ> removed_id) (filter_mset (\<lambda>e. removed_id e \<noteq> None) (mset es))"
  by (simp add: removes_def map_filter_def)

lemma mset_removes_due:
  "mset (removes (map snd (sort_key fst (filter P ts)))) + mset (removes (map snd (filter (\<lambda>x. \<not> P x) ts))) =
   mset (removes (map snd ts))"
proof -
  have "mset (removes (map snd (sort_key fst (filter P ts)))) = mset (removes (map snd (filter P ts)))"
    by (simp add: mset_removes)
  also have "\<dots> + mset (removes (map snd (filter (\<lambda>x. \<not> P x) ts))) = mset (removes (map snd ts))"
    by (induction ts) (simp_all split: option.split)
  finally show ?thesis .
qed

lemma ordered_from_removes_subset:
  "ordered_from S es \<Longrightarrow> set (removes es) \<subseteq> set S \<union> set (sets es)"
  by (induction es arbitrary: S) (fastforce split: option.splits)+

lemma alert_inv_set_alert: "alert_inv c \<Longrightarrow> alert_inv (set_alert m t tm c)"
proof -
  assume inv: "alert_inv c"
  let ?i = "cl_uuid c"
  have below: "\<forall>j\<in>set (sets (cl_log c)). j < ?i" using inv by (simp add: alert_inv_def list_all_iff)
  have "set (removes (cl_log c)) \<subseteq> set (sets (cl_log c))"
    using inv ordered_from_removes_subset[of "[]" "cl_log c"] by (simp add: alert_inv_def)
  moreover have "set (removes (map snd (cl_timers c))) \<subseteq> set (sets (cl_log c))"
    using inv by (simp add: alert_inv_def)
  ultimately have fresh: "?i \<notin> set (removes (cl_log c) @ removes (map snd (cl_timers c)))"
    using below by auto
  have "ordered_from ([] @ sets (cl_log c)) [Dispatch (SET_ALERT m t ?i), ScrollTo 0 0]"
    by (rule ordered_from_removes) simp
  with inv fresh below show ?thesis
    by (auto simp: alert_inv_def set_alert_def Let_def ordered_from_append list_all_iff)
qed

lemma sets_removes_only:
  "list_all (\<lambda>x. removed_id (snd x) \<noteq> None) ts \<Longrightarrow> sets (map snd (filter P ts)) = []"
proof (induction ts)
  case Nil then show ?case by simp
next
  case (Cons x ts)
  then obtain i where "snd x = Dispatch (REMOVE_ALERT i)"
    by (cases "snd x" rule: removed_id.cases) auto
  with Cons show ?case by simp
qed

lemma alert_inv_advance: "alert_inv c \<Longrightarrow> alert_inv (advance dt c)"
proof -
  assume inv: "alert_inv c"
  let ?t = "cl_now c + dt"
  let ?P = "\<lambda>x. fst x \<le> ?t"
  let ?due = "map snd (sort_key fst (filter ?P (cl_timers c)))"
  let ?rest = "map snd (filter (\<lambda>x. \<not> ?P x) (cl_timers c))"
  have m: "mset (removes ?due) + mset (removes ?rest) = mset (removes (map snd (cl_timers c)))"
    by (rule mset_removes_due)
  have "mset (removes (cl_log c) @ removes ?due @ removes ?rest) =
        mset (removes (cl_log c) @ removes (map snd (cl_timers c)))"
    using m by (simp only: mset_append add.assoc)
  then have "distinct (removes (cl_log c) @ removes ?due @ removes ?rest) =
             distinct (removes (cl_log c) @ removes (map snd (cl_timers c)))"
    by (rule mset_eq_imp_distinct_iff)
  with inv have dist: "distinct (removes (cl_log c) @ removes ?due @ removes ?rest)"
    unfolding alert_inv_def by blast
  have "set (removes ?due) \<union> set (removes ?rest) = set (removes (map snd (cl_timers c)))"
    using arg_cong[OF m, of set_mset] by (simp only: set_mset_union set_mset_mset)
  with inv have sub: "set (removes ?due) \<union> set (removes ?rest) \<subseteq> set (sets (cl_log c))"
    by (simp add: alert_inv_def)
  have ord: "ordered_from ([] @ sets (cl_log c)) ?due"
    by (rule ordered_from_removes) (use sub in auto)
  have sd: "sets ?due = []"
  proof -
    have "list_all (\<lambda>x. removed_id (snd x) \<noteq> None) (sort_key fst (filter ?P (cl_timers c)))"
      using inv by (simp add: alert_inv_def list_all_iff)
    from sets_removes_only[OF this, of "\<lambda>_. True"] show ?thesis by simp
  qed
  have log: "cl_log (advance dt c) = cl_log c @ ?due" and tm: "cl_timers (advance dt c) = filter (\<lambda>x. \<not> ?P x) (cl_timers c)"
    and u: "cl_uuid (advance dt c) = cl_uuid c"
    by (simp_all add: advance_def Let_def)
  show ?thesis unfolding alert_inv_def log tm u
  proof (intro conjI)
    show "list_all (\<lambda>x. removed_id (snd x) \<noteq> None) (filter (\<lambda>x. \<not> ?P x) (cl_timers c))"
      using inv by (simp add: alert_inv_def list_all_iff)
    show "set (removes (map snd (filter (\<lambda>x. \<not> ?P x) (cl_timers c)))) \<subseteq> set (sets (cl_log c @ ?due))"
      using sub by auto
    show "distinct (removes (cl_log c @ ?due) @ removes (map snd (filter (\<lambda>x. \<not> ?P x) (cl_timers c))))"
      using dist by simp
    show "ordered_from [] (cl_log c @ ?due)"
      using inv ord by (simp add: alert_inv_def ordered_from_append)
    show "list_all (\<lambda>i. i < cl_uuid c) (sets (cl_log c @ ?due))"
      using inv sd by (simp add: alert_inv_def)
  qed
qed

lemma alert_inv_texts [simp]:
  "alert_inv (c\<lparr>cl_post_text := p\<rparr>) = alert_inv c" "alert_inv (c\<lparr>cl_comment_text := p\<rparr>) = alert_inv c"
  by (simp_all add: alert_inv_def)

lemma alert_inv_append_other:
  "alert_inv c \<Longrightarrow> removed_id e = None \<Longrightarrow> set_id e = None \<Longrightarrow> alert_inv (c\<lparr>cl_log := cl_log c @ [e]\<rparr>)"
  by (simp add: alert_inv_def ordered_from_append)

lemma alert_inv_event: "alert_inv c \<Longrightarrow> alert_inv (client_event e c)"
  by (cases e) (simp_all add: alert_inv_set_alert alert_inv_advance post_form_submit_def
                               comment_form_submit_def alert_inv_append_other)

lemma client_reach_alert_inv: "client_reach c \<Longrightarrow> alert_inv c"
proof (induction rule: client_reach.induct)
  case init then show ?case by (simp add: alert_inv_def client_init_def)
next
  case (step c e) from step.IH show ?case by (rule alert_inv_event)
qed

lemma count_removes:
  "removed_id x = Some i \<Longrightarrow> i \<notin> set (removes xs) \<Longrightarrow> count_list xs x = 0"
  by (induction xs) (auto split: option.splits)

lemma count_due:
  "count_list (map snd (sort_key fst xs)) x = count_list (map snd xs) x"
  by (simp add: count_mset[symmetric] mset_map)

text \<open>C28. Whatever the user does (raising alerts, typing, submitting forms, waiting),
  no alert is removed twice and every \<open>REMOVE_ALERT\<close> is dispatched after the
  \<open>SET_ALERT\<close> of the same alert.\<close>

theorem alerts_removed_once_after_set:
  "client_reach c \<Longrightarrow> distinct (removes (cl_log c)) \<and> ordered_from [] (cl_log c)"
  using client_reach_alert_inv by (simp add: alert_inv_def)

theorem alerts_removed_once_after_set_witness:
  "distinct (removes (cl_log (client_event (Tick 5000) (client_event PostSubmit client_init)))) \<and>
   ordered_from [] (cl_log (client_event (Tick 5000) (client_event PostSubmit client_init)))"
  by (rule alerts_removed_once_after_set) (intro client_reach.step client_reach.init)

lemma set_removes_filter: "set (removes (map snd (filter P ts))) \<subseteq> set (removes (map snd ts))"
  by (induction ts) (auto split: option.splits)

lemma alert_inv_fresh:
  "alert_inv c \<Longrightarrow> cl_uuid c \<notin> set (removes (cl_log c)) \<union> set (removes (map snd (cl_timers c)))"
  using ordered_from_removes_subset[of "[]" "cl_log c"]
  by (fastforce simp: alert_inv_def list_all_iff)

text \<open>C29. An alert raised with \<open>setAlert(msg, alertType, timeout)\<close> is removed by exactly one
  \<open>REMOVE_ALERT\<close> once \<open>timeout\<close> milliseconds (5000 when left out) have passed, and
  not before.\<close>

theorem alert_removed_after_timeout:
  assumes "client_reach c"
  shows "count_list (cl_log (advance dt (set_alert msg alertType tm c))) (Dispatch (REMOVE_ALERT (cl_uuid c))) =
         (if alert_timeout tm \<le> dt then 1 else 0)"
proof -
  have fresh: "cl_uuid c \<notin> set (removes (cl_log c)) \<union> set (removes (map snd (cl_timers c)))"
    using client_reach_alert_inv[OF assms] by (rule alert_inv_fresh)
  have c_log: "count_list (cl_log c) (Dispatch (REMOVE_ALERT (cl_uuid c))) = 0"
    by (rule count_removes) (use fresh in auto)
  have c_tm: "count_list (map snd (filter P (cl_timers c))) (Dispatch (REMOVE_ALERT (cl_uuid c))) = 0" for P
    by (rule count_removes) (use fresh set_removes_filter in auto)
  show ?thesis by (simp add: advance_def set_alert_def Let_def count_due c_log c_tm)
qed

theorem alert_removed_after_timeout_witness:
  "count_list (cl_log (advance 5000 (set_alert ''Post cannot be empty'' ''danger'' None client_init)))
     (Dispatch (REMOVE_ALERT (cl_uuid client_init))) = 1"
  using alert_removed_after_timeout[OF client_reach.init, of 5000 "''Post cannot be empty''" "''danger''" None]
  by (simp add: alert_timeout_def)

text \<open>C30. The post and comment forms never call \<open>addPost\<close> or \<open>addComment\<close> with an
  empty text: an empty submission raises an alert instead.\<close>

theorem forms_never_submit_empty:
  "client_reach c \<Longrightarrow> AddPost [] \<notin> set (cl_log c) \<and> (\<forall>p. AddComment p [] \<notin> set (cl_log c))"
proof (induction rule: client_reach.induct)
  case init then show ?case by (simp add: client_init_def)
next
  case (step c e)
  have inv: "alert_inv c" using step.hyps by (rule client_reach_alert_inv)
  then have "\<forall>x\<in>set (cl_timers c). removed_id (snd x) \<noteq> None" by (simp add: alert_inv_def list_all_iff)
  then have timers: "AddPost [] \<notin> snd ` set (cl_timers c)" "\<forall>p. AddComment p [] \<notin> snd ` set (cl_timers c)"
    by force+
  show ?case using step.IH timers
    by (cases e) (auto simp: set_alert_def advance_def post_form_submit_def comment_form_submit_def Let_def)
qed

theorem forms_never_submit_empty_witness:
  "AddPost [] \<notin> set (cl_log (client_event PostSubmit (client_event (PostChange []) client_init))) \<and>
   (\<forall>p. AddComment p [] \<notin> set (cl_log (client_event PostSubmit (client_event (PostChange []) client_init))))"
  by (rule forms_never_submit_empty) (intro client_reach.step client_reach.init)

lemma js_split_single: "c \<notin> set s \<Longrightarrow> js_split c s = [s]"
  by (induction s) (auto simp: Let_def)

lemma post_page_loaded:
  "\<not> ps_loading ps \<Longrightarrow> ps_post ps = Some p \<Longrightarrow>
   post_page auth ps = map_sum id (PostPage (post_id p))
                         (render_all (map (comment_item auth (post_id p)) (post_comments p)))"
  by (simp add: post_page_def)

lemma render_all_Inr: "render_all (map (\<lambda>x. Inr (g x)) xs) = Inr (map g xs)"
  by (induction xs) simp_all

lemma comment_item_loaded:
  "\<not> a_loading auth \<Longrightarrow> a_user auth = Some u \<Longrightarrow>
   comment_item auth pid c =
     Inr (CItem (''/profile/'' @ c_user c) (c_avatar c) (c_name c) (c_text c)
            (if c_user c = u then Some (pid, c_id c) else None))"
  by (simp add: comment_item_def)

lemma delete_buttons:
  "List.map_filter citem_delete
     (map (\<lambda>c. CItem (f c) (c_avatar c) (c_name c) (c_text c)
                 (if c_user c = u then Some (pid, c_id c) else None)) cs) =
   map (\<lambda>c. (pid, c_id c)) (filter (\<lambda>c. c_user c = u) cs)"
  by (induction cs) (simp_all add: map_filter_simps)

text \<open>C31. On a loaded post page seen by a logged-in user, there is one comment item per
  comment, and the delete buttons are exactly those of the user's own comments, in
  order, each deleting that comment of this post.\<close>

theorem post_page_delete_buttons:
  assumes "\<not> ps_loading ps" "ps_post ps = Some p" "\<not> a_loading auth" "a_user auth = Some u"
  shows "\<exists>items. post_page auth ps = Inr (PostPage (post_id p) items) \<and>
           length items = length (post_comments p) \<and>
           List.map_filter citem_delete items =
             map (\<lambda>c. (post_id p, c_id c)) (filter (\<lambda>c. c_user c = u) (post_comments p))"
proof -
  let ?g = "\<lambda>c. CItem (''/profile/'' @ c_user c) (c_avatar c) (c_name c) (c_text c)
                 (if c_user c = u then Some (post_id p, c_id c) else None)"
  have m: "map (comment_item auth (post_id p)) (post_comments p) = map (\<lambda>c. Inr (?g c)) (post_comments p)"
    using assms(3,4) by (simp add: comment_item_loaded)
  have "post_page auth ps = Inr (PostPage (post_id p) (map ?g (post_comments p)))"
    unfolding post_page_loaded[OF assms(1,2)] m render_all_Inr by simp
  then show ?thesis by (simp add: delete_buttons)
qed

theorem post_page_delete_buttons_witness:
  "\<exists>items. post_page \<lparr>a_loading = False, a_user = Some ''u1''\<rparr>
                     \<lparr>ps_post = Some ex_client_post, ps_loading = False\<rparr> = Inr (PostPage ''q2'' items) \<and>
     length items = 2 \<and> List.map_filter citem_delete items = [(''q2'', ''c1'')]"
  using post_page_delete_buttons[of "\<lparr>ps_post = Some ex_client_post, ps_loading = False\<rparr>" ex_client_post
          "\<lparr>a_loading = False, a_user = Some ''u1''\<rparr>" "''u1''"]
  by (simp add: ex_client_post_def numeral_2_eq_2)

text \<open>C32. Once auth has loaded with no user, a post page with at least one comment
  does not render: \<open>auth.user._id\<close> throws in the first comment item. A post
  without comments renders.\<close>

theorem post_page_without_user:
  assumes "\<not> ps_loading ps" "ps_post ps = Some p" "\<not> a_loading auth" "a_user auth = None"
  shows "post_page auth ps =
           (if post_comments p = [] then Inr (PostPage (post_id p) [])
            else Inl (TypeError ''Cannot read property '_id' of null''))"
  using assms by (cases "post_comments p") (simp_all add: post_page_def comment_item_def)

theorem post_page_without_user_witness:
  "post_page \<lparr>a_loading = False, a_user = None\<rparr> \<lparr>ps_post = Some ex_client_post, ps_loading = False\<rparr> =
   Inl (TypeError ''Cannot read property '_id' of null'')"
  using post_page_without_user[of "\<lparr>ps_post = Some ex_client_post, ps_loading = False\<rparr>" ex_client_post
          "\<lparr>a_loading = False, a_user = None\<rparr>"]
  by (simp add: ex_client_post_def)

text \<open>The dashboard's links are relative: from \<open>/dashboard\<close> they lead to
  \<open>/profile/:id\<close>, \<open>/edit-profile\<close>, \<open>/add-experience\<close> and \<open>/add-education\<close>, but from
  \<open>/dashboard/\<close> (with a trailing slash) they lead below \<open>/dashboard/\<close>.\<close>

lemma dashboard_links_relative:
  assumes "CHR ''/'' \<notin> set i"
  shows "map (resolve_link ''/dashboard'') (dashboard_links i) =
           [''/profile/'' @ i, ''/edit-profile'', ''/add-experience'', ''/add-education''] \<and>
         map (resolve_link ''/dashboard/'') (dashboard_links i) =
           [''/dashboard/profile/'' @ i, ''/dashboard/edit-profile'', ''/dashboard/add-experience'',
            ''/dashboard/add-education'']"
  using assms by (simp add: resolve_link_def dashboard_links_def js_split_single)

lemma dashboard_links_relative_example:
  "map (resolve_link ''/dashboard'') (dashboard_links ''u1'') =
     [''/profile/u1'', ''/edit-profile'', ''/add-experience'', ''/add-education''] \<and>
   map (resolve_link ''/dashboard/'') (dashboard_links ''u1'') =
     [''/dashboard/profile/u1'', ''/dashboard/edit-profile'', ''/dashboard/add-experience'',
      ''/dashboard/add-education'']"
  using dashboard_links_relative[of "''u1''"] by simp

lemma sorted_split_key:
  "sorted (map f ys) \<Longrightarrow> ys = filter (\<lambda>x. f x \<le> t) ys @ filter (\<lambda>x. \<not> f x \<le> t) ys"
proof (induction ys)
  case Nil then show ?case by simp
next
  case (Cons y ys)
  show ?case
  proof (cases "f y \<le> t")
    case True with Cons show ?thesis by simp
  next
    case False
    with Cons.prems have "\<forall>x\<in>set ys. \<not> f x \<le> t" by auto
    with False show ?thesis by simp
  qed
qed

lemma sort_key_split:
  "sort_key f xs = sort_key f (filter (\<lambda>x. f x \<le> t) xs) @ sort_key f (filter (\<lambda>x. \<not> f x \<le> t) xs)"
  using sorted_split_key[OF sorted_sort_key[of f xs], of t] by (simp add: filter_sort)

text \<open>Letting time pass in one stretch or in two consecutive stretches of the same total
  length gives the same browser state: the timers that fall due in the first stretch
  fire first, in the order of their due times, then those of the second.\<close>

lemma advance_add: "advance (a + b) c = advance b (advance a c)"
proof -
  let ?t1 = "cl_now c + a" and ?t2 = "cl_now c + (a + b)" and ?T = "cl_timers c"
  have t: "cl_now c + a + b = ?t2" by simp
  have due: "filter (\<lambda>x. fst x \<le> ?t2) (filter (\<lambda>x. \<not> fst x \<le> ?t1) ?T) =
             filter (\<lambda>x. \<not> fst x \<le> ?t1) (filter (\<lambda>x. fst x \<le> ?t2) ?T)"
    by (simp add: filter_filter conj_commute)
  have first: "filter (\<lambda>x. fst x \<le> ?t1) (filter (\<lambda>x. fst x \<le> ?t2) ?T) = filter (\<lambda>x. fst x \<le> ?t1) ?T"
    by (simp add: filter_filter) (metis (no_types, lifting) le_add1 add.assoc le_trans)
  have rest: "filter (\<lambda>x. \<not> fst x \<le> ?t1 \<and> \<not> fst x \<le> ?t2) ?T = filter (\<lambda>x. \<not> fst x \<le> ?t2) ?T"
    by (rule filter_cong) auto
  have "sort_key fst (filter (\<lambda>x. fst x \<le> ?t2) ?T) =
        sort_key fst (filter (\<lambda>x. fst x \<le> ?t1) ?T) @
        sort_key fst (filter (\<lambda>x. fst x \<le> ?t2) (filter (\<lambda>x. \<not> fst x \<le> ?t1) ?T))"
    using sort_key_split[of fst "filter (\<lambda>x. fst x \<le> ?t2) ?T" ?t1] by (simp only: first due)
  then show ?thesis by (simp add: advance_def Let_def t rest)
qed

lemma post_form_view_submit:
  "fv_value (post_form_view (post_form_submit c)) = []"
  "fv_value (comment_form_view (comment_form_submit p c)) = []"
  by (simp_all add: post_form_view_def comment_form_view_def post_form_submit_def comment_form_submit_def
                    set_alert_def Let_def)

lemma form_view_change:
  "fv_value (post_form_view (client_event (PostChange s) c)) = s"
  "fv_value (comment_form_view (client_event (CommentChange s) c)) = s"
  by (simp_all add: post_form_view_def comment_form_view_def)

end
