(* ===== verification/PropTypes.thy ===== *)
theory PropTypes
  imports Client
begin

text \<open>
  The \<open>propTypes\<close> declarations of the client components and the check React runs
  on them when it creates an element (in development builds). Each declaration
  names a prop, its validator (\<open>PropTypes.func\<close>, \<open>object\<close>, \<open>number\<close>) and whether it
  is \<open>isRequired\<close>; a prop value is seen through its JavaScript type, which is all
  the validators look at. A failed check yields a message, which is printed once
  per page load (prop-types keeps the messages already logged). The elements of
  the post page are built from the store as the components' \<open>connect\<close> calls and
  \<open>Post\<close>'s JSX build them.
\<close>

datatype ptype = PFunc | PObject | PNumber

datatype pval = VFunc | VObject | VNumber | VString | VNull

type_synonym prop_decl = "string \<times> ptype \<times> bool"

type_synonym props = "(string \<times> pval) list"

fun type_name :: "pval \<Rightarrow> string" where
  "type_name VFunc = ''function''"
| "type_name VObject = ''object''"
| "type_name VNumber = ''number''"
| "type_name VString = ''string''"
| "type_name VNull = ''null''"

fun expected_name :: "ptype \<Rightarrow> string" where
  "expected_name PFunc = ''function''"
| "expected_name PObject = ''object''"
| "expected_name PNumber = ''number''"

fun validates :: "ptype \<Rightarrow> pval \<Rightarrow> bool" where
  "validates PFunc v = (v = VFunc)"
| "validates PObject v = (v = VObject)"
| "validates PNumber v = (v = VNumber)"

subsection \<open>The declarations\<close>

definition commentItem_propTypes :: "prop_decl list" where
  "commentItem_propTypes =
     [(''deleteComment'', PFunc, True), (''auth'', PObject, True), (''postId'', PNumber, True),
      (''comment'', PObject, True)]"

definition post_propTypes :: "prop_decl list" where
  "post_propTypes =
     [(''getPost'', PFunc, True), (''post'', PObject, True), (''profile'', PObject, True),
      (''getProfileById'', PFunc, True)]"

definition postForm_propTypes :: "prop_decl list" where
  "postForm_propTypes = [(''addPost'', PFunc, True)]"

definition commentForm_propTypes :: "prop_decl list" where
  "commentForm_propTypes = [(''addComment'', PFunc, True)]"

subsection \<open>The check\<close>

text \<open>One validator on the props (\<open>createChainableTypeChecker\<close> with a primitive
  type checker): a missing or \<open>null\<close> prop fails only when it is required; a present
  one fails when its type is not the expected one.\<close>

definition prop_error :: "string \<Rightarrow> props \<Rightarrow> prop_decl \<Rightarrow> string option" where
  "prop_error cname ps decl =
     (case decl of (name, ty, req) \<Rightarrow>
       (case map_of ps name of
          None \<Rightarrow> if req then Some (''The prop `'' @ name @ ''` is marked as required in `'' @ cname
                                    @ ''`, but its value is `undefined`.'') else None
        | Some VNull \<Rightarrow> if req then Some (''The prop `'' @ name @ ''` is marked as required in `'' @ cname
                                    @ ''`, but its value is `null`.'') else None
        | Some v \<Rightarrow> if validates ty v then None
                    else Some (''Invalid prop `'' @ name @ ''` of type `'' @ type_name v @ ''` supplied to `''
                               @ cname @ ''`, expected `'' @ expected_name ty @ ''`.'')))"

text \<open>A failed check prints its message unless the same message was printed before
  (\<open>loggedTypeFailures\<close>).\<close>

definition log_once :: "string option \<Rightarrow> string list \<Rightarrow> string list" where
  "log_once e logged =
     (case e of None \<Rightarrow> logged | Some m \<Rightarrow> if m \<in> set logged then logged else logged @ [m])"

text \<open>\<open>checkPropTypes\<close>: the declarations in order.\<close>

fun check_prop_types :: "string \<Rightarrow> prop_decl list \<Rightarrow> props \<Rightarrow> string list \<Rightarrow> string list" where
  "check_prop_types cname [] ps logged = logged"
| "check_prop_types cname (d # ds) ps logged = check_prop_types cname ds ps (log_once (prop_error cname ps d) logged)"

subsection \<open>The elements of the post page\<close>

text \<open>The props \<open>Post\<close> receives: \<open>match\<close> from the route, \<open>post\<close> and \<open>profile\<close>
  from \<open>mapStateToProps\<close> (\<open>state.profile.profile\<close> is \<open>null\<close> until a profile is
  loaded), the two bound action creators.\<close>

definition post_element :: "root_state \<Rightarrow> props" where
  "post_element st =
     [(''match'', VObject), (''post'', VObject),
      (''profile'', case st_profile st of None \<Rightarrow> VNull | Some _ \<Rightarrow> VObject),
      (''getPost'', VFunc), (''getProfileById'', VFunc)]"

text \<open>\<open><CommentForm postId={post._id} />\<close>, with \<open>addComment\<close> and \<open>setAlert\<close> bound by
  \<open>connect\<close>; post identifiers are strings.\<close>

definition comment_form_element :: props where
  "comment_form_element = [(''postId'', VString), (''addComment'', VFunc), (''setAlert'', VFunc)]"

text \<open>\<open><CommentItem comment={comment} postId={post._id} />\<close>, merged by \<open>connect\<close> with
  \<open>auth\<close> from the state and the bound \<open>deleteComment\<close>.\<close>

definition comment_item_element :: props where
  "comment_item_element =
     [(''comment'', VObject), (''postId'', VString), (''auth'', VObject), (''deleteComment'', VFunc)]"

definition post_form_element :: props where
  "post_form_element = [(''addPost'', VFunc), (''setAlert'', VFunc)]"

text \<open>The checks of one render of the post page: \<open>Post\<close> itself, then, once a post
  is loaded, the comment form and one comment item per comment, in the order the
  JSX creates them.\<close>

definition post_page_checks :: "root_state \<Rightarrow> string list \<Rightarrow> string list" where
  "post_page_checks st logged =
     (let l1 = check_prop_types ''Post'' post_propTypes (post_element st) logged
      in if ps_loading (st_post st) then l1
         else (case ps_post (st_post st) of
                 None \<Rightarrow> l1
               | Some p \<Rightarrow>
                   fold (\<lambda>c l. check_prop_types ''CommentItem'' commentItem_propTypes comment_item_element l)
                     (post_comments p)
                     (check_prop_types ''CommentForm'' commentForm_propTypes comment_form_element l1)))"

subsection \<open>The log of a check\<close>

lemma log_once_mono: "set l \<subseteq> set (log_once e l)"
  by (cases e) (auto simp: log_once_def)

lemma log_once_logs: "e = Some m \<Longrightarrow> m \<in> set (log_once e l)"
  by (auto simp: log_once_def)

lemma log_once_known: "(\<forall>m. e = Some m \<longrightarrow> m \<in> set l) \<Longrightarrow> log_once e l = l"
  by (cases e) (auto simp: log_once_def)

lemma check_prop_types_mono: "set l \<subseteq> set (check_prop_types c ds ps l)"
  by (induction ds arbitrary: l) (simp, metis check_prop_types.simps(2) log_once_mono order_trans)

lemma check_prop_types_logs:
  "d \<in> set ds \<Longrightarrow> prop_error c ps d = Some m \<Longrightarrow> m \<in> set (check_prop_types c ds ps l)"
proof (induction ds arbitrary: l)
  case (Cons d' ds)
  show ?case
  proof (cases "d' = d")
    case True
    then show ?thesis
      using Cons.prems log_once_logs[of "prop_error c ps d'" m l]
            check_prop_types_mono[of "log_once (prop_error c ps d') l" c ds ps] by auto
  next
    case False
    then show ?thesis using Cons by simp
  qed
qed simp

lemma check_prop_types_known:
  "\<forall>d\<in>set ds. \<forall>m. prop_error c ps d = Some m \<longrightarrow> m \<in> set l \<Longrightarrow> check_prop_types c ds ps l = l"
  by (induction ds) (simp_all add: log_once_known)

text \<open>Running a check again on a log that holds its messages prints nothing.\<close>

lemma check_prop_types_again:
  "set (check_prop_types c ds ps l) \<subseteq> set l' \<Longrightarrow> check_prop_types c ds ps l' = l'"
  by (rule check_prop_types_known) (use check_prop_types_logs in blast)

lemma fold_check_again:
  "set (check_prop_types c ds ps l) \<subseteq> set l' \<Longrightarrow> fold (\<lambda>x. check_prop_types c ds ps) xs l' = l'"
  by (induction xs) (simp_all add: check_prop_types_again)

lemma fold_check_mono: "set l \<subseteq> set (fold (\<lambda>x. check_prop_types c ds ps) xs l)"
  by (induction xs arbitrary: l) (simp, metis fold_simps(2) check_prop_types_mono order_trans)

lemma fold_check_Cons:
  "fold (\<lambda>x. check_prop_types c ds ps) (x # xs) l = check_prop_types c ds ps l"
  using fold_check_again[of c ds ps l "check_prop_types c ds ps l" xs] by simp

text \<open>The two forms receive every prop they declare: their checks print nothing.\<close>

lemma forms_prop_types_pass:
  "check_prop_types ''PostForm'' postForm_propTypes post_form_element l = l"
  "check_prop_types ''CommentForm'' commentForm_propTypes comment_form_element l = l"
  by (simp_all add: postForm_propTypes_def post_form_element_def commentForm_propTypes_def
                    comment_form_element_def prop_error_def log_once_def)

subsection \<open>The post page\<close>

text \<open>A render of the post page on the log of an earlier render of the same state
  prints nothing.\<close>

lemma post_page_checks_again:
  "post_page_checks st (post_page_checks st l) = post_page_checks st l"
proof (cases "\<not> ps_loading (st_post st) \<and> ps_post (st_post st) \<noteq> None")
  case True
  then obtain p where p: "\<not> ps_loading (st_post st)" "ps_post (st_post st) = Some p" by auto
  let ?P = "check_prop_types ''Post'' post_propTypes (post_element st)"
  let ?F = "check_prop_types ''CommentForm'' commentForm_propTypes comment_form_element"
  let ?I = "check_prop_types ''CommentItem'' commentItem_propTypes comment_item_element"
  let ?L = "fold (\<lambda>c. ?I) (post_comments p) (?F (?P l))"
  have L2: "set (?F (?P l)) \<subseteq> set ?L" by (rule fold_check_mono)
  then have L1: "set (?P l) \<subseteq> set ?L" using check_prop_types_mono by blast
  have I: "fold (\<lambda>c. ?I) (post_comments p) ?L = ?L"
  proof (cases "post_comments p")
    case (Cons c cs)
    then have L: "?L = ?I (?F (?P l))" by (simp only: fold_check_Cons)
    show ?thesis
      by (rule fold_check_again[of _ _ _ "?F (?P l)"]) (simp only: L order_refl)
  qed simp
  show ?thesis
    using p I check_prop_types_again[OF L1] check_prop_types_again[OF L2]
    by (simp add: post_page_checks_def Let_def)
next
  case False
  then have "post_page_checks st l' = check_prop_types ''Post'' post_propTypes (post_element st) l'" for l'
    by (auto simp: post_page_checks_def Let_def)
  then show ?thesis by (simp add: check_prop_types_again[OF order_refl])
qed

text \<open>C21. On a loaded post page with at least one comment, the first render prints
  exactly one prop-type warning for the comment items, whatever their number: the
  \<open>postId\<close> they receive is the post's identifier, a string, where \<open>CommentItem\<close>
  declares a number; before that, \<open>Post\<close> warns that its required \<open>profile\<close> is
  \<open>null\<close> when no profile is loaded. Rendering again prints nothing new.\<close>

theorem post_page_prop_types_warnings:
  assumes "\<not> ps_loading (st_post st)" and "ps_post (st_post st) = Some p" and "post_comments p \<noteq> []"
  shows "post_page_checks st [] =
           (if st_profile st = None
            then [''The prop `profile` is marked as required in `Post`, but its value is `null`.''] else []) @
           [''Invalid prop `postId` of type `string` supplied to `CommentItem`, expected `number`.''] \<and>
         post_page_checks st (post_page_checks st []) = post_page_checks st []"
proof -
  obtain c cs where cs: "post_comments p = c # cs" using assms(3) by (cases "post_comments p") auto
  have "post_page_checks st [] =
          check_prop_types ''CommentItem'' commentItem_propTypes comment_item_element
            (check_prop_types ''CommentForm'' commentForm_propTypes comment_form_element
              (check_prop_types ''Post'' post_propTypes (post_element st) []))"
    using assms(1,2) cs by (simp add: post_page_checks_def Let_def fold_check_Cons del: fold_Cons fold_simps)
  moreover have "check_prop_types ''Post'' post_propTypes (post_element st) [] =
          (if st_profile st = None
           then [''The prop `profile` is marked as required in `Post`, but its value is `null`.''] else [])"
    by (cases "st_profile st") (simp_all add: post_propTypes_def post_element_def prop_error_def log_once_def)
  ultimately have "post_page_checks st [] =
           (if st_profile st = None
            then [''The prop `profile` is marked as required in `Post`, but its value is `null`.''] else []) @
           [''Invalid prop `postId` of type `string` supplied to `CommentItem`, expected `number`.'']"
    by (simp add: commentForm_propTypes_def comment_form_element_def
                  commentItem_propTypes_def comment_item_element_def prop_error_def log_once_def)
  then show ?thesis using post_page_checks_again[of st "[]"] by (rule conjI)
qed

theorem post_page_prop_types_warnings_witness:
  "post_page_checks
     \<lparr>st_auth = \<lparr>a_loading = False, a_user = Some ''u1''\<rparr>,
      st_post = \<lparr>ps_post = Some ex_client_post, ps_loading = False\<rparr>, st_profile = None\<rparr> [] =
     [''The prop `profile` is marked as required in `Post`, but its value is `null`.'',
      ''Invalid prop `postId` of type `string` supplied to `CommentItem`, expected `number`.''] \<and>
   post_page_checks
     \<lparr>st_auth = \<lparr>a_loading = False, a_user = Some ''u1''\<rparr>,
      st_post = \<lparr>ps_post = Some ex_client_post, ps_loading = False\<rparr>, st_profile = None\<rparr>
     (post_page_checks
        \<lparr>st_auth = \<lparr>a_loading = False, a_user = Some ''u1''\<rparr>,
         st_post = \<lparr>ps_post = Some ex_client_post, ps_loading = False\<rparr>, st_profile = None\<rparr> []) =
     post_page_checks
       \<lparr>st_auth = \<lparr>a_loading = False, a_user = Some ''u1''\<rparr>,
        st_post = \<lparr>ps_post = Some ex_client_post, ps_loading = False\<rparr>, st_profile = None\<rparr> []"
proof -
  have "post_comments ex_client_post \<noteq> []" by (simp add: ex_client_post_def)
  then show ?thesis
    by (rule post_page_prop_types_warnings[of
          "\<lparr>st_auth = \<lparr>a_loading = False, a_user = Some ''u1''\<rparr>,
            st_post = \<lparr>ps_post = Some ex_client_post, ps_loading = False\<rparr>, st_profile = None\<rparr>"
          ex_client_post, simplified])
qed

end
