(* ===== verification/ReduxStore.thy ===== *)
theory ReduxStore
  imports Client
begin

text \<open>
  The Redux store of \<open>src/client/src/store.js\<close>: \<open>applyMiddleware\<close> interpreted for
  any list of the two middlewares the file uses, the list \<open>[thunk, reduxLogger]\<close>
  of line 9, and the equivalence of the store it builds with folding the reducer
  over the plain actions (C36).
\<close>

text \<open>What is dispatched is a plain action or a thunk, which dispatches further
  actions or thunks through the store's \<open>dispatch\<close> (the thunks of \<open>actions/alert.js\<close>
  dispatch a fixed sequence; their delays are the business of \<open>Client\<close>). The root
  reducer is not part of the sources and is a parameter \<open>red\<close>.\<close>

datatype dispatchable = Plain action | Thunk "dispatchable list"

datatype middleware = ThunkMW | LoggerMW

text \<open>\<open>const middleware = [thunk, reduxLogger]\<close>. \<open>composeWithDevTools\<close> adds no
  middleware (it only connects the browser extension, when there is one).\<close>

definition store_middlewares :: "middleware list" where
  "store_middlewares = [ThunkMW, LoggerMW]"

text \<open>The base \<open>dispatch\<close> of \<open>createStore\<close> throws on anything but a plain object.\<close>

datatype store_error = ActionsMustBePlainObjects

type_synonym 's log = "('s \<times> dispatchable \<times> 's) list"

text \<open>\<open>applyMiddleware(...chain)\<close>: \<open>run_chain red chain ms x\<close> passes \<open>x\<close> to the
  remaining middlewares \<open>ms\<close>, each calling \<open>next\<close> (the rest of the list) or, for a
  thunk, \<open>thunk\<close> calling it with the store's own \<open>dispatch\<close> (the whole \<open>chain\<close> again);
  \<open>reduxLogger\<close> records the state before, the action and the state after \<open>next\<close>
  returned; past the last middleware comes the reducer.\<close>

function run_chain :: "('s \<Rightarrow> action \<Rightarrow> 's) \<Rightarrow> middleware list \<Rightarrow> middleware list \<Rightarrow> dispatchable \<Rightarrow>
    's \<times> 's log \<Rightarrow> store_error + 's \<times> 's log"
and run_all :: "('s \<Rightarrow> action \<Rightarrow> 's) \<Rightarrow> middleware list \<Rightarrow> dispatchable list \<Rightarrow>
    's \<times> 's log \<Rightarrow> store_error + 's \<times> 's log" where
  "run_chain red chain [] (Plain a) (s, L) = Inr (red s a, L)"
| "run_chain red chain [] (Thunk ds) st = Inl ActionsMustBePlainObjects"
| "run_chain red chain (ThunkMW # ms) (Thunk ds) st = run_all red chain ds st"
| "run_chain red chain (ThunkMW # ms) (Plain a) st = run_chain red chain ms (Plain a) st"
| "run_chain red chain (LoggerMW # ms) x (s, L) =
     (case run_chain red chain ms x (s, L) of
        Inl e \<Rightarrow> Inl e
      | Inr (s', L') \<Rightarrow> Inr (s', L' @ [(s, x, s')]))"
| "run_all red chain [] st = Inr st"
| "run_all red chain (x # xs) st =
     (case run_chain red chain chain x st of Inl e \<Rightarrow> Inl e | Inr st' \<Rightarrow> run_all red chain xs st')"
  by pat_completeness auto
termination
  by (relation "measures
        [\<lambda>a. case a of Inl (_, _, _, x, _) \<Rightarrow> size x | Inr (_, _, xs, _) \<Rightarrow> size_list size xs,
         \<lambda>a. case a of Inl (_, _, ms, _, _) \<Rightarrow> Suc (length ms) | Inr _ \<Rightarrow> 0]") auto

definition store_dispatch ::
  "('s \<Rightarrow> action \<Rightarrow> 's) \<Rightarrow> dispatchable \<Rightarrow> 's \<times> 's log \<Rightarrow> store_error + 's \<times> 's log" where
  "store_dispatch red x st = run_chain red store_middlewares store_middlewares x st"

subsection \<open>The reference semantics\<close>

fun plain_actions :: "dispatchable \<Rightarrow> action list"
and plain_actions_list :: "dispatchable list \<Rightarrow> action list" where
  "plain_actions (Plain a) = [a]"
| "plain_actions (Thunk ds) = plain_actions_list ds"
| "plain_actions_list [] = []"
| "plain_actions_list (x # xs) = plain_actions x @ plain_actions_list xs"

text \<open>What the logger records for a sequence of plain actions reaching the reducer.\<close>

fun run_log :: "('s \<Rightarrow> action \<Rightarrow> 's) \<Rightarrow> 's \<Rightarrow> action list \<Rightarrow> 's log" where
  "run_log red s [] = []"
| "run_log red s (a # as) = (s, Plain a, red s a) # run_log red (red s a) as"

lemma run_log_append:
  "run_log red s (as @ bs) = run_log red s as @ run_log red (fold (\<lambda>a s. red s a) as s) bs"
  by (induction as arbitrary: s) simp_all

lemma run_log_actions: "map (fst \<circ> snd) (run_log red s as) = map Plain as"
  by (induction as arbitrary: s) simp_all

lemma store_dispatch_plain:
  "store_dispatch red (Plain a) (s, L) = Inr (red s a, L @ [(s, Plain a, red s a)])"
  by (simp add: store_dispatch_def store_middlewares_def)

text \<open>Dispatching through the store: the logger sees exactly the plain actions, in the
  order the thunks dispatch them, and the state is the reducer folded over them.\<close>

lemma store_run_all:
  assumes "\<And>x st. x \<in> set xs \<Longrightarrow>
             store_dispatch red x st =
             Inr (fold (\<lambda>a s. red s a) (plain_actions x) (fst st), snd st @ run_log red (fst st) (plain_actions x))"
  shows "run_all red store_middlewares xs st =
           Inr (fold (\<lambda>a s. red s a) (plain_actions_list xs) (fst st),
                snd st @ run_log red (fst st) (plain_actions_list xs))"
  using assms
  by (induction xs arbitrary: st) (simp_all add: store_dispatch_def run_log_append)

lemma store_dispatch_spec:
  "store_dispatch red x st =
     Inr (fold (\<lambda>a s. red s a) (plain_actions x) (fst st), snd st @ run_log red (fst st) (plain_actions x))"
proof (induction x arbitrary: st)
  case (Plain a)
  then show ?case by (cases st) (simp add: store_dispatch_plain)
next
  case (Thunk ds)
  have "store_dispatch red (Thunk ds) st = run_all red store_middlewares ds st"
    by (simp add: store_dispatch_def store_middlewares_def)
  also have "\<dots> = Inr (fold (\<lambda>a s. red s a) (plain_actions_list ds) (fst st),
                        snd st @ run_log red (fst st) (plain_actions_list ds))"
    by (rule store_run_all) (rule Thunk.IH)
  finally show ?case by simp
qed

text \<open>C36. The store of \<open>store.js\<close>, with its middleware list \<open>[thunk, reduxLogger]\<close>, is
  equivalent to its reference semantics: dispatching an action or a thunk never
  throws, leaves the state the reducer folded over the plain actions the thunks
  dispatch, in order, and the logger records exactly those actions, each with the
  state before and after it; no thunk reaches the logger or the reducer.\<close>

theorem store_dispatch_equiv:
  "store_dispatch red x (s, L) =
     Inr (fold (\<lambda>a s. red s a) (plain_actions x) s, L @ run_log red s (plain_actions x))"
  using store_dispatch_spec[of red x "(s, L)"] by simp

end
