(* ===== verification/Server.thy ===== *)
theory Server
  imports Prelude
begin

text \<open>
  The server bootstrap \<open>src/server.js\<close>: an Express application on which nothing
  is registered (no body parser, no router), listening on \<open>process.env.PORT || 5000\<close>
  and logging the outcome. Environment values are strings; the empty string is
  falsy, so it selects the default port. A request to an application without
  routes reaches Express's final handler, which answers 404 with
  \<open>Cannot METHOD path\<close>.
\<close>

definition server_port :: "string option \<Rightarrow> string" where
  "server_port env = (case env of None \<Rightarrow> ''5000'' | Some p \<Rightarrow> if p = [] then ''5000'' else p)"

text \<open>The callback of \<open>app.listen\<close>: \<open>err\<close> truthy or not.\<close>

definition listen_log :: "string option \<Rightarrow> bool \<Rightarrow> string" where
  "listen_log env err = (if err then ''ERROR'' else ''Server running on port '' @ server_port env @ ''...'')"

record http_request =
  hr_method :: string
  hr_path :: string

text \<open>The application's routing table as \<open>server.js\<close> builds it: empty.\<close>

definition app_routes :: "(string \<times> string) list" where
  "app_routes = []"

definition app_handle :: "http_request \<Rightarrow> nat \<times> string" where
  "app_handle rq =
     (if (hr_method rq, hr_path rq) \<in> set app_routes then (200, [])
      else (404, ''Cannot '' @ hr_method rq @ '' '' @ hr_path rq))"

lemma server_port_default: "server_port None = ''5000''" "server_port (Some []) = ''5000''"
  by (simp_all add: server_port_def)

lemma listen_log_port:
  "p \<noteq> [] \<Longrightarrow> listen_log (Some p) False = ''Server running on port '' @ p @ ''...''"
  by (simp add: listen_log_def server_port_def)

text \<open>No request reaches the profile router: \<open>server.js\<close> never mounts it, so every
  request, \<open>/api/profile/me\<close> included, is answered 404.\<close>

lemma app_handle_not_found: "app_handle rq = (404, ''Cannot '' @ hr_method rq @ '' '' @ hr_path rq)"
  by (simp add: app_handle_def app_routes_def)

end
