(* ===== verification/Spec2Isabelle.thy ===== *)
theory Spec2Isabelle
  imports ProfileApiProps Interleavings ConcurrentIds Router PropTypes ReduxStore Server
begin

text \<open>
  \<^bold>\<open>A verification development of DEVCONNECTOR.\<close>

  The repository holds an Express router for the profile REST resource
  (\<open>src/routes/api/profile.js\<close>), a server bootstrap (\<open>src/server.js\<close>) and part
  of a React/Redux client (\<open>src/client/src\<close>). The router's handlers validate the
  request body (express-validator), read and write three MongoDB collections
  through Mongoose (User, Profile, Post; the model files are not part of the
  sources), and answer with \<open>res.status(..).json(..)\<close>; one route calls the
  GitHub API. The client raises timed alerts, submits posts and comments, and
  renders a post page with its comments. The development is a shallow embedding:
  each handler, component and helper is an executable HOL function, and the
  theorems are about those functions.

  \<^bold>\<open>Theories and what they model.\<close>

  \<^item> \<open>Prelude\<close>: the named collections (\<open>js_simps\<close>, \<open>store_simps\<close>,
    \<open>handler_defs\<close>), object identifiers as strings, and list facts shared by
    the components (first-match update and delete, positional removal).
  \<^item> \<open>JsCore\<close>: JavaScript values and truthiness, the exceptions the code can
    raise, the exception-state monad in which handlers run (effects before a
    throw persist; \<open>js_catch\<close> is \<open>try/catch\<close>), and the built-ins the handlers
    call: \<open>split\<close>, \<open>join\<close>, \<open>trim\<close>, \<open>indexOf\<close>, \<open>splice(i, 1)\<close> (with the
    negative start of ECMAScript), \<open>unshift\<close>. Lemmas: monad laws, split/join
    round trips, idempotence of trim, \<open>splice(indexOf x)\<close> as \<open>remove1\<close>.
  \<^item> \<open>ObjectId\<close>: 24-digit hexadecimal identifiers, the generator
    \<open>oid_of_nat\<close> (injective, proved by the round trip through \<open>hex_acc\<close>), and the
    Mongoose cast \<open>cast_oid\<close> of a path parameter (24 hex digits or 12 characters,
    else a \<open>CastError\<close>).
  \<^item> \<open>Store\<close>: the documents and the database record \<open>db\<close> (the three
    collections in natural order, the identifier counter, an availability flag
    whose failure makes every query throw), and the Mongoose calls the routes
    make: \<open>findOne\<close>, \<open>find\<close>, \<open>populate\<close>, \<open>findOneAndUpdate\<close> with \<open>$set\<close>,
    \<open>new Profile().save()\<close>, the versioned \<open>doc.save()\<close> after an array change
    (guarded by \<open>__v\<close>, \<open>VersionError\<close> otherwise), \<open>deleteMany\<close>,
    \<open>findOneAndDelete\<close>. These follow Mongoose 5 and the spec's data model; they
    are marked spec-modelled in the manifest.
  \<^item> \<open>Validation\<close>: \<open>check(field, msg).not().isEmpty()\<close> on the body and
    \<open>validationResult\<close>.
  \<^item> \<open>Http\<close>: the response under construction, \<open>res.status\<close>, \<open>res.json\<close> (a second
    one throws the headers-sent error), the bridge \<open>run_query\<close> from store calls
    to handlers, and \<open>serve\<close>: what one request leaves behind (database, response
    sent, exception escaped; an escaped exception means no answer).
  \<^item> \<open>ProfileApi\<close>: one definition per route of \<open>profile.js\<close>, the whole handler
    with its guards, early returns, store calls and catch block (\<open>get_me\<close>,
    \<open>post_profile\<close> with \<open>post_profile_cont\<close> and \<open>post_profile_catch\<close>,
    \<open>get_profiles\<close>, \<open>get_profile_by_user\<close>, \<open>delete_profile\<close>,
    \<open>put_experience\<close>, \<open>delete_experience\<close>, \<open>put_education\<close>,
    \<open>delete_education\<close>). The lemmas \<open>serve_*\<close> give the outcome of every path
    through every handler; the claims C1 to C16 and C37, in \<open>ProfileApiProps\<close>,
    follow from them (C16 the whole behaviour of \<open>GET /me\<close>, C37 the two education
    routes, which act on the education array as their experience twins do).
  \<^item> \<open>Api\<close>: the route table with the \<open>auth\<close> middleware (spec-modelled: a token
    yields the user id or a 401 answer), and the database invariant \<open>wf_db\<close> (at
    most one profile per user, distinct identifiers, all issued by the
    generator). The inductive relation \<open>req_effect\<close> lists what one request can
    do to the database, one rule per kind of path; \<open>route_req_effect\<close> proves every
    route on every branch is one of them, and the invariants follow by rule
    induction: well-formedness (C18), well-typed stored skills (C39), at most one
    identifier drawn and one profile added or removed per request (C38); C40
    that adding an experience entry and deleting it again restores the list.
  \<^item> \<open>Router\<close>: the whole router, the nine routes of \<open>Api.route\<close> and the public
    \<open>GET /github/:username\<close> of \<open>GithubAdapter\<close> (\<open>api_route\<close>, with the
    configuration, \<open>JSON.parse\<close> and the network as the record \<open>github_env\<close>).
    C19: without a token only the two public routes, \<open>GET /\<close> and the GitHub
    route, are served, and as for any authenticated user; the others answer 401.
  \<^item> \<open>Concurrency\<close>, \<open>Interleavings\<close>, \<open>ConcurrentIds\<close>: requests in flight
    together; the first holds the model, the second the concrete
    interleavings (C20, C22, C23, C33 to C35), the third the invariant C17. The handlers that read a profile
    and then write it are split at \<open>await Profile.findOne\<close> into a read step and
    a resumption step (\<open>await_split\<close>, \<open>start\<close>, \<open>thread_step\<close>); \<open>DELETE /\<close>,
    which awaits three deletions in turn, is a chain of three steps
    (\<open>await_chain\<close>, \<open>chain_step\<close>), and the read routes, which await one
    query, are one step. A schedule is a list of thread indices run by
    \<open>run_sched\<close>. The lemma \<open>serial_execution_refines_sequential\<close> shows the
    split faithful: any schedule that runs each request without interruption
    equals serving the requests one after the other (\<open>serve_seq\<close>); the lemma
    \<open>every_request_finishes\<close> that a thread is done once it has had as many steps
    as it has awaits left (the variant \<open>stage\<close>). C23: experience additions of two
    different users, interleaved at their awaits, give the same database and
    answers as run one after the other (the save is keyed by the profile's id and
    version, and writes one array of its own profile). C20 and C22 are interleavings:
    two concurrent experience additions (the second save meets a newer \<open>__v\<close>
    and gets a 500; serialised, both are kept), two concurrent first profile
    writes (two profiles for one user); C34 and C35 interleave an
    experience addition with a profile update (both kept) and with the account
    deletion (the profile stays deleted); C33 interleaves the account deletion
    with a first profile creation, which leaves a profile whose user is gone. C17: under any interleaving, identifiers stay
    distinct and issued by the generator (\<open>ids_wf\<close>, the part of \<open>wf_db\<close> that
    concurrency keeps): each step's effect is one of \<open>step_effect\<close>, and the
    invariant \<open>thread_ok\<close> of the suspended requests records that a document read
    before was well formed then.
  \<^item> \<open>GithubAdapter\<close>: \<open>GET /github/:username\<close>, with the configuration, the
    network outcome and \<open>JSON.parse\<close> as parameters; the synchronous part and the
    callback are separate definitions, since an exception in the callback
    escapes the route's \<open>try\<close> (C24 to C26). The request actually sent is the
    URI read back by the URL parser (\<open>uri_split\<close>, \<open>parse_query\<close>,
    \<open>upstream_request\<close>; the parser's percent-escaping and the query's decoding
    are the identity on the strings of \<open>url_plain\<close>, to which the round trip
    is restricted): C27 proves the round trip for such usernames without
    \<open>?\<close> and \<open>#\<close> and such credentials without \<open>&\<close> and \<open>#\<close>, and a lemma shows that a \<open>#\<close> in the (decoded, unencoded)
    username drops the credentials from the request.
  \<^item> \<open>Client\<close>: a browser record (clock, pending timers, form texts, the log of
    dispatches and action-creator calls), \<open>setAlert\<close> with its \<open>setTimeout\<close>, the
    submit handlers of the two forms, the reachable states as an inductive
    predicate over browser events (C28 to C30, by rule induction and from the
    invariant \<open>alert_inv\<close>, with multisets for the timers that fall due), the
    rendering of the post page and its comment items (C31, C32), and the
    dashboard links with the router's resolution of relative targets.
    The lemma \<open>advance_add\<close> shows that letting time pass in two stretches equals
    one stretch of the total length (stable sorting by due time splits at the
    first stretch's end). The same theory models what the forms render, the
    \<open>mapStateToProps\<close> wiring of \<open>Post\<close> and \<open>CommentItem\<close>; \<open>ReduxStore\<close> models \<open>store.js\<close>:
    \<open>applyMiddleware\<close> for any list of its two middlewares (\<open>run_chain\<close>, a
    mutual recursion terminating by the size of what is dispatched, then the
    middlewares left), applied to the file's list \<open>[thunk, reduxLogger]\<close>
    (\<open>store_middlewares\<close>). C36 proves that store equivalent to folding the
    reducer over the plain actions, with the logger recording exactly those: with
    \<open>thunk\<close> first, no thunk reaches the logger or the base \<open>dispatch\<close>.
  \<^item> \<open>PropTypes\<close>: the \<open>propTypes\<close> declarations of \<open>CommentItem\<close>, \<open>Post\<close>,
    \<open>PostForm\<close> and \<open>CommentForm\<close>, the props their elements receive (from the
    parent's JSX and from \<open>connect\<close>), and the check React runs when it creates an
    element: a failed validator yields a message, printed once per page load
    (\<open>check_prop_types\<close>, \<open>log_once\<close>). C21: the post page prints the \<open>postId\<close>
    warning of the comment items once, and the \<open>profile\<close> warning of \<open>Post\<close>
    while no profile is loaded; a second render prints nothing.
  \<^item> \<open>Server\<close>: \<open>src/server.js\<close>, the port chosen from the environment, the
    message logged, and the application, on which no route is registered: every
    request is answered 404, the profile router included.

  \<^bold>\<open>Bounds and fuel.\<close> No definition needs fuel: every loop of the code is a
  structural recursion over a list (\<open>split\<close>, \<open>indexOf\<close>, the first-match
  updates, \<open>render_all\<close>), \<open>hex_pad\<close> terminates by a measure, \<open>run_chain\<close> and
  \<open>run_all\<close> by the lexicographic measure (size of what is dispatched, middlewares
  left), and schedules are finite lists. Numbers in request bodies are modelled by integers, time by
  natural milliseconds.

  \<^bold>\<open>Not modelled.\<close> The socket behind \<open>app.listen\<close>, the Redux DevTools
  enhancer of \<open>store.js\<close> (it only observes), and the root reducer, which is not
  in the sources. The rendered markup of the components and \<open>moment(date)\<close> are not
  modelled, only what the components decide. The action creators \<open>addPost\<close>,
  \<open>addComment\<close>, \<open>deleteComment\<close>, \<open>getPost\<close> and the reducers are not in the
  sources; their calls are recorded as effects. Requests carry their fields in
  the body only: express-validator's \<open>check\<close> also looks at the query string,
  cookies, headers and path parameters, which the model leaves out. Request
  bodies hold JSON scalars (no arrays or objects), and the Profile schema's
  casting and validation of sub-document fields (dates, booleans) at
  \<open>save()\<close> is not modelled, since the model files are not in the sources.
\<close>

end
